theory Spec2Isabelle
  imports Main
begin

section \<open>Python values\<close>

text \<open>
  The scraper handles dynamically typed data: decoded JSON bodies, the detection result and
  the configuration it is read back from are all Python dictionaries whose values may be
  \<^verbatim>\<open>None\<close>, booleans, numbers, strings, lists or dictionaries. One datatype stands for
  all of them. A dictionary is an association list in insertion order (Python keeps it, and
  iterating a dictionary yields its keys in that order).

  No floating-point arithmetic is modelled. The code never computes with a decoded float: it
  only tests its truth value and prints it with \<^verbatim>\<open>str\<close>. A float is therefore represented by
  these two observations: whether it is non-zero, and its printed form.

  A character is an Isabelle \<^typ>\<open>char\<close>, that is a code point below 256. In that range
  the character classes of Python's \<^verbatim>\<open>re\<close> module and of \<^verbatim>\<open>str.strip\<close> are the ones
  written out below.
\<close>

datatype pyval =
    PNone
  | PBool bool
  | PInt int
  | PFloat bool string
  | PStr string
  | PList "pyval list"
  | PDict "(string \<times> pyval) list"

text \<open>Truth value testing, as done by \<^verbatim>\<open>if x:\<close>, \<^verbatim>\<open>x or y\<close> and \<^verbatim>\<open>not x\<close>.\<close>

fun truthy :: "pyval \<Rightarrow> bool" where
  "truthy PNone = False"
| "truthy (PBool b) = b"
| "truthy (PInt i) = (i \<noteq> 0)"
| "truthy (PFloat nonzero shown) = nonzero"
| "truthy (PStr s) = (s \<noteq> [])"
| "truthy (PList xs) = (xs \<noteq> [])"
| "truthy (PDict kvs) = (kvs \<noteq> [])"

text \<open>\<^verbatim>\<open>a or b or ... or z\<close>: the first truthy operand, else the last operand.\<close>

fun py_or :: "pyval list \<Rightarrow> pyval" where
  "py_or [] = PNone"
| "py_or [v] = v"
| "py_or (v # w # vs) = (if truthy v then v else py_or (w # vs))"

text \<open>\<^verbatim>\<open>d.get(key)\<close> on a dictionary: the value stored, else \<^verbatim>\<open>None\<close>.\<close>

definition dict_get :: "(string \<times> pyval) list \<Rightarrow> string \<Rightarrow> pyval" where
  "dict_get kvs k = (case map_of kvs k of None \<Rightarrow> PNone | Some v \<Rightarrow> v)"

subsection \<open>Strings\<close>

definition digit_chars :: string where
  "digit_chars = ''0123456789''"

definition is_digit :: "char \<Rightarrow> bool" where
  "is_digit c = (c \<in> set digit_chars)"

function str_of_nat :: "nat \<Rightarrow> string" where
  "str_of_nat n = (if n < 10 then [digit_chars ! n] else str_of_nat (n div 10) @ [digit_chars ! (n mod 10)])"
  by pat_completeness auto
termination
  by (relation "measure id") auto

declare str_of_nat.simps [simp del]

text \<open>\<^verbatim>\<open>str(i)\<close> for an integer.\<close>

definition str_of_int :: "int \<Rightarrow> string" where
  "str_of_int i = (if i < 0 then CHR ''-'' # str_of_nat (nat (- i)) else str_of_nat (nat i))"

text \<open>\<^verbatim>\<open>s.startswith(p)\<close>.\<close>

definition starts_with :: "string \<Rightarrow> string \<Rightarrow> bool" where
  "starts_with s p = (take (length p) s = p)"

text \<open>\<^verbatim>\<open>s.find(sub)\<close>: the index of the leftmost occurrence, if there is one.\<close>

fun str_find :: "string \<Rightarrow> string \<Rightarrow> nat option" where
  "str_find [] sub = (if sub = [] then Some 0 else None)"
| "str_find (c # cs) sub =
     (if starts_with (c # cs) sub then Some 0 else map_option Suc (str_find cs sub))"

text \<open>\<^verbatim>\<open>sub in s\<close> for strings.\<close>

definition str_contains :: "string \<Rightarrow> string \<Rightarrow> bool" where
  "str_contains s sub = (str_find s sub \<noteq> None)"

text \<open>\<^verbatim>\<open>s.split(sep)[0]\<close> for a non-empty separator: the part before its first occurrence.\<close>

definition split_first :: "string \<Rightarrow> string \<Rightarrow> string" where
  "split_first s sep = (case str_find s sep of None \<Rightarrow> s | Some i \<Rightarrow> take i s)"

text \<open>\<^verbatim>\<open>s.rsplit("/", 1)[0]\<close>: the part before the last slash, or all of \<open>s\<close> without one.\<close>

definition rsplit_slash :: "string \<Rightarrow> string" where
  "rsplit_slash s =
     (if CHR ''/'' \<in> set s then rev (tl (dropWhile (\<lambda>c. c \<noteq> CHR ''/'') (rev s))) else s)"

section \<open>The network and the rate limiter, as a trace of events\<close>

text \<open>
  Neither wall-clock time nor the token arithmetic of \<^verbatim>\<open>RateLimiter\<close> is modelled. What is
  modelled is the order of effects: a run produces a trace of events, newest first. An event
  is a call of \<^verbatim>\<open>RateLimiter.acquire\<close>, a request handed to the \<^verbatim>\<open>requests\<close> library, or the
  closing log line of an extraction driver (\<^verbatim>\<open>Collected n unique jobs via ...\<close>).

  The server is any function from the history so far and the request to what \<^verbatim>\<open>requests\<close>
  does with it: it returns a response, raises \<^verbatim>\<open>requests.Timeout\<close>, raises another
  \<^verbatim>\<open>requests.RequestException\<close>, or raises an exception that is no
  \<^verbatim>\<open>requests.RequestException\<close> at all (\<open>Other_exception\<close>; \<^verbatim>\<open>requests\<close> lets some exceptions
  of the libraries below it through, such as the \<^verbatim>\<open>LocationParseError\<close> of \<^verbatim>\<open>urllib3\<close> for a
  host name with an empty label). Since the answer may depend on the whole history, a
  server that answers the same URL differently each time is covered.
\<close>

datatype request = GET string | HEAD string

datatype driver = Json_api | Html

datatype event = Acquire | Sent request | Collected driver nat

record response =
  status_code :: int
  body :: string
  final_url :: string

datatype outcome = Replied response | Timeout | Request_exception | Other_exception

type_synonym network = "event list \<Rightarrow> request \<Rightarrow> outcome"

text \<open>A call either returns or lets an exception propagate to its caller.\<close>

datatype 'a result = Returned 'a | Raised

section \<open>helpers.py: fetch_page\<close>

text \<open>
  \<^verbatim>\<open>for attempt in range(max_retries)\<close>, with the number of attempts still to make as the
  recursion argument. A response returns at once; a timeout goes on to the next attempt;
  any other request exception leaves the loop. After the loop the result is \<^verbatim>\<open>None\<close>.
  The two \<^verbatim>\<open>except\<close> clauses name \<^verbatim>\<open>requests.Timeout\<close> and \<^verbatim>\<open>requests.RequestException\<close>; an
  exception of any other class is not caught and leaves \<^verbatim>\<open>fetch_page\<close>.
\<close>

fun fetch_attempts ::
  "network \<Rightarrow> string \<Rightarrow> nat \<Rightarrow> event list \<Rightarrow> response option result \<times> event list" where
  "fetch_attempts net u 0 tr = (Returned None, tr)"
| "fetch_attempts net u (Suc n) tr =
     (case net tr (GET u) of
        Replied r \<Rightarrow> (Returned (Some r), Sent (GET u) # tr)
      | Timeout \<Rightarrow> fetch_attempts net u n (Sent (GET u) # tr)
      | Request_exception \<Rightarrow> (Returned None, Sent (GET u) # tr)
      | Other_exception \<Rightarrow> (Raised, Sent (GET u) # tr))"

text \<open>
  \<^verbatim>\<open>fetch_page(url, rate_limiter, timeout, max_retries)\<close>. The tuple it returns holds the
  three fields of \<^typ>\<open>response\<close>. \<^verbatim>\<open>range(max_retries)\<close> is empty for a negative bound.
\<close>

definition fetch_page ::
  "network \<Rightarrow> string \<Rightarrow> int \<Rightarrow> event list \<Rightarrow> response option result \<times> event list" where
  "fetch_page net u max_retries tr = fetch_attempts net u (nat max_retries) (Acquire # tr)"


section \<open>Regular expressions\<close>

text \<open>
  The patterns the code hands to \<^verbatim>\<open>re\<close> are sequences of literals, single characters of a
  class, and greedy repetitions of a class, with one capturing group around a repetition. A
  pattern is kept as data and matched the way \<^verbatim>\<open>re\<close> does it: greedily, with backtracking,
  and \<^verbatim>\<open>re.search\<close> takes the leftmost position at which the pattern matches.
\<close>

definition whitespace_chars :: string where
  "whitespace_chars =
     [CHR 0x09, CHR 0x0A, CHR 0x0B, CHR 0x0C, CHR 0x0D, CHR 0x1C, CHR 0x1D, CHR 0x1E, CHR 0x1F,
      CHR 0x20, CHR 0x85, CHR 0xA0]"

datatype cls = In string | Not_in string

fun in_cls :: "cls \<Rightarrow> char \<Rightarrow> bool" where
  "in_cls (In cs) c = (c \<in> set cs)"
| "in_cls (Not_in cs) c = (c \<notin> set cs)"

definition ascii_lower :: "char \<Rightarrow> char" where
  "ascii_lower c =
     (let n = (of_char c :: nat) in if 65 \<le> n \<and> n \<le> 90 then char_of (n + 32) else c)"

text \<open>
  \<open>Lit\<close> is a literal, \<open>Alt_nocase\<close> an alternation of literals compared without regard to
  case, \<open>One\<close> one character of a class, \<open>Many c m\<close> the greedy repetition of a class at
  least \<open>m\<close> times, and \<open>Cap c m\<close> the same repetition inside the capturing group.
\<close>

datatype atom = Lit string | Alt_nocase "string list" | One cls | Many cls nat | Cap cls nat

text \<open>The longest count first, down to the minimum: greedy matching with backtracking.\<close>

fun try_lengths :: "(nat \<Rightarrow> 'a option) \<Rightarrow> nat \<Rightarrow> nat \<Rightarrow> 'a option" where
  "try_lengths f lo 0 = (if lo = 0 then f 0 else None)"
| "try_lengths f lo (Suc h) =
     (if Suc h < lo then None
      else case f (Suc h) of Some r \<Rightarrow> Some r | None \<Rightarrow> try_lengths f lo h)"

fun first_some :: "('b \<Rightarrow> 'a option) \<Rightarrow> 'b list \<Rightarrow> 'a option" where
  "first_some f [] = None"
| "first_some f (x # xs) = (case f x of Some r \<Rightarrow> Some r | None \<Rightarrow> first_some f xs)"

text \<open>
  A match of the whole pattern at the start of the string: the text of the group, if the
  pattern has one, and the rest of the string after the match.
\<close>

fun match_here :: "atom list \<Rightarrow> string \<Rightarrow> (string option \<times> string) option" where
  "match_here [] s = Some (None, s)"
| "match_here (Lit l # as) s =
     (if starts_with s l then match_here as (drop (length l) s) else None)"
| "match_here (Alt_nocase ls # as) s =
     first_some (\<lambda>l. if starts_with (map ascii_lower s) (map ascii_lower l)
                       then match_here as (drop (length l) s) else None) ls"
| "match_here (One c # as) s =
     (case s of [] \<Rightarrow> None | x # xs \<Rightarrow> if in_cls c x then match_here as xs else None)"
| "match_here (Many c m # as) s =
     try_lengths (\<lambda>k. match_here as (drop k s)) m (length (takeWhile (in_cls c) s))"
| "match_here (Cap c m # as) s =
     try_lengths (\<lambda>k. map_option (\<lambda>(g, rest). (Some (take k s), rest)) (match_here as (drop k s)))
       m (length (takeWhile (in_cls c) s))"

text \<open>\<^verbatim>\<open>re.search(pattern, s)\<close>.\<close>

fun re_search :: "atom list \<Rightarrow> string \<Rightarrow> (string option \<times> string) option" where
  "re_search as [] = match_here as []"
| "re_search as (c # cs) =
     (case match_here as (c # cs) of Some r \<Rightarrow> Some r | None \<Rightarrow> re_search as cs)"

text \<open>\<^verbatim>\<open>match.group(1)\<close> of a search, \<^verbatim>\<open>None\<close> when there is no match.\<close>

definition search_group :: "atom list \<Rightarrow> string \<Rightarrow> string option" where
  "search_group as s = (case re_search as s of None \<Rightarrow> None | Some (g, rest) \<Rightarrow> g)"

text \<open>
  \<^verbatim>\<open>re.findall(pattern, s)\<close> for a pattern with one group: the group of every match, left to
  right, each search starting where the previous match ended.
\<close>

function re_findall :: "atom list \<Rightarrow> string \<Rightarrow> string list" where
  "re_findall as s =
     (case match_here as s of
        Some (g, rest) \<Rightarrow>
          (case g of None \<Rightarrow> [] | Some t \<Rightarrow> t) #
          (if length rest < length s then re_findall as rest
           else if s = [] then [] else re_findall as (tl s))
      | None \<Rightarrow> (if s = [] then [] else re_findall as (tl s)))"
  by pat_completeness auto
termination
  by (relation "measure (\<lambda>(as, s). length s)") auto

declare re_findall.simps [simp del]

section \<open>What the libraries supply\<close>

text \<open>
  The code calls into \<^verbatim>\<open>urllib\<close>, \<^verbatim>\<open>json\<close>, \<^verbatim>\<open>BeautifulSoup\<close>, \<^verbatim>\<open>str.format\<close> and \<^verbatim>\<open>re.sub\<close>
  with patterns built at run time. These are not part of the repository; they are taken as
  parameters, so that every theorem holds for whatever they compute. Where the library
  function can raise, the parameter returns an option and \<open>None\<close> stands for the exception.

  \<^item> \<open>urljoin\<close>: \<^verbatim>\<open>urllib.parse.urljoin(base, url)\<close>;
  \<^item> \<open>py_repr\<close>: \<^verbatim>\<open>str\<close> of a list or a dictionary;
  \<^item> \<open>int_of\<close>: \<^verbatim>\<open>int\<close> of a string or a float;
  \<^item> \<open>json_loads\<close>: \<^verbatim>\<open>response.json()\<close> of a response with this body;
  \<^item> \<open>form_actions\<close>: the \<^verbatim>\<open>action\<close> attributes of the \<^verbatim>\<open>form\<close> elements of the parsed
    page that have one, in document order;
  \<^item> \<open>job_elements\<close>: \<^verbatim>\<open>find_job_elements(BeautifulSoup(content, "html.parser"))\<close>, each
    element reduced to what \<^verbatim>\<open>parse_job_from_listing\<close> reads from it;
  \<^item> \<open>str_format\<close>: \<^verbatim>\<open>template.format(offset=offset, limit=limit)\<close>;
  \<^item> \<open>re_sub_number\<close>: \<^verbatim>\<open>re.sub(f"{param}=\\d+", f"{param}={value}", s)\<close>;
  \<^item> \<open>set_listing\<close>: \<^verbatim>\<open>list(s)\<close> for the set \<^verbatim>\<open>s\<close> into which the strings of the argument were
    put one after the other. Python lists a set of strings in the order of their hashes,
    which changes from one process to the next.

  \<open>form_actions\<close> and \<open>job_elements\<close> are total: \<^verbatim>\<open>html.parser\<close> is taken to build a tree for
  every text, and a text that it rejects is not modelled.
\<close>

record listing_elem =
  first_link :: "(string \<times> string) option"
  elem_text :: string
  place_string :: "string option"

text \<open>
  \<open>first_link\<close> is \<^verbatim>\<open>job_elem.find("a", href=True)\<close> as the pair of the anchor's text and
  its \<^verbatim>\<open>href\<close>; \<open>elem_text\<close> is \<^verbatim>\<open>job_elem.get_text()\<close>; \<open>place_string\<close> is the string found
  by \<^verbatim>\<open>job_elem.find(string=...)\<close> with the pattern of place names.
\<close>

record ext =
  urljoin :: "string \<Rightarrow> string \<Rightarrow> string option"
  py_repr :: "pyval \<Rightarrow> string"
  int_of :: "pyval \<Rightarrow> int option"
  json_loads :: "string \<Rightarrow> pyval option"
  form_actions :: "string \<Rightarrow> string list"
  job_elements :: "string \<Rightarrow> listing_elem list"
  str_format :: "string \<Rightarrow> int \<Rightarrow> int \<Rightarrow> string option"
  re_sub_number :: "string \<Rightarrow> string \<Rightarrow> string \<Rightarrow> string option"
  set_listing :: "string list \<Rightarrow> string list"

text \<open>\<^verbatim>\<open>str(v)\<close>, which is also how an f-string prints \<open>v\<close>.\<close>

fun py_str :: "ext \<Rightarrow> pyval \<Rightarrow> string" where
  "py_str x PNone = ''None''"
| "py_str x (PBool b) = (if b then ''True'' else ''False'')"
| "py_str x (PInt i) = str_of_int i"
| "py_str x (PFloat nonzero shown) = shown"
| "py_str x (PStr s) = s"
| "py_str x (PList vs) = py_repr x (PList vs)"
| "py_str x (PDict kvs) = py_repr x (PDict kvs)"

subsection \<open>Dictionaries\<close>

text \<open>\<^verbatim>\<open>d[k] = v\<close>: an existing key keeps its place, a new key goes last.\<close>

fun dict_set :: "(string \<times> pyval) list \<Rightarrow> string \<Rightarrow> pyval \<Rightarrow> (string \<times> pyval) list" where
  "dict_set [] k v = [(k, v)]"
| "dict_set ((k', v') # kvs) k v = (if k' = k then (k, v) # kvs else (k', v') # dict_set kvs k v)"

text \<open>\<^verbatim>\<open>d.update(e)\<close>.\<close>

definition dict_update :: "(string \<times> pyval) list \<Rightarrow> (string \<times> pyval) list \<Rightarrow> (string \<times> pyval) list" where
  "dict_update d e = foldl (\<lambda>acc (k, v). dict_set acc k v) d e"

text \<open>\<^verbatim>\<open>key in v\<close> for a string key; \<open>None\<close> is the \<^verbatim>\<open>TypeError\<close> of a value that is no container.\<close>

fun py_in :: "string \<Rightarrow> pyval \<Rightarrow> bool option" where
  "py_in k (PDict kvs) = Some (k \<in> fst ` set kvs)"
| "py_in k (PList vs) = Some (PStr k \<in> set vs)"
| "py_in k (PStr s) = Some (str_contains s k)"
| "py_in k v = None"

section \<open>helpers.py: the detection probes\<close>

definition public_reports_pattern :: "atom list" where
  "public_reports_pattern = [Lit ''/PublicReports/'', Cap (In digit_chars) 1, Lit ''/json'']"

text \<open>
  \<^verbatim>\<open>detect_public_reports_endpoint(html, tenant, rate_limiter)\<close>. Everything from
  \<^verbatim>\<open>acquire\<close> on is inside \<^verbatim>\<open>try\<close> with \<^verbatim>\<open>except Exception\<close>: an exception of the request,
  whatever its class, a body that is no JSON and a decoded value that supports no \<^verbatim>\<open>in\<close> all
  end in \<^verbatim>\<open>return None\<close>.
\<close>

definition detect_public_reports_endpoint ::
  "ext \<Rightarrow> network \<Rightarrow> string \<Rightarrow> string \<Rightarrow> event list \<Rightarrow> (string \<times> pyval) list option \<times> event list" where
  "detect_public_reports_endpoint x net html tenant tr =
     (case re_findall public_reports_pattern html of
        [] \<Rightarrow> (None, tr)
      | report_id # others \<Rightarrow>
          (let endpoint_url = ''https://'' @ tenant @ ''/PublicReports/'' @ report_id @ ''/json'';
               req = GET (endpoint_url @ ''?offset=0&recordsPerPage=1'');
               tr' = Sent req # Acquire # tr
           in case net (Acquire # tr) req of
                Replied r \<Rightarrow>
                  (if status_code r = 200 then
                     (case json_loads x (body r) of
                        None \<Rightarrow> (None, tr')
                      | Some data \<Rightarrow>
                          (case py_in ''rows'' data of
                             None \<Rightarrow> (None, tr')
                           | Some has_rows \<Rightarrow>
                               if has_rows \<or> py_in ''data'' data = Some True then
                                 (Some [(''type'', PStr ''public_report_json''),
                                        (''endpoint'', PStr endpoint_url),
                                        (''pagination_param'', PStr ''offset''),
                                        (''page_size_param'', PStr ''recordsPerPage''),
                                        (''default_page_size'', PInt 1000),
                                        (''confidence'', PStr ''high''),
                                        (''test_status'', PStr ''success'')], tr')
                               else (None, tr')))
                   else (None, tr'))
              | Timeout \<Rightarrow> (None, tr')
              | Request_exception \<Rightarrow> (None, tr')
              | Other_exception \<Rightarrow> (None, tr')))"

text \<open>
  The path guessing of \<^verbatim>\<open>detect_search_jobs_endpoint\<close>: one \<^verbatim>\<open>acquire\<close> and one \<^verbatim>\<open>HEAD\<close>
  request per candidate path, the first that answers 200 wins, and \<^verbatim>\<open>except: pass\<close> goes
  on to the next path.
\<close>

fun guess_paths ::
  "network \<Rightarrow> string \<Rightarrow> string list \<Rightarrow> event list \<Rightarrow> (string \<times> pyval) list option \<times> event list" where
  "guess_paths net tenant [] tr = (None, tr)"
| "guess_paths net tenant (path # paths) tr =
     (let test_url = ''https://'' @ tenant @ path;
          tr' = Sent (HEAD test_url) # Acquire # tr
      in case net (Acquire # tr) (HEAD test_url) of
           Replied r \<Rightarrow>
             (if status_code r = 200 then
                (Some [(''type'', PStr ''search_jobs_html''),
                       (''endpoint'', PStr test_url),
                       (''pagination_param'', PStr ''jobOffset''),
                       (''page_size_param'', PStr ''jobRecords''),
                       (''default_page_size'', PInt 50),
                       (''confidence'', PStr ''medium''),
                       (''method'', PStr ''path_guessing'')], tr')
              else guess_paths net tenant paths tr')
         | Timeout \<Rightarrow> guess_paths net tenant paths tr'
         | Request_exception \<Rightarrow> guess_paths net tenant paths tr'
         | Other_exception \<Rightarrow> guess_paths net tenant paths tr')"

text \<open>\<^verbatim>\<open>re.compile(r"SearchJobs", re.I).search(action)\<close>.\<close>

definition matches_search_jobs :: "string \<Rightarrow> bool" where
  "matches_search_jobs action = (re_search [Alt_nocase [''SearchJobs'']] action \<noteq> None)"

text \<open>
  \<^verbatim>\<open>detect_search_jobs_endpoint(html, soup, tenant, rate_limiter)\<close>. The form branch makes no
  request; its \<^verbatim>\<open>urljoin\<close> is outside any \<^verbatim>\<open>try\<close>, so an exception of \<^verbatim>\<open>urljoin\<close> propagates.
\<close>

definition detect_search_jobs_endpoint ::
  "ext \<Rightarrow> network \<Rightarrow> string \<Rightarrow> string \<Rightarrow> event list \<Rightarrow> (string \<times> pyval) list option result \<times> event list" where
  "detect_search_jobs_endpoint x net html tenant tr =
     (case filter matches_search_jobs (form_actions x html) of
        action # others \<Rightarrow>
          (case urljoin x (''https://'' @ tenant) action of
             None \<Rightarrow> (Raised, tr)
           | Some endpoint \<Rightarrow>
               (Returned (Some [(''type'', PStr ''search_jobs_html''),
                                (''endpoint'', PStr endpoint),
                                (''pagination_param'', PStr ''jobOffset''),
                                (''page_size_param'', PStr ''jobRecords''),
                                (''default_page_size'', PInt 50),
                                (''confidence'', PStr ''medium''),
                                (''method'', PStr ''form_detection'')]), tr))
      | [] \<Rightarrow>
          (if str_contains html ''SearchJobs'' then
             (case guess_paths net tenant [''/careers/SearchJobs/'', ''/careers/SearchJobs'', ''/SearchJobs/''] tr of
                (config, tr') \<Rightarrow> (Returned config, tr'))
           else (Returned None, tr)))"

definition job_id_patterns :: "atom list list" where
  "job_id_patterns =
     [[Lit ''jobId'', One (In ''=:''), Cap (In digit_chars) 1],
      [Lit ''data-job-id'', Many (In (CHR 0x22 # whitespace_chars)) 0, Lit ''='',
       Many (In (CHR 0x22 # whitespace_chars)) 0, Cap (In digit_chars) 1],
      [Lit ''/JobDetail/'', Many (Not_in ''/'') 1, Lit ''/'', Cap (In digit_chars) 1]]"

text \<open>
  \<^verbatim>\<open>detect_job_ids_in_html(html, soup, url)\<close>. \<open>matched\<close> holds the matches of the three
  patterns in the order in which they go into the set \<^verbatim>\<open>all_job_ids\<close>; the size of the set is
  the number of different strings among them, and its first five elements are the first
  five of \<open>set_listing\<close>.
\<close>

definition detect_job_ids_in_html :: "ext \<Rightarrow> string \<Rightarrow> string \<Rightarrow> (string \<times> pyval) list option" where
  "detect_job_ids_in_html x html u =
     (let matched = concat (map (\<lambda>p. re_findall p html) job_id_patterns)
      in if matched \<noteq> [] then
           Some [(''type'', PStr ''html_scrape''),
                 (''endpoint'', PStr u),
                 (''job_count_estimate'', PInt (int (length (remdups matched)))),
                 (''confidence'', PStr ''low''),
                 (''sample_job_ids'', PList (map PStr (take 5 (set_listing x matched)))),
                 (''note'', PStr ''Requires detail page crawling'')]
         else None)"

text \<open>
  \<^verbatim>\<open>detect_endpoint_for_url(tenant, url, is_career_page, rate_limiter)\<close>, with the default
  \<^verbatim>\<open>max_retries = 2\<close> of \<^verbatim>\<open>fetch_page\<close>. The calls of \<^verbatim>\<open>fetch_page\<close> and of the probes are
  outside any \<^verbatim>\<open>try\<close>: what they raise, the function raises.
\<close>

definition detect_endpoint_for_url ::
  "ext \<Rightarrow> network \<Rightarrow> string \<Rightarrow> string \<Rightarrow> bool \<Rightarrow> event list \<Rightarrow> (string \<times> pyval) list result \<times> event list" where
  "detect_endpoint_for_url x net tenant u is_career_page tr =
     (let result = [(''tenant'', PStr tenant), (''career_url'', PStr u),
                    (''is_career_page'', PBool is_career_page), (''status'', PStr ''failed''),
                    (''type'', PNone), (''endpoint'', PNone), (''confidence'', PNone)]
      in case fetch_page net u 2 tr of
           (Raised, tr1) \<Rightarrow> (Raised, tr1)
         | (Returned None, tr1) \<Rightarrow> (Returned (dict_set result ''error'' (PStr ''fetch_failed'')), tr1)
         | (Returned (Some page_data), tr1) \<Rightarrow>
             (if status_code page_data \<noteq> 200 then
                (Returned (dict_set result ''error''
                   (PStr (''http_'' @ str_of_int (status_code page_data)))), tr1)
              else
                (let html = body page_data in
                 case detect_public_reports_endpoint x net html tenant tr1 of
                   (Some config, tr2) \<Rightarrow>
                     (Returned (dict_set (dict_update result config) ''status'' (PStr ''success'')), tr2)
                 | (None, tr2) \<Rightarrow>
                     (case detect_search_jobs_endpoint x net html tenant tr2 of
                        (Raised, tr3) \<Rightarrow> (Raised, tr3)
                      | (Returned (Some config), tr3) \<Rightarrow>
                          (Returned (dict_set (dict_update result config) ''status'' (PStr ''success'')), tr3)
                      | (Returned None, tr3) \<Rightarrow>
                          (case detect_job_ids_in_html x html u of
                             Some config \<Rightarrow>
                               (Returned (dict_set (dict_update result config) ''status'' (PStr ''partial'')), tr3)
                           | None \<Rightarrow>
                               (Returned (dict_set result ''error'' (PStr ''no_pattern_detected'')), tr3))))))"

section \<open>jobs_helper.py: normalising one job\<close>

definition MAX_PAGES_PER_SITE :: nat where
  "MAX_PAGES_PER_SITE = 20"

text \<open>\<^verbatim>\<open>re.sub(r"\s+", " ", text)\<close>; the flag says that the previous character was whitespace.\<close>

fun sub_whitespace_runs :: "bool \<Rightarrow> string \<Rightarrow> string" where
  "sub_whitespace_runs prev [] = []"
| "sub_whitespace_runs prev (c # cs) =
     (if c \<in> set whitespace_chars
      then (if prev then sub_whitespace_runs True cs else CHR '' '' # sub_whitespace_runs True cs)
      else c # sub_whitespace_runs False cs)"

text \<open>\<^verbatim>\<open>s.strip()\<close>.\<close>

definition strip :: "string \<Rightarrow> string" where
  "strip s =
     rev (dropWhile (\<lambda>c. c \<in> set whitespace_chars) (rev (dropWhile (\<lambda>c. c \<in> set whitespace_chars) s)))"

definition clean_text :: "string \<Rightarrow> string" where
  "clean_text t = (if t = [] then [] else strip (sub_whitespace_runs False t))"

definition url_id_patterns :: "atom list list" where
  "url_id_patterns =
     [[Lit ''/'', Cap (In digit_chars) 4],
      [Lit ''jobId='', Cap (In digit_chars) 1],
      [Lit ''id='', Cap (In digit_chars) 1]]"

text \<open>
  \<^verbatim>\<open>extract_job_id_from_url(url)\<close>: the group of the first pattern, in the order of the list,
  that is found anywhere in the URL.
\<close>

definition extract_job_id_from_url :: "string \<Rightarrow> string option" where
  "extract_job_id_from_url u =
     (if u = [] then None
      else case first_some (\<lambda>p. map_option fst (re_search p u)) url_id_patterns of
             None \<Rightarrow> None
           | Some g \<Rightarrow> g)"

text \<open>
  The dictionary \<^verbatim>\<open>job_data\<close>. Its keys are fixed, so it is a record; \<^verbatim>\<open>None\<close> is \<open>None\<close> for
  the fields that hold strings. \<^verbatim>\<open>job_title\<close> and \<^verbatim>\<open>job_description\<close> are whatever value the
  source object carried. The timestamp \<^verbatim>\<open>scraped_at\<close> is left out: no clock is modelled.
\<close>

record job_data =
  tenant :: pyval
  job_title :: pyval
  job_url :: "string option"
  job_id :: "string option"
  location :: "string option"
  date_posted :: "string option"
  job_description :: pyval

definition location_pattern :: "atom list" where
  "location_pattern =
     [Alt_nocase [''Location'', ''City'', ''Office''],
      Many (In (CHR '':'' # whitespace_chars)) 1,
      Cap (Not_in [CHR ''|'', CHR '';'', CHR 0x0A]) 1]"

text \<open>
  \<^verbatim>\<open>parse_job_from_listing(job_elem, base_url, tenant)\<close>. An exception of \<^verbatim>\<open>urljoin\<close> is
  caught and gives \<^verbatim>\<open>None\<close>, as does an element without a title.
\<close>

definition parse_job_from_listing :: "ext \<Rightarrow> listing_elem \<Rightarrow> string \<Rightarrow> pyval \<Rightarrow> job_data option" where
  "parse_job_from_listing x job_elem base_url tn =
     (case first_link job_elem of
        None \<Rightarrow> None
      | Some (link_text, href) \<Rightarrow>
          (case urljoin x base_url href of
             None \<Rightarrow> None
           | Some link_url \<Rightarrow>
               (let title = clean_text link_text;
                    loc = (case re_search location_pattern (elem_text job_elem) of
                             Some (g, rest) \<Rightarrow> map_option clean_text g
                           | None \<Rightarrow>
                               (case place_string job_elem of
                                  None \<Rightarrow> None
                                | Some t \<Rightarrow> if t \<noteq> [] then Some (clean_text t) else None))
                in if title \<noteq> [] then
                     Some \<lparr>tenant = tn, job_title = PStr title, job_url = Some link_url,
                           job_id = extract_job_id_from_url link_url, location = loc,
                           date_posted = None, job_description = PNone\<rparr>
                   else None)))"

definition alnum_chars :: string where
  "alnum_chars = ''abcdefghijklmnopqrstuvwxyzABCDEFGHIJKLMNOPQRSTUVWXYZ0123456789''"

definition slug_chars :: string where
  "slug_chars = alnum_chars @ ''-''"

text \<open>
  \<^verbatim>\<open>re.sub(r"[^a-zA-Z0-9-]", "", title.replace(" ", "-"))[:50]\<close>.
\<close>

definition slugify :: "string \<Rightarrow> string" where
  "slugify t =
     take 50 (filter (\<lambda>c. c \<in> set slug_chars) (map (\<lambda>c. if c = CHR '' '' then CHR ''-'' else c) t))"

text \<open>
  The block \<^verbatim>\<open># Build job URL\<close> of \<^verbatim>\<open>parse_job_from_json\<close>. The outer option is \<open>None\<close> when
  the block raises: \<^verbatim>\<open>replace\<close> on a title that is no string, \<^verbatim>\<open>startswith\<close> on a candidate
  that is no string, or an exception of \<^verbatim>\<open>urljoin\<close>. The inner option is the value of
  \<^verbatim>\<open>job_data["job_url"]\<close> after the block.
\<close>

definition build_job_url ::
  "ext \<Rightarrow> (string \<times> pyval) list \<Rightarrow> pyval \<Rightarrow> pyval \<Rightarrow> string \<Rightarrow> string option option" where
  "build_job_url x job_obj jid title base_url =
     (if truthy jid then
        (case (if truthy title then (case title of PStr t \<Rightarrow> Some (slugify t) | _ \<Rightarrow> None)
               else Some (slugify ''job'')) of
           None \<Rightarrow> None
         | Some title_slug \<Rightarrow>
             (let url_candidates =
                    [dict_get job_obj ''url'', dict_get job_obj ''jobUrl'', dict_get job_obj ''applyUrl'',
                     PStr (base_url @ ''/JobDetail/'' @ title_slug @ ''/'' @ py_str x jid),
                     PStr (base_url @ ''/jobs/JobDetail/'' @ py_str x jid)]
              in case filter truthy url_candidates of
                   [] \<Rightarrow> Some None
                 | PStr u # others \<Rightarrow>
                     if starts_with u ''http'' then Some (Some u)
                     else map_option Some (urljoin x base_url u)
                 | _ # others \<Rightarrow> None))
      else Some None)"

text \<open>
  \<^verbatim>\<open>parse_job_from_json(job_obj, tenant, base_url)\<close>. \<^verbatim>\<open>job_obj.get\<close> on anything but a
  dictionary raises, and every exception inside the function gives \<^verbatim>\<open>None\<close>. The block
  \<^verbatim>\<open># Extract location\<close> is \<open>json_location\<close>: the parts of a structured location joined by
  \<^verbatim>\<open>", "\<close>, else \<^verbatim>\<open>str\<close> of a truthy value.
\<close>

definition json_location :: "ext \<Rightarrow> (string \<times> pyval) list \<Rightarrow> string option" where
  "json_location x job_obj =
     (let location_data = py_or (map (dict_get job_obj) [''location'', ''primaryLocation'', ''city''])
      in case location_data of
           PDict ld \<Rightarrow>
             (let location_parts =
                    map (\<lambda>k. py_str x (dict_get ld k))
                      (filter (\<lambda>k. truthy (dict_get ld k)) [''city'', ''state'', ''country'', ''region''])
              in if location_parts \<noteq> []
                 then Some (concat (hd location_parts # map (\<lambda>t. '', '' @ t) (tl location_parts)))
                 else None)
         | _ \<Rightarrow> if truthy location_data then Some (py_str x location_data) else None)"

definition parse_job_from_json :: "ext \<Rightarrow> pyval \<Rightarrow> pyval \<Rightarrow> string \<Rightarrow> job_data option" where
  "parse_job_from_json x job_obj tn base_url =
     (case job_obj of
        PDict d \<Rightarrow>
          (let jid = py_or (map (dict_get d) [''id'', ''jobId'', ''Id'', ''requisitionId'', ''positionId'']);
               title = py_or (map (dict_get d) [''title'', ''jobTitle'', ''positionTitle'', ''name'']);
               description = py_or (map (dict_get d) [''description'', ''summary'', ''jobDescription'']);
               posted = py_or (map (dict_get d) [''postedDate'', ''datePosted'', ''createdDate''])
           in case build_job_url x d jid title base_url of
                None \<Rightarrow> None
              | Some built \<Rightarrow>
                  if truthy title then
                    Some \<lparr>tenant = tn, job_title = title, job_url = built,
                          job_id = (if truthy jid then Some (py_str x jid) else None),
                          location = json_location x d,
                          date_posted = (if truthy posted then Some (py_str x posted) else None),
                          job_description = description\<rparr>
                  else None)
      | _ \<Rightarrow> None)"

section \<open>jobs_helper.py: pagination\<close>

text \<open>
  \<^verbatim>\<open>try_json_api(tenant, endpoint, offset, limit)\<close>: the loop over the candidate URLs
  (\<open>try_api_urls\<close>) and the list \<^verbatim>\<open>api_urls\<close> it runs over (\<open>candidate_api_urls\<close>). An
  exception of the request, a status other than 200, a body that is no JSON, and a decoded value
  that is neither a dictionary with one of the three keys nor a non-empty list all go on to
  the next candidate.
\<close>

fun try_api_urls ::
  "ext \<Rightarrow> network \<Rightarrow> string list \<Rightarrow> event list \<Rightarrow> (string \<times> pyval) option \<times> event list" where
  "try_api_urls x net [] tr = (None, tr)"
| "try_api_urls x net (api_url # api_urls) tr =
     (let tr' = Sent (GET api_url) # tr
      in case net tr (GET api_url) of
           Replied r \<Rightarrow>
             (if status_code r = 200 then
                (case json_loads x (body r) of
                   None \<Rightarrow> try_api_urls x net api_urls tr'
                 | Some data \<Rightarrow>
                     (case data of
                        PDict d \<Rightarrow>
                          if ''jobs'' \<in> fst ` set d \<or> ''items'' \<in> fst ` set d \<or> ''results'' \<in> fst ` set d
                          then (Some (api_url, data), tr')
                          else try_api_urls x net api_urls tr'
                      | PList vs \<Rightarrow>
                          if length vs > 0 then (Some (api_url, data), tr')
                          else try_api_urls x net api_urls tr'
                      | _ \<Rightarrow> try_api_urls x net api_urls tr'))
              else try_api_urls x net api_urls tr')
         | Timeout \<Rightarrow> try_api_urls x net api_urls tr'
         | Request_exception \<Rightarrow> try_api_urls x net api_urls tr'
         | Other_exception \<Rightarrow> try_api_urls x net api_urls tr')"

definition candidate_api_urls :: "string \<Rightarrow> int \<Rightarrow> int \<Rightarrow> string list" where
  "candidate_api_urls endpoint offset limit =
     (let base_url = (if str_contains endpoint ''SearchJobs'' then split_first endpoint ''SearchJobs''
                      else rsplit_slash endpoint)
      in [base_url @ ''/PublicReports?actionPerformed=getJobsForCareerPage&jobOffset='' @ str_of_int offset
            @ ''&jobRecords='' @ str_of_int limit,
          endpoint @ ''?output=json&jobOffset='' @ str_of_int offset @ ''&jobRecords='' @ str_of_int limit,
          base_url @ ''/api/jobs?offset='' @ str_of_int offset @ ''&limit='' @ str_of_int limit])"

definition try_json_api ::
  "ext \<Rightarrow> network \<Rightarrow> pyval \<Rightarrow> string \<Rightarrow> int \<Rightarrow> int \<Rightarrow> event list \<Rightarrow> (string \<times> pyval) option \<times> event list" where
  "try_json_api x net tn endpoint offset limit tr =
     try_api_urls x net (candidate_api_urls endpoint offset limit) tr"

text \<open>
  The variables of one page: the new jobs, the two counters and the set of identifiers seen
  so far in the run. The HTML loop keeps no \<^verbatim>\<open>page_new_jobs\<close>; it tests \<^verbatim>\<open>page_jobs\<close>.
\<close>

record page_acc =
  page_jobs :: "job_data list"
  page_duplicates :: nat
  page_new_jobs :: nat
  seen :: "string set"

text \<open>\<^verbatim>\<open>if job_id:\<close> for a field that is a string or \<^verbatim>\<open>None\<close>.\<close>

definition has_id :: "job_data \<Rightarrow> bool" where
  "has_id j = (case job_id j of None \<Rightarrow> False | Some i \<Rightarrow> i \<noteq> [])"

text \<open>
  What both loops do with a parsed job: a job whose identifier was seen is counted and
  skipped; any other job is appended, after its identifier, if it has one, went into the set.
\<close>

definition add_job :: "job_data \<Rightarrow> page_acc \<Rightarrow> page_acc" where
  "add_job j a =
     (if has_id j \<and> the (job_id j) \<in> seen a then a\<lparr>page_duplicates := page_duplicates a + 1\<rparr>
      else a\<lparr>seen := (if has_id j then insert (the (job_id j)) (seen a) else seen a),
             page_jobs := page_jobs a @ [j],
             page_new_jobs := page_new_jobs a + 1\<rparr>)"

fun collect_json :: "ext \<Rightarrow> pyval \<Rightarrow> string \<Rightarrow> pyval list \<Rightarrow> page_acc \<Rightarrow> page_acc" where
  "collect_json x tn base_url [] a = a"
| "collect_json x tn base_url (job_obj # more_objs) a =
     (case parse_job_from_json x job_obj tn base_url of
        None \<Rightarrow> collect_json x tn base_url more_objs a
      | Some j \<Rightarrow> collect_json x tn base_url more_objs (add_job j a))"

fun collect_html :: "ext \<Rightarrow> pyval \<Rightarrow> string \<Rightarrow> listing_elem list \<Rightarrow> page_acc \<Rightarrow> page_acc" where
  "collect_html x tn endpoint [] a = a"
| "collect_html x tn endpoint (job_elem # more_elems) a =
     (case parse_job_from_listing x job_elem endpoint tn of
        None \<Rightarrow> collect_html x tn endpoint more_elems a
      | Some j \<Rightarrow> collect_html x tn endpoint more_elems (add_job j a))"

text \<open>
  What \<^verbatim>\<open>for job_obj in v\<close> and \<^verbatim>\<open>len(v)\<close> range over: the elements of a list, the keys of a
  dictionary, the characters of a string. Any other value raises \<^verbatim>\<open>TypeError\<close>.
\<close>

fun py_iter :: "pyval \<Rightarrow> pyval list option" where
  "py_iter (PList vs) = Some vs"
| "py_iter (PDict kvs) = Some (map (\<lambda>(k, v). PStr k) kvs)"
| "py_iter (PStr s) = Some (map (\<lambda>c. PStr [c]) s)"
| "py_iter v = None"

record scrape_state =
  jobs :: "job_data list"
  page :: nat
  consecutive_empty :: nat
  seen_job_ids :: "string set"
  trace :: "event list"

text \<open>
  One pass through the body of a \<^verbatim>\<open>while\<close> loop ends in \<^verbatim>\<open>break\<close>, or goes on to
  \<^verbatim>\<open>page += 1\<close>, the pause and the next test of the loop condition, or raises outside \<^verbatim>\<open>try\<close>.
\<close>

datatype step = Break scrape_state | Advance scrape_state | Propagate

text \<open>
  The body of the loop of \<^verbatim>\<open>scrape_via_json_api\<close>, with three of its expressions named:
  the URL of the page (\<open>json_page_url\<close>), the list looked up in the decoded body
  (\<open>jobs_list_of\<close>) and the base URL handed to the normaliser (\<open>json_base_url\<close>).
  The URL is built before \<^verbatim>\<open>try\<close>, so an exception of \<^verbatim>\<open>format\<close> or \<^verbatim>\<open>re.sub\<close> propagates;
  every exception after that is caught and breaks. \<^verbatim>\<open>page_duplicates / len(jobs_list) > 0.8\<close> is written with exact arithmetic,
  \<open>5 * page_duplicates > 4 * len\<close>: for any list that fits in memory the quotient of the
  two counts, rounded to a double, exceeds the double \<^verbatim>\<open>0.8\<close> exactly when the exact
  quotient exceeds four fifths.
\<close>

definition json_page_url :: "ext \<Rightarrow> string \<Rightarrow> pyval \<Rightarrow> pyval \<Rightarrow> int \<Rightarrow> nat \<Rightarrow> string option" where
  "json_page_url x api_url_template pagination_param page_size_param page_size pg =
     (let offset = int pg * page_size
      in if str_contains api_url_template ''{offset}''
         then str_format x api_url_template offset page_size
         else (case re_sub_number x (py_str x pagination_param) (str_of_int offset) api_url_template of
                 None \<Rightarrow> None
               | Some u \<Rightarrow> re_sub_number x (py_str x page_size_param) (str_of_int page_size) u))"

definition jobs_list_of :: "pyval \<Rightarrow> pyval" where
  "jobs_list_of data =
     (case data of
        PList vs \<Rightarrow> PList vs
      | PDict d \<Rightarrow>
          py_or [dict_get d ''jobs'', dict_get d ''items'', dict_get d ''results'',
                 dict_get d ''data'', dict_get d ''jobList'', PList []]
      | _ \<Rightarrow> PList [])"

definition json_base_url :: "string \<Rightarrow> string" where
  "json_base_url api_url =
     (if str_contains api_url ''PublicReports'' then split_first api_url ''PublicReports''
      else rsplit_slash api_url)"

definition json_page ::
  "ext \<Rightarrow> network \<Rightarrow> pyval \<Rightarrow> string \<Rightarrow> pyval \<Rightarrow> pyval \<Rightarrow> int \<Rightarrow> scrape_state \<Rightarrow> step" where
  "json_page x net tn api_url_template pagination_param page_size_param page_size st =
     (case json_page_url x api_url_template pagination_param page_size_param page_size (page st) of
        None \<Rightarrow> Propagate
      | Some api_url \<Rightarrow>
          (let st1 = st\<lparr>trace := Sent (GET api_url) # trace st\<rparr>
           in case net (trace st) (GET api_url) of
                Timeout \<Rightarrow> Break st1
              | Request_exception \<Rightarrow> Break st1
              | Other_exception \<Rightarrow> Break st1
              | Replied r \<Rightarrow>
                  (if status_code r \<noteq> 200 then Break st1
                   else case json_loads x (body r) of
                          None \<Rightarrow> Break st1
                        | Some data \<Rightarrow>
                            (case py_iter (jobs_list_of data) of
                               None \<Rightarrow> Break st1
                             | Some items \<Rightarrow>
                                 (let a = collect_json x tn (json_base_url api_url) items
                                            \<lparr>page_jobs = [], page_duplicates = 0, page_new_jobs = 0,
                                             seen = seen_job_ids st\<rparr>;
                                      st2 = st1\<lparr>seen_job_ids := seen a\<rparr>
                                  in if length items > 0 \<and> 5 * page_duplicates a > 4 * length items
                                     then Break st2
                                     else if page_new_jobs a = 0 then
                                       (if consecutive_empty st + 1 \<ge> 2
                                        then Break (st2\<lparr>consecutive_empty := consecutive_empty st + 1\<rparr>)
                                        else Advance (st2\<lparr>consecutive_empty := consecutive_empty st + 1,
                                                          jobs := jobs st @ page_jobs a\<rparr>))
                                     else Advance (st2\<lparr>consecutive_empty := 0,
                                                       jobs := jobs st @ page_jobs a\<rparr>))))))"

text \<open>How a loop was left: normally, or by an exception that goes on to the caller.\<close>

datatype loop_end = Finished scrape_state | Aborted scrape_state

function json_pages ::
  "ext \<Rightarrow> network \<Rightarrow> pyval \<Rightarrow> string \<Rightarrow> pyval \<Rightarrow> pyval \<Rightarrow> int \<Rightarrow> scrape_state \<Rightarrow> loop_end" where
  "json_pages x net tn api_url_template pagination_param page_size_param page_size st =
     (if page st < MAX_PAGES_PER_SITE then
        (case json_page x net tn api_url_template pagination_param page_size_param page_size st of
           Break st' \<Rightarrow> Finished st'
         | Propagate \<Rightarrow> Aborted st
         | Advance st' \<Rightarrow>
             json_pages x net tn api_url_template pagination_param page_size_param page_size
               (st'\<lparr>page := page st + 1\<rparr>))
      else Finished st)"
  by pat_completeness auto
termination
  by (relation "measure (\<lambda>(x, net, tn, api_url_template, pagination_param, page_size_param, page_size, st).
                           MAX_PAGES_PER_SITE - page st)") auto

declare json_pages.simps [simp del]

text \<open>
  \<^verbatim>\<open>scrape_via_json_api(tenant, api_url_template, pagination_param, page_size_param,
  page_size)\<close>, with the closing log line as an event.
\<close>

definition scrape_via_json_api ::
  "ext \<Rightarrow> network \<Rightarrow> pyval \<Rightarrow> string \<Rightarrow> pyval \<Rightarrow> pyval \<Rightarrow> int \<Rightarrow> event list \<Rightarrow> job_data list result \<times> event list" where
  "scrape_via_json_api x net tn api_url_template pagination_param page_size_param page_size tr =
     (case json_pages x net tn api_url_template pagination_param page_size_param page_size
             \<lparr>jobs = [], page = 0, consecutive_empty = 0, seen_job_ids = {}, trace = tr\<rparr> of
        Finished st \<Rightarrow> (Returned (jobs st), Collected Json_api (length (jobs st)) # trace st)
      | Aborted st \<Rightarrow> (Raised, trace st))"

text \<open>
  The body of the loop of \<^verbatim>\<open>scrape_via_html_parsing\<close>, with the URL of the page named
  \<open>html_page_url\<close>. The status of the response is not looked at. The duplicate test is written with exact arithmetic as above.
\<close>

definition html_page_url :: "ext \<Rightarrow> string \<Rightarrow> pyval \<Rightarrow> pyval \<Rightarrow> int \<Rightarrow> nat \<Rightarrow> string" where
  "html_page_url x endpoint pagination_param page_size_param page_size pg =
     (let offset = int pg * page_size;
          separator = (if str_contains endpoint ''?'' then ''&'' else ''?'')
      in endpoint @ separator @ py_str x pagination_param @ ''='' @ str_of_int offset
           @ ''&'' @ py_str x page_size_param @ ''='' @ str_of_int page_size)"

definition html_page ::
  "ext \<Rightarrow> network \<Rightarrow> pyval \<Rightarrow> string \<Rightarrow> pyval \<Rightarrow> pyval \<Rightarrow> int \<Rightarrow> scrape_state \<Rightarrow> step" where
  "html_page x net tn endpoint pagination_param page_size_param page_size st =
     (let u = html_page_url x endpoint pagination_param page_size_param page_size (page st);
          st1 = st\<lparr>trace := Sent (GET u) # trace st\<rparr>
      in case net (trace st) (GET u) of
           Timeout \<Rightarrow> Break st1
         | Request_exception \<Rightarrow> Break st1
         | Other_exception \<Rightarrow> Break st1
         | Replied r \<Rightarrow>
             (let elems = job_elements x (body r)
              in if elems = [] then
                   (if consecutive_empty st + 1 \<ge> 2
                    then Break (st1\<lparr>consecutive_empty := consecutive_empty st + 1\<rparr>)
                    else Advance (st1\<lparr>consecutive_empty := consecutive_empty st + 1\<rparr>))
                 else
                   (let a = collect_html x tn endpoint elems
                              \<lparr>page_jobs = [], page_duplicates = 0, page_new_jobs = 0,
                               seen = seen_job_ids st\<rparr>;
                        st2 = st1\<lparr>seen_job_ids := seen a\<rparr>
                    in if length elems > 0 \<and> 5 * page_duplicates a > 4 * length elems
                       then Break st2
                       else if page_jobs a = [] then
                         (if consecutive_empty st + 1 \<ge> 2
                          then Break (st2\<lparr>consecutive_empty := consecutive_empty st + 1\<rparr>)
                          else Advance (st2\<lparr>consecutive_empty := consecutive_empty st + 1,
                                            jobs := jobs st @ page_jobs a\<rparr>))
                       else Advance (st2\<lparr>consecutive_empty := 0, jobs := jobs st @ page_jobs a\<rparr>))))"

function html_pages ::
  "ext \<Rightarrow> network \<Rightarrow> pyval \<Rightarrow> string \<Rightarrow> pyval \<Rightarrow> pyval \<Rightarrow> int \<Rightarrow> scrape_state \<Rightarrow> loop_end" where
  "html_pages x net tn endpoint pagination_param page_size_param page_size st =
     (if page st < MAX_PAGES_PER_SITE then
        (case html_page x net tn endpoint pagination_param page_size_param page_size st of
           Break st' \<Rightarrow> Finished st'
         | Propagate \<Rightarrow> Aborted st
         | Advance st' \<Rightarrow>
             html_pages x net tn endpoint pagination_param page_size_param page_size
               (st'\<lparr>page := page st + 1\<rparr>))
      else Finished st)"
  by pat_completeness auto
termination
  by (relation "measure (\<lambda>(x, net, tn, endpoint, pagination_param, page_size_param, page_size, st).
                           MAX_PAGES_PER_SITE - page st)") auto

declare html_pages.simps [simp del]

definition scrape_via_html_parsing ::
  "ext \<Rightarrow> network \<Rightarrow> pyval \<Rightarrow> string \<Rightarrow> pyval \<Rightarrow> pyval \<Rightarrow> int \<Rightarrow> event list \<Rightarrow> job_data list result \<times> event list" where
  "scrape_via_html_parsing x net tn endpoint pagination_param page_size_param page_size tr =
     (case html_pages x net tn endpoint pagination_param page_size_param page_size
             \<lparr>jobs = [], page = 0, consecutive_empty = 0, seen_job_ids = {}, trace = tr\<rparr> of
        Finished st \<Rightarrow> (Returned (jobs st), Collected Html (length (jobs st)) # trace st)
      | Aborted st \<Rightarrow> (Raised, trace st))"

text \<open>\<^verbatim>\<open>int(v)\<close>.\<close>

fun py_int :: "ext \<Rightarrow> pyval \<Rightarrow> int option" where
  "py_int x (PInt i) = Some i"
| "py_int x (PBool b) = Some (if b then 1 else 0)"
| "py_int x (PStr s) = int_of x (PStr s)"
| "py_int x (PFloat nonzero shown) = int_of x (PFloat nonzero shown)"
| "py_int x v = None"

text \<open>
  \<^verbatim>\<open>scrape_paginated_endpoint(config)\<close>. A missing \<^verbatim>\<open>tenant\<close> or \<^verbatim>\<open>endpoint\<close> raises
  \<^verbatim>\<open>KeyError\<close>, a page size that \<^verbatim>\<open>int\<close> rejects raises, and an endpoint that is no string
  raises in the first lines of \<^verbatim>\<open>try_json_api\<close>; all of this happens before any request.
\<close>

definition scrape_paginated_endpoint ::
  "ext \<Rightarrow> network \<Rightarrow> (string \<times> pyval) list \<Rightarrow> event list \<Rightarrow> job_data list result \<times> event list" where
  "scrape_paginated_endpoint x net config tr =
     (case (map_of config ''tenant'', map_of config ''endpoint'') of
        (Some tn, Some (PStr endpoint)) \<Rightarrow>
          (let pagination_param = (case map_of config ''pagination_param'' of None \<Rightarrow> PStr ''jobOffset'' | Some v \<Rightarrow> v);
               page_size_param = (case map_of config ''page_size_param'' of None \<Rightarrow> PStr ''jobRecords'' | Some v \<Rightarrow> v)
           in case py_int x (case map_of config ''default_page_size'' of None \<Rightarrow> PInt 50 | Some v \<Rightarrow> v) of
                None \<Rightarrow> (Raised, tr)
              | Some default_page_size \<Rightarrow>
                  (case try_json_api x net tn endpoint 0 default_page_size tr of
                     (Some (api_url, sample_data), tr') \<Rightarrow>
                       if api_url \<noteq> [] then
                         scrape_via_json_api x net tn api_url pagination_param page_size_param default_page_size tr'
                       else
                         scrape_via_html_parsing x net tn endpoint pagination_param page_size_param default_page_size tr'
                   | (None, tr') \<Rightarrow>
                       scrape_via_html_parsing x net tn endpoint pagination_param page_size_param default_page_size tr'))
      | _ \<Rightarrow> (Raised, tr))"

section \<open>The claims' own notions\<close>

text \<open>
  These definitions are not translations of code. They state, in the words of the
  specification, what the theorems below compare the code with.
\<close>

text \<open>
  Rate limiting of a trace (newest event first): every request comes directly after an
  \<open>Acquire\<close>, or directly after the same request, which is then an earlier attempt for the
  same page and is itself covered.
\<close>

fun acquire_before_every_request :: "event list \<Rightarrow> bool" where
  "acquire_before_every_request [] = True"
| "acquire_before_every_request (Sent r # es) =
     ((case es of
         Acquire # older \<Rightarrow> True
       | Sent r' # older \<Rightarrow> r' = r
       | _ \<Rightarrow> False) \<and> acquire_before_every_request es)"
| "acquire_before_every_request (e # es) = acquire_before_every_request es"








text \<open>
  The identifier of a URL, described without regular expressions. \<open>marker_at lit n u i\<close>:
  at index \<open>i\<close> the URL string continues with the literal \<open>lit\<close> and then with at least \<open>n\<close>
  digits. \<open>digits_after lit n u\<close>: the whole run of digits after the leftmost such place.
  \<open>marker_job_id_of_url\<close>: a slash directly followed by four or more digits comes first,
  wherever in the string it stands, then \<^verbatim>\<open>jobId=\<close> followed by digits, then \<^verbatim>\<open>id=\<close>
  followed by digits.
\<close>

definition marker_at :: "string \<Rightarrow> nat \<Rightarrow> string \<Rightarrow> nat \<Rightarrow> bool" where
  "marker_at lit n u i =
     (starts_with (drop i u) lit \<and> n \<le> length (takeWhile is_digit (drop (i + length lit) u)))"

definition digits_after :: "string \<Rightarrow> nat \<Rightarrow> string \<Rightarrow> string option" where
  "digits_after lit n u =
     (case filter (marker_at lit n u) [0..<length u] of
        [] \<Rightarrow> None
      | i # later \<Rightarrow> Some (takeWhile is_digit (drop (i + length lit) u)))"

definition marker_job_id_of_url :: "string \<Rightarrow> string option" where
  "marker_job_id_of_url u =
     (case digits_after ''/'' 4 u of
        Some c \<Rightarrow> Some c
      | None \<Rightarrow>
          (case digits_after ''jobId='' 1 u of
             Some c \<Rightarrow> Some c
           | None \<Rightarrow> digits_after ''id='' 1 u))"

text \<open>
  The identifier of a URL in the words of the claim, whose first pattern is a path segment
  of four or more consecutive digits. The path of a URL is what stands between its host and
  its query or fragment: after \<^verbatim>\<open>://\<close>, from the first slash up to the first \<^verbatim>\<open>?\<close> or \<^verbatim>\<open>#\<close>.
  Its segments are the parts between slashes. \<open>digit_run s\<close> is the leftmost run of four or
  more digits in \<open>s\<close>. The claim is read in the way that asks least of a segment: it need
  only hold such a run, which is then the capture.
\<close>

definition url_path :: "string \<Rightarrow> string" where
  "url_path u =
     takeWhile (\<lambda>c. c \<noteq> CHR ''?'' \<and> c \<noteq> CHR ''#'')
       (dropWhile (\<lambda>c. c \<noteq> CHR ''/'')
          (case str_find u ''://'' of None \<Rightarrow> u | Some i \<Rightarrow> drop (i + 3) u))"

fun split_slashes :: "string \<Rightarrow> string \<Rightarrow> string list" where
  "split_slashes seg [] = [rev seg]"
| "split_slashes seg (c # cs) =
     (if c = CHR ''/'' then rev seg # split_slashes [] cs else split_slashes (c # seg) cs)"

definition path_segments :: "string \<Rightarrow> string list" where
  "path_segments u = filter (\<lambda>seg. seg \<noteq> []) (split_slashes [] (url_path u))"

definition digit_run :: "string \<Rightarrow> string option" where
  "digit_run s =
     (case filter (\<lambda>i. 4 \<le> length (takeWhile is_digit (drop i s))) [0..<length s] of
        [] \<Rightarrow> None
      | i # later \<Rightarrow> Some (takeWhile is_digit (drop i s)))"

definition claimed_job_id_of_url :: "string \<Rightarrow> string option" where
  "claimed_job_id_of_url u =
     (case first_some digit_run (path_segments u) of
        Some c \<Rightarrow> Some c
      | None \<Rightarrow>
          (case digits_after ''jobId='' 1 u of
             Some c \<Rightarrow> Some c
           | None \<Rightarrow> digits_after ''id='' 1 u))"

text \<open>
  The identifier of a raw JSON job (the first truthy alias, else the last one looked up) and
  the first truthy value among its URL aliases.
\<close>

definition json_identifier :: "(string \<times> pyval) list \<Rightarrow> pyval" where
  "json_identifier d = py_or (map (dict_get d) [''id'', ''jobId'', ''Id'', ''requisitionId'', ''positionId''])"

definition first_url_alias :: "(string \<times> pyval) list \<Rightarrow> pyval option" where
  "first_url_alias d =
     (case filter truthy [dict_get d ''url'', dict_get d ''jobUrl'', dict_get d ''applyUrl''] of
        [] \<Rightarrow> None
      | v # later \<Rightarrow> Some v)"

text \<open>
  The identifiers a sequence of records carries: those of the records whose \<^verbatim>\<open>job_id\<close> is a
  non-empty string, in order.
\<close>

definition emitted_ids :: "job_data list \<Rightarrow> string list" where
  "emitted_ids js = map (\<lambda>j. the (job_id j)) (filter has_id js)"


text \<open>
  What a fetched page comes to, given the identifiers seen before it: \<open>page_jobs\<close> of the
  result are the new records of the page, \<open>page_duplicates\<close> the number of its duplicates,
  and \<open>seen\<close> the identifiers seen after it.
\<close>

definition json_page_result :: "ext \<Rightarrow> pyval \<Rightarrow> string \<Rightarrow> pyval list \<Rightarrow> scrape_state \<Rightarrow> page_acc" where
  "json_page_result x tn api_url items st =
     collect_json x tn (json_base_url api_url) items
       \<lparr>page_jobs = [], page_duplicates = 0, page_new_jobs = 0, seen = seen_job_ids st\<rparr>"

definition html_page_result :: "ext \<Rightarrow> pyval \<Rightarrow> string \<Rightarrow> listing_elem list \<Rightarrow> scrape_state \<Rightarrow> page_acc" where
  "html_page_result x tn endpoint elems st =
     collect_html x tn endpoint elems
       \<lparr>page_jobs = [], page_duplicates = 0, page_new_jobs = 0, seen = seen_job_ids st\<rparr>"

text \<open>The number of requests in a trace.\<close>

definition requests_sent :: "event list \<Rightarrow> nat" where
  "requests_sent tr = length (filter (\<lambda>e. case e of Sent r \<Rightarrow> True | _ \<Rightarrow> False) tr)"


section \<open>Auxiliary notions of the proofs\<close>

text \<open>
  The inner loops of both drivers do the same with the results of their parser; \<open>collect_parsed\<close>
  is that common loop. \<open>page_inv\<close> and \<open>state_inv\<close> are the invariants of the inner and of
  the outer loop: the identifiers collected so far are pairwise different and all in the set
  of seen identifiers. \<open>loop_state\<close> is the state in which a loop was left.
\<close>

fun collect_parsed :: "job_data option list \<Rightarrow> page_acc \<Rightarrow> page_acc" where
  "collect_parsed [] a = a"
| "collect_parsed (None # ps) a = collect_parsed ps a"
| "collect_parsed (Some j # ps) a = collect_parsed ps (add_job j a)"

definition page_inv :: "job_data list \<Rightarrow> page_acc \<Rightarrow> bool" where
  "page_inv js a =
     (distinct (emitted_ids (js @ page_jobs a)) \<and> set (emitted_ids (js @ page_jobs a)) \<subseteq> seen a)"

definition state_inv :: "scrape_state \<Rightarrow> bool" where
  "state_inv st =
     (distinct (emitted_ids (jobs st)) \<and> set (emitted_ids (jobs st)) \<subseteq> seen_job_ids st)"

fun loop_state :: "loop_end \<Rightarrow> scrape_state" where
  "loop_state (Finished st) = st"
| "loop_state (Aborted st) = st"

text \<open>
  The driver a run of \<^verbatim>\<open>scrape_paginated_endpoint\<close> used, read off the closing log line, which
  is the newest event of a run that returned.
\<close>

definition driver_used :: "event list \<Rightarrow> driver option" where
  "driver_used tr = (case tr of Collected d n # older \<Rightarrow> Some d | _ \<Rightarrow> None)"


text \<open>
  What \<^verbatim>\<open>try_json_api\<close> takes for a JSON API: an answer with status 200 whose body decodes to
  a dictionary with one of the keys \<^verbatim>\<open>jobs\<close>, \<^verbatim>\<open>items\<close>, \<^verbatim>\<open>results\<close>, or to a non-empty list.
  \<open>api_answers\<close>: one of the candidate URLs, asked in order, gets such an answer.
\<close>

definition accepted_as_api :: "ext \<Rightarrow> outcome \<Rightarrow> bool" where
  "accepted_as_api x out =
     (case out of
        Replied r \<Rightarrow>
          status_code r = 200 \<and>
          (case json_loads x (body r) of
             Some (PDict d) \<Rightarrow>
               ''jobs'' \<in> fst ` set d \<or> ''items'' \<in> fst ` set d \<or> ''results'' \<in> fst ` set d
           | Some (PList vs) \<Rightarrow> vs \<noteq> []
           | _ \<Rightarrow> False)
      | Timeout \<Rightarrow> False
      | Request_exception \<Rightarrow> False
      | Other_exception \<Rightarrow> False)"

fun api_answers :: "ext \<Rightarrow> network \<Rightarrow> string list \<Rightarrow> event list \<Rightarrow> bool" where
  "api_answers x net [] tr = False"
| "api_answers x net (u # us) tr =
     (accepted_as_api x (net tr (GET u)) \<or> api_answers x net us (Sent (GET u) # tr))"

section \<open>Example inputs\<close>


text \<open>
  The library parameters of the examples. They agree with the libraries on the inputs the
  examples reach: \<open>urljoin\<close> on a base without a path and a reference that is an absolute
  URL or starts with a slash, \<open>re_sub_number\<close> on a parameter name without special
  characters, \<open>json_loads\<close> and \<open>job_elements\<close> on the bodies listed. \<open>py_repr\<close>, \<open>int_of\<close>,
  \<open>str_format\<close> and \<open>set_listing\<close> are not reached.
\<close>

function sub_all :: "atom list \<Rightarrow> string \<Rightarrow> string \<Rightarrow> string" where
  "sub_all as repl s =
     (case match_here as s of
        Some (g, rest) \<Rightarrow>
          (if length rest < length s then repl @ sub_all as repl rest
           else if s = [] then repl else repl @ hd s # sub_all as repl (tl s))
      | None \<Rightarrow> (if s = [] then [] else hd s # sub_all as repl (tl s)))"
  by pat_completeness auto
termination
  by (relation "measure (\<lambda>(as, repl, s). length s)") auto

declare sub_all.simps [simp del]


text \<open>A career page with both a report link and a search form.\<close>

definition career_url :: string where
  "career_url = ''https://t.example/careers''"

definition career_page :: string where
  \<open>career_page = ''<a href="/PublicReports/12/json">Jobs</a><form action="/careers/SearchJobs"></form>''\<close>

definition report_test_url :: string where
  "report_test_url = ''https://t.example/PublicReports/12/json?offset=0&recordsPerPage=1''"

text \<open>
  Pagination examples: a JSON page of ten jobs and its first five jobs as a page of their
  own, the same for an HTML listing, and the records the normalisers make of them.
\<close>

definition ten_jobs_body :: string where
  \<open>ten_jobs_body = ''[{"id": 1, "title": "A"}, {"id": 2, "title": "B"}, {"id": 3, "title": "C"}, {"id": 4, "title": "D"}, {"id": 5, "title": "E"}, {"id": 6, "title": "F"}, {"id": 7, "title": "G"}, {"id": 8, "title": "H"}, {"id": 9, "title": "I"}, {"id": 10, "title": "J"}]''\<close>

definition ten_jobs_json :: pyval where
  "ten_jobs_json =
     PList [PDict [(''id'', PInt 1), (''title'', PStr ''A'')],
        PDict [(''id'', PInt 2), (''title'', PStr ''B'')],
        PDict [(''id'', PInt 3), (''title'', PStr ''C'')],
        PDict [(''id'', PInt 4), (''title'', PStr ''D'')],
        PDict [(''id'', PInt 5), (''title'', PStr ''E'')],
        PDict [(''id'', PInt 6), (''title'', PStr ''F'')],
        PDict [(''id'', PInt 7), (''title'', PStr ''G'')],
        PDict [(''id'', PInt 8), (''title'', PStr ''H'')],
        PDict [(''id'', PInt 9), (''title'', PStr ''I'')],
        PDict [(''id'', PInt 10), (''title'', PStr ''J'')]]"

definition ten_json_records :: "job_data list" where
  "ten_json_records =
     [\<lparr>tenant = PStr ''t.example'', job_title = PStr ''A'',
        job_url = Some ''https://t.example/careers/JobDetail/A/1'', job_id = Some ''1'',
        location = None, date_posted = None, job_description = PNone\<rparr>,
       \<lparr>tenant = PStr ''t.example'', job_title = PStr ''B'',
        job_url = Some ''https://t.example/careers/JobDetail/B/2'', job_id = Some ''2'',
        location = None, date_posted = None, job_description = PNone\<rparr>,
       \<lparr>tenant = PStr ''t.example'', job_title = PStr ''C'',
        job_url = Some ''https://t.example/careers/JobDetail/C/3'', job_id = Some ''3'',
        location = None, date_posted = None, job_description = PNone\<rparr>,
       \<lparr>tenant = PStr ''t.example'', job_title = PStr ''D'',
        job_url = Some ''https://t.example/careers/JobDetail/D/4'', job_id = Some ''4'',
        location = None, date_posted = None, job_description = PNone\<rparr>,
       \<lparr>tenant = PStr ''t.example'', job_title = PStr ''E'',
        job_url = Some ''https://t.example/careers/JobDetail/E/5'', job_id = Some ''5'',
        location = None, date_posted = None, job_description = PNone\<rparr>,
       \<lparr>tenant = PStr ''t.example'', job_title = PStr ''F'',
        job_url = Some ''https://t.example/careers/JobDetail/F/6'', job_id = Some ''6'',
        location = None, date_posted = None, job_description = PNone\<rparr>,
       \<lparr>tenant = PStr ''t.example'', job_title = PStr ''G'',
        job_url = Some ''https://t.example/careers/JobDetail/G/7'', job_id = Some ''7'',
        location = None, date_posted = None, job_description = PNone\<rparr>,
       \<lparr>tenant = PStr ''t.example'', job_title = PStr ''H'',
        job_url = Some ''https://t.example/careers/JobDetail/H/8'', job_id = Some ''8'',
        location = None, date_posted = None, job_description = PNone\<rparr>,
       \<lparr>tenant = PStr ''t.example'', job_title = PStr ''I'',
        job_url = Some ''https://t.example/careers/JobDetail/I/9'', job_id = Some ''9'',
        location = None, date_posted = None, job_description = PNone\<rparr>,
       \<lparr>tenant = PStr ''t.example'', job_title = PStr ''J'',
        job_url = Some ''https://t.example/careers/JobDetail/J/10'', job_id = Some ''10'',
        location = None, date_posted = None, job_description = PNone\<rparr>]"

definition ten_links_body :: string where
  \<open>ten_links_body = ''<ul><li><a href="https://t.example/careers/JobDetail/A/1001">A</a></li><li><a href="https://t.example/careers/JobDetail/B/1002">B</a></li><li><a href="https://t.example/careers/JobDetail/C/1003">C</a></li><li><a href="https://t.example/careers/JobDetail/D/1004">D</a></li><li><a href="https://t.example/careers/JobDetail/E/1005">E</a></li><li><a href="https://t.example/careers/JobDetail/F/1006">F</a></li><li><a href="https://t.example/careers/JobDetail/G/1007">G</a></li><li><a href="https://t.example/careers/JobDetail/H/1008">H</a></li><li><a href="https://t.example/careers/JobDetail/I/1009">I</a></li><li><a href="https://t.example/careers/JobDetail/J/1010">J</a></li></ul>''\<close>

definition ten_link_elems :: "listing_elem list" where
  "ten_link_elems =
     [\<lparr>first_link = Some (''A'', ''https://t.example/careers/JobDetail/A/1001''),
        elem_text = ''A'', place_string = None\<rparr>,
       \<lparr>first_link = Some (''B'', ''https://t.example/careers/JobDetail/B/1002''),
        elem_text = ''B'', place_string = None\<rparr>,
       \<lparr>first_link = Some (''C'', ''https://t.example/careers/JobDetail/C/1003''),
        elem_text = ''C'', place_string = None\<rparr>,
       \<lparr>first_link = Some (''D'', ''https://t.example/careers/JobDetail/D/1004''),
        elem_text = ''D'', place_string = None\<rparr>,
       \<lparr>first_link = Some (''E'', ''https://t.example/careers/JobDetail/E/1005''),
        elem_text = ''E'', place_string = None\<rparr>,
       \<lparr>first_link = Some (''F'', ''https://t.example/careers/JobDetail/F/1006''),
        elem_text = ''F'', place_string = None\<rparr>,
       \<lparr>first_link = Some (''G'', ''https://t.example/careers/JobDetail/G/1007''),
        elem_text = ''G'', place_string = None\<rparr>,
       \<lparr>first_link = Some (''H'', ''https://t.example/careers/JobDetail/H/1008''),
        elem_text = ''H'', place_string = None\<rparr>,
       \<lparr>first_link = Some (''I'', ''https://t.example/careers/JobDetail/I/1009''),
        elem_text = ''I'', place_string = None\<rparr>,
       \<lparr>first_link = Some (''J'', ''https://t.example/careers/JobDetail/J/1010''),
        elem_text = ''J'', place_string = None\<rparr>]"

definition ten_html_records :: "job_data list" where
  "ten_html_records =
     [\<lparr>tenant = PStr ''t.example'', job_title = PStr ''A'',
        job_url = Some ''https://t.example/careers/JobDetail/A/1001'', job_id = Some ''1001'',
        location = None, date_posted = None, job_description = PNone\<rparr>,
       \<lparr>tenant = PStr ''t.example'', job_title = PStr ''B'',
        job_url = Some ''https://t.example/careers/JobDetail/B/1002'', job_id = Some ''1002'',
        location = None, date_posted = None, job_description = PNone\<rparr>,
       \<lparr>tenant = PStr ''t.example'', job_title = PStr ''C'',
        job_url = Some ''https://t.example/careers/JobDetail/C/1003'', job_id = Some ''1003'',
        location = None, date_posted = None, job_description = PNone\<rparr>,
       \<lparr>tenant = PStr ''t.example'', job_title = PStr ''D'',
        job_url = Some ''https://t.example/careers/JobDetail/D/1004'', job_id = Some ''1004'',
        location = None, date_posted = None, job_description = PNone\<rparr>,
       \<lparr>tenant = PStr ''t.example'', job_title = PStr ''E'',
        job_url = Some ''https://t.example/careers/JobDetail/E/1005'', job_id = Some ''1005'',
        location = None, date_posted = None, job_description = PNone\<rparr>,
       \<lparr>tenant = PStr ''t.example'', job_title = PStr ''F'',
        job_url = Some ''https://t.example/careers/JobDetail/F/1006'', job_id = Some ''1006'',
        location = None, date_posted = None, job_description = PNone\<rparr>,
       \<lparr>tenant = PStr ''t.example'', job_title = PStr ''G'',
        job_url = Some ''https://t.example/careers/JobDetail/G/1007'', job_id = Some ''1007'',
        location = None, date_posted = None, job_description = PNone\<rparr>,
       \<lparr>tenant = PStr ''t.example'', job_title = PStr ''H'',
        job_url = Some ''https://t.example/careers/JobDetail/H/1008'', job_id = Some ''1008'',
        location = None, date_posted = None, job_description = PNone\<rparr>,
       \<lparr>tenant = PStr ''t.example'', job_title = PStr ''I'',
        job_url = Some ''https://t.example/careers/JobDetail/I/1009'', job_id = Some ''1009'',
        location = None, date_posted = None, job_description = PNone\<rparr>,
       \<lparr>tenant = PStr ''t.example'', job_title = PStr ''J'',
        job_url = Some ''https://t.example/careers/JobDetail/J/1010'', job_id = Some ''1010'',
        location = None, date_posted = None, job_description = PNone\<rparr>]"

definition five_jobs_body :: string where
  \<open>five_jobs_body = ''[{"id": 1, "title": "A"}, {"id": 2, "title": "B"}, {"id": 3, "title": "C"}, {"id": 4, "title": "D"}, {"id": 5, "title": "E"}]''\<close>

definition five_jobs_json :: pyval where
  "five_jobs_json =
     PList [PDict [(''id'', PInt 1), (''title'', PStr ''A'')],
        PDict [(''id'', PInt 2), (''title'', PStr ''B'')],
        PDict [(''id'', PInt 3), (''title'', PStr ''C'')],
        PDict [(''id'', PInt 4), (''title'', PStr ''D'')],
        PDict [(''id'', PInt 5), (''title'', PStr ''E'')]]"

definition five_json_records :: "job_data list" where
  "five_json_records =
     [\<lparr>tenant = PStr ''t.example'', job_title = PStr ''A'',
        job_url = Some ''https://t.example/careers/JobDetail/A/1'', job_id = Some ''1'',
        location = None, date_posted = None, job_description = PNone\<rparr>,
       \<lparr>tenant = PStr ''t.example'', job_title = PStr ''B'',
        job_url = Some ''https://t.example/careers/JobDetail/B/2'', job_id = Some ''2'',
        location = None, date_posted = None, job_description = PNone\<rparr>,
       \<lparr>tenant = PStr ''t.example'', job_title = PStr ''C'',
        job_url = Some ''https://t.example/careers/JobDetail/C/3'', job_id = Some ''3'',
        location = None, date_posted = None, job_description = PNone\<rparr>,
       \<lparr>tenant = PStr ''t.example'', job_title = PStr ''D'',
        job_url = Some ''https://t.example/careers/JobDetail/D/4'', job_id = Some ''4'',
        location = None, date_posted = None, job_description = PNone\<rparr>,
       \<lparr>tenant = PStr ''t.example'', job_title = PStr ''E'',
        job_url = Some ''https://t.example/careers/JobDetail/E/5'', job_id = Some ''5'',
        location = None, date_posted = None, job_description = PNone\<rparr>]"

definition five_links_body :: string where
  \<open>five_links_body = ''<ul><li><a href="https://t.example/careers/JobDetail/A/1001">A</a></li><li><a href="https://t.example/careers/JobDetail/B/1002">B</a></li><li><a href="https://t.example/careers/JobDetail/C/1003">C</a></li><li><a href="https://t.example/careers/JobDetail/D/1004">D</a></li><li><a href="https://t.example/careers/JobDetail/E/1005">E</a></li></ul>''\<close>

definition five_link_elems :: "listing_elem list" where
  "five_link_elems =
     [\<lparr>first_link = Some (''A'', ''https://t.example/careers/JobDetail/A/1001''),
        elem_text = ''A'', place_string = None\<rparr>,
       \<lparr>first_link = Some (''B'', ''https://t.example/careers/JobDetail/B/1002''),
        elem_text = ''B'', place_string = None\<rparr>,
       \<lparr>first_link = Some (''C'', ''https://t.example/careers/JobDetail/C/1003''),
        elem_text = ''C'', place_string = None\<rparr>,
       \<lparr>first_link = Some (''D'', ''https://t.example/careers/JobDetail/D/1004''),
        elem_text = ''D'', place_string = None\<rparr>,
       \<lparr>first_link = Some (''E'', ''https://t.example/careers/JobDetail/E/1005''),
        elem_text = ''E'', place_string = None\<rparr>]"

definition five_html_records :: "job_data list" where
  "five_html_records =
     [\<lparr>tenant = PStr ''t.example'', job_title = PStr ''A'',
        job_url = Some ''https://t.example/careers/JobDetail/A/1001'', job_id = Some ''1001'',
        location = None, date_posted = None, job_description = PNone\<rparr>,
       \<lparr>tenant = PStr ''t.example'', job_title = PStr ''B'',
        job_url = Some ''https://t.example/careers/JobDetail/B/1002'', job_id = Some ''1002'',
        location = None, date_posted = None, job_description = PNone\<rparr>,
       \<lparr>tenant = PStr ''t.example'', job_title = PStr ''C'',
        job_url = Some ''https://t.example/careers/JobDetail/C/1003'', job_id = Some ''1003'',
        location = None, date_posted = None, job_description = PNone\<rparr>,
       \<lparr>tenant = PStr ''t.example'', job_title = PStr ''D'',
        job_url = Some ''https://t.example/careers/JobDetail/D/1004'', job_id = Some ''1004'',
        location = None, date_posted = None, job_description = PNone\<rparr>,
       \<lparr>tenant = PStr ''t.example'', job_title = PStr ''E'',
        job_url = Some ''https://t.example/careers/JobDetail/E/1005'', job_id = Some ''1005'',
        location = None, date_posted = None, job_description = PNone\<rparr>]"

text \<open>
  Pages that have items but no job: JSON objects without a title, and list entries without
  a link. Neither normaliser makes a record of them.
\<close>

definition untitled_jobs_body :: string where
  \<open>untitled_jobs_body = ''[{"id": 1}, {"id": 2}]''\<close>

definition untitled_jobs_json :: pyval where
  "untitled_jobs_json = PList [PDict [(''id'', PInt 1)], PDict [(''id'', PInt 2)]]"

definition plain_items_body :: string where
  \<open>plain_items_body = ''<ul><li class="job">Soon</li><li class="job">Later</li></ul>''\<close>

definition plain_item_elems :: "listing_elem list" where
  "plain_item_elems =
     [\<lparr>first_link = None, elem_text = ''Soon'', place_string = None\<rparr>,
      \<lparr>first_link = None, elem_text = ''Later'', place_string = None\<rparr>]"

definition demo_json :: "(string \<times> pyval) list" where
  \<open>demo_json =
     [(''{"rows": []}'', PDict [(''rows'', PList [])]),
      (''[]'', PList []),
      (ten_jobs_body, ten_jobs_json),
      (five_jobs_body, five_jobs_json),
      (untitled_jobs_body, untitled_jobs_json)]\<close>

definition demo_listings :: "(string \<times> listing_elem list) list" where
  "demo_listings =
     [(ten_links_body, ten_link_elems), (five_links_body, five_link_elems),
      (plain_items_body, plain_item_elems)]"

definition demo_ext :: ext where
  "demo_ext =
     \<lparr>urljoin = (\<lambda>b u. Some (if starts_with u ''http'' then u else b @ u)),
      py_repr = (\<lambda>v. ''[]''),
      int_of = (\<lambda>v. None),
      json_loads = map_of demo_json,
      form_actions = (\<lambda>h. if h = career_page then [''/careers/SearchJobs''] else []),
      job_elements = (\<lambda>b. case map_of demo_listings b of None \<Rightarrow> [] | Some elems \<Rightarrow> elems),
      str_format = (\<lambda>t off lim. None),
      re_sub_number = (\<lambda>param v s. Some (sub_all [Lit (param @ ''=''), Many (In digit_chars) 1] (param @ ''='' @ v) s)),
      set_listing = remdups\<rparr>"





definition report_up_net :: network where
  \<open>report_up_net tr req =
     (case req of
        GET u \<Rightarrow>
          if u = career_url
          then Replied \<lparr>status_code = 200, body = career_page, final_url = career_url\<rparr>
          else if starts_with u ''https://t.example/PublicReports/12/json?''
          then Replied \<lparr>status_code = 200, body = ''{"rows": []}'', final_url = u\<rparr>
          else Replied \<lparr>status_code = 404, body = [], final_url = u\<rparr>
      | HEAD u \<Rightarrow> Replied \<lparr>status_code = 404, body = [], final_url = u\<rparr>)\<close>

text \<open>
  Servers for the pagination examples: one that answers every request with the same page,
  and one that answers the first request with a page and every later one with an empty page.
\<close>

definition same_json_net :: network where
  "same_json_net tr req =
     (case req of
        GET u \<Rightarrow> Replied \<lparr>status_code = 200, body = ten_jobs_body, final_url = u\<rparr>
      | HEAD u \<Rightarrow> Replied \<lparr>status_code = 200, body = [], final_url = u\<rparr>)"

definition json_then_empty_net :: network where
  "json_then_empty_net tr req =
     (case req of
        GET u \<Rightarrow>
          if tr = [] then Replied \<lparr>status_code = 200, body = five_jobs_body, final_url = u\<rparr>
          else Replied \<lparr>status_code = 200, body = ''[]'', final_url = u\<rparr>
      | HEAD u \<Rightarrow> Replied \<lparr>status_code = 200, body = [], final_url = u\<rparr>)"

definition same_html_net :: network where
  "same_html_net tr req =
     (case req of
        GET u \<Rightarrow> Replied \<lparr>status_code = 200, body = ten_links_body, final_url = u\<rparr>
      | HEAD u \<Rightarrow> Replied \<lparr>status_code = 200, body = [], final_url = u\<rparr>)"

definition html_then_empty_net :: network where
  "html_then_empty_net tr req =
     (case req of
        GET u \<Rightarrow>
          if tr = [] then Replied \<lparr>status_code = 200, body = five_links_body, final_url = u\<rparr>
          else Replied \<lparr>status_code = 200, body = ''<ul></ul>'', final_url = u\<rparr>
      | HEAD u \<Rightarrow> Replied \<lparr>status_code = 200, body = [], final_url = u\<rparr>)"

text \<open>
  Servers that answer the first request with a page of five jobs and every later one with a
  page that has items but no job.
\<close>

definition json_then_untitled_net :: network where
  "json_then_untitled_net tr req =
     (case req of
        GET u \<Rightarrow>
          if tr = [] then Replied \<lparr>status_code = 200, body = five_jobs_body, final_url = u\<rparr>
          else Replied \<lparr>status_code = 200, body = untitled_jobs_body, final_url = u\<rparr>
      | HEAD u \<Rightarrow> Replied \<lparr>status_code = 200, body = [], final_url = u\<rparr>)"

definition html_then_plain_net :: network where
  "html_then_plain_net tr req =
     (case req of
        GET u \<Rightarrow>
          if tr = [] then Replied \<lparr>status_code = 200, body = five_links_body, final_url = u\<rparr>
          else Replied \<lparr>status_code = 200, body = plain_items_body, final_url = u\<rparr>
      | HEAD u \<Rightarrow> Replied \<lparr>status_code = 200, body = [], final_url = u\<rparr>)"

definition json_template :: string where
  "json_template = ''https://t.example/careers/SearchJobs?output=json&jobOffset=0&jobRecords=50''"

definition search_endpoint :: string where
  "search_endpoint = ''https://t.example/careers/SearchJobs''"

definition refusing_net :: network where
  "refusing_net tr req = Request_exception"


text \<open>Listing elements: with a link that carries an identifier, without a link, and with a
  link that carries none.\<close>

definition engineer_elem :: listing_elem where
  "engineer_elem =
     \<lparr>first_link = Some (''  Senior  Engineer '', ''/careers/JobDetail/Senior-Engineer/12345''),
      elem_text = ''Senior Engineer Location: Berlin'', place_string = None\<rparr>"

definition no_link_elem :: listing_elem where
  "no_link_elem = \<lparr>first_link = None, elem_text = ''Open positions'', place_string = None\<rparr>"

definition about_elem :: listing_elem where
  "about_elem =
     \<lparr>first_link = Some (''About our jobs'', ''/careers/jobs/about''),
      elem_text = ''About our jobs'', place_string = None\<rparr>"

definition about_job :: job_data where
  "about_job =
     \<lparr>tenant = PStr ''t.example'', job_title = PStr ''About our jobs'',
      job_url = Some ''https://t.example/careers/jobs/about'', job_id = None, location = None,
      date_posted = None, job_description = PNone\<rparr>"

definition engineer_job :: job_data where
  "engineer_job =
     \<lparr>tenant = PStr ''t.example'', job_title = PStr ''Senior Engineer'',
      job_url = Some ''https://t.example/careers/JobDetail/Senior-Engineer/12345'',
      job_id = Some ''12345'', location = Some ''Berlin'',
      date_posted = None, job_description = PNone\<rparr>"

text \<open>
  A listing of a tenant whose host name begins with digits: the URL of job 77 and the
  element that links to it.
\<close>

definition florist_url :: string where
  "florist_url = ''https://1800flowers.avature.net/careers/JobDetail/Florist/77?jobId=77''"

definition florist_elem :: listing_elem where
  "florist_elem =
     \<lparr>first_link = Some (''Florist'', ''/careers/JobDetail/Florist/77?jobId=77''),
      elem_text = ''Florist'', place_string = None\<rparr>"

text \<open>Raw JSON jobs: one with a title and a URL but no identifier, one with an identifier.\<close>

definition job_without_id :: "(string \<times> pyval) list" where
  "job_without_id = [(''title'', PStr ''Engineer''), (''url'', PStr ''https://t.example/jobs/apply/1'')]"

definition job_with_id :: "(string \<times> pyval) list" where
  "job_with_id = [(''id'', PInt 7), (''title'', PStr ''Data Engineer'')]"

text \<open>The URLs of the first pages in the pagination examples.\<close>

definition json_page1_url :: string where
  "json_page1_url = ''https://t.example/careers/SearchJobs?output=json&jobOffset=50&jobRecords=50''"

definition json_page2_url :: string where
  "json_page2_url = ''https://t.example/careers/SearchJobs?output=json&jobOffset=100&jobRecords=50''"

definition html_page0_url :: string where
  "html_page0_url = ''https://t.example/careers/SearchJobs?jobOffset=0&jobRecords=50''"

definition html_page1_url :: string where
  "html_page1_url = ''https://t.example/careers/SearchJobs?jobOffset=50&jobRecords=50''"

definition html_page2_url :: string where
  "html_page2_url = ''https://t.example/careers/SearchJobs?jobOffset=100&jobRecords=50''"


text \<open>
  A server that never runs out of new jobs: the job of each page is numbered by the events
  that came before it. \<open>fresh_ext\<close> decodes the bodies this server sends.
\<close>

definition fresh_job_prefix :: string where
  \<open>fresh_job_prefix = ''[{"title": "T", "id": ''\<close>

definition nat_of_digits :: "string \<Rightarrow> nat" where
  "nat_of_digits ds = foldl (\<lambda>n c. 10 * n + (of_char c - 48)) 0 ds"

definition fresh_ext :: ext where
  "fresh_ext =
     demo_ext\<lparr>json_loads :=
       (\<lambda>b. if starts_with b fresh_job_prefix
                 \<and> dropWhile is_digit (drop (length fresh_job_prefix) b) = ''}]''
                 \<and> takeWhile is_digit (drop (length fresh_job_prefix) b) \<noteq> []
              then Some (PList [PDict [(''title'', PStr ''T''),
                     (''id'', PInt (int (nat_of_digits (takeWhile is_digit (drop (length fresh_job_prefix) b)))))]])
              else None)\<rparr>"

definition fresh_json_net :: network where
  "fresh_json_net tr req =
     Replied \<lparr>status_code = 200,
              body = fresh_job_prefix @ str_of_nat (length tr + 1) @ ''}]'',
              final_url = (case req of GET u \<Rightarrow> u | HEAD u \<Rightarrow> u)\<rparr>"



definition fresh_template :: string where
  "fresh_template = ''https://t.example/api/jobs?offset=0&limit=50''"

text \<open>
  The detection results for the career page of the examples: with a report endpoint that
  answers, and with one that does not. \<open>search_api_net\<close> serves the career page, refuses the
  report test, and answers the \<^verbatim>\<open>getJobsForCareerPage\<close> action with the page of ten jobs.
\<close>

definition report_config :: "(string \<times> pyval) list" where
  "report_config =
     [(''tenant'', PStr ''t.example''),
      (''career_url'', PStr ''https://t.example/careers''),
      (''is_career_page'', PBool True),
      (''status'', PStr ''success''),
      (''type'', PStr ''public_report_json''),
      (''endpoint'', PStr ''https://t.example/PublicReports/12/json''),
      (''confidence'', PStr ''high''),
      (''pagination_param'', PStr ''offset''),
      (''page_size_param'', PStr ''recordsPerPage''),
      (''default_page_size'', PInt 1000),
      (''test_status'', PStr ''success'')]"

definition search_config :: "(string \<times> pyval) list" where
  "search_config =
     [(''tenant'', PStr ''t.example''),
      (''career_url'', PStr ''https://t.example/careers''),
      (''is_career_page'', PBool True),
      (''status'', PStr ''success''),
      (''type'', PStr ''search_jobs_html''),
      (''endpoint'', PStr ''https://t.example/careers/SearchJobs''),
      (''confidence'', PStr ''medium''),
      (''pagination_param'', PStr ''jobOffset''),
      (''page_size_param'', PStr ''jobRecords''),
      (''default_page_size'', PInt 50),
      (''method'', PStr ''form_detection'')]"

definition search_api_net :: network where
  "search_api_net tr req =
     (case req of
        GET u \<Rightarrow>
          if u = career_url
          then Replied \<lparr>status_code = 200, body = career_page, final_url = career_url\<rparr>
          else if str_contains u ''getJobsForCareerPage''
          then Replied \<lparr>status_code = 200, body = ten_jobs_body, final_url = u\<rparr>
          else Replied \<lparr>status_code = 404, body = [], final_url = u\<rparr>
      | HEAD u \<Rightarrow> Replied \<lparr>status_code = 404, body = [], final_url = u\<rparr>)"

section \<open>Properties of fetch_page\<close>





section \<open>Properties of detection\<close>

lemma fetch_attempts_limited:
  "acquire_before_every_request tr0 \<Longrightarrow>
   (\<exists>es. tr0 = Acquire # es \<or> tr0 = Sent (GET u) # es) \<Longrightarrow>
   acquire_before_every_request (snd (fetch_attempts net u n tr0))"
proof (induction n arbitrary: tr0)
  case 0
  then show ?case by simp
next
  case (Suc n)
  from Suc.prems have step: "acquire_before_every_request (Sent (GET u) # tr0)"
    by auto
  show ?case
  proof (cases "net tr0 (GET u)")
    case Timeout
    have "acquire_before_every_request (snd (fetch_attempts net u n (Sent (GET u) # tr0)))"
      by (rule Suc.IH[OF step]) simp
    with Timeout show ?thesis by simp
  qed (use step in simp_all)
qed

lemma fetch_page_limited:
  "acquire_before_every_request tr \<Longrightarrow> acquire_before_every_request (snd (fetch_page net u n tr))"
  unfolding fetch_page_def by (rule fetch_attempts_limited) simp_all

lemma public_reports_limited:
  "acquire_before_every_request tr \<Longrightarrow>
   acquire_before_every_request (snd (detect_public_reports_endpoint x net html tn tr))"
  by (simp add: detect_public_reports_endpoint_def Let_def
           split: list.splits outcome.splits option.splits)

lemma guess_paths_limited:
  "acquire_before_every_request tr \<Longrightarrow> acquire_before_every_request (snd (guess_paths net tn paths tr))"
  by (induction paths arbitrary: tr) (simp_all add: Let_def split: outcome.splits)

lemma search_jobs_limited:
  "acquire_before_every_request tr \<Longrightarrow>
   acquire_before_every_request (snd (detect_search_jobs_endpoint x net html tn tr))"
proof -
  assume tr: "acquire_before_every_request tr"
  let ?paths = "[''/careers/SearchJobs/'', ''/careers/SearchJobs'', ''/SearchJobs/'']"
  obtain c tr' where g: "guess_paths net tn ?paths tr = (c, tr')"
    by (cases "guess_paths net tn ?paths tr")
  with guess_paths_limited[OF tr, of net tn ?paths] have "acquire_before_every_request tr'" by simp
  with tr g show ?thesis
    by (simp add: detect_search_jobs_endpoint_def del: guess_paths.simps
             split: list.splits option.splits)
qed

lemma limited_has_acquire:
  "acquire_before_every_request tr \<Longrightarrow> tr = newer @ Sent r # older \<Longrightarrow> Acquire \<in> set older"
proof (induction older arbitrary: tr newer r rule: length_induct)
  case (1 older)
  from "1.prems" have here: "acquire_before_every_request (Sent r # older)"
    by (induction newer arbitrary: tr) (auto elim: acquire_before_every_request.elims)
  show ?case
  proof (cases older)
    case Nil
    with here show ?thesis by simp
  next
    case (Cons e es)
    show ?thesis
    proof (cases e)
      case Acquire
      with Cons show ?thesis by simp
    next
      case (Sent r')
      with Cons here have "acquire_before_every_request (Sent r' # es)" by auto
      with "1.IH" Cons Sent have "Acquire \<in> set es"
        by (metis append_Nil length_Cons lessI)
      with Cons show ?thesis by simp
    next
      case (Collected d n)
      with Cons here show ?thesis by simp
    qed
  qed
qed


text \<open>
  Claim C3, as far as it holds. In a run of \<^verbatim>\<open>detect_endpoint_for_url\<close> (the fetch of the
  career page with its retries, the test request of the report probe, the \<^verbatim>\<open>HEAD\<close> requests
  of the path guessing) every request comes directly after an \<^verbatim>\<open>acquire\<close> or after an earlier
  attempt of the same request; in particular an \<^verbatim>\<open>acquire\<close> precedes every request.
\<close>

theorem detection_requests_follow_acquire:
  "acquire_before_every_request (snd (detect_endpoint_for_url x net tn u is_career_page []))
   \<and> (\<forall>newer r older.
         snd (detect_endpoint_for_url x net tn u is_career_page []) = newer @ Sent r # older
         \<longrightarrow> Acquire \<in> set older)"
proof -
  have base: "acquire_before_every_request (snd (fetch_page net u 2 []))"
    by (rule fetch_page_limited) simp
  have main: "acquire_before_every_request (snd (detect_endpoint_for_url x net tn u is_career_page []))"
  proof (cases "fetch_page net u 2 []")
    case (Pair res tr1)
    with base have tr1: "acquire_before_every_request tr1" by simp
    show ?thesis
    proof (cases "\<exists>page_data. res = Returned (Some page_data)")
      case False
      with Pair tr1 show ?thesis
        by (cases res) (auto simp: detect_endpoint_for_url_def split: option.splits)
    next
      case True
      then obtain page_data where Some: "res = Returned (Some page_data)" by blast
      obtain c2 tr2 where p2: "detect_public_reports_endpoint x net (body page_data) tn tr1 = (c2, tr2)"
        by (cases "detect_public_reports_endpoint x net (body page_data) tn tr1")
      with public_reports_limited[OF tr1, of x net "body page_data" tn]
      have tr2: "acquire_before_every_request tr2" by simp
      obtain c3 tr3 where p3: "detect_search_jobs_endpoint x net (body page_data) tn tr2 = (c3, tr3)"
        by (cases "detect_search_jobs_endpoint x net (body page_data) tn tr2")
      with search_jobs_limited[OF tr2, of x net "body page_data" tn]
      have tr3: "acquire_before_every_request tr3" by simp
      from Pair Some p2 p3 tr1 tr2 tr3 show ?thesis
        by (simp add: detect_endpoint_for_url_def Let_def split: option.splits result.splits)
    qed
  qed
  with limited_has_acquire show ?thesis by blast
qed


theorem detection_requests_follow_acquire_witness:
  "acquire_before_every_request
     (snd (detect_endpoint_for_url demo_ext report_up_net ''t.example'' career_url True []))
   \<and> snd (detect_endpoint_for_url demo_ext report_up_net ''t.example'' career_url True [])
       = [Sent (GET report_test_url), Acquire, Sent (GET career_url), Acquire]"
proof -
  have "snd (detect_endpoint_for_url demo_ext report_up_net ''t.example'' career_url True [])
          = [Sent (GET report_test_url), Acquire, Sent (GET career_url), Acquire]"
    by code_simp
  with detection_requests_follow_acquire[of demo_ext report_up_net "''t.example''" career_url True]
  show ?thesis by simp
qed

text \<open>
  The claim as stated also covers the pagination fetches. \<^verbatim>\<open>scrape_via_html_parsing\<close> takes no
  rate limiter: its first request is sent with no \<^verbatim>\<open>acquire\<close> before it.
\<close>

theorem pagination_request_without_acquire:
  "snd (scrape_via_html_parsing demo_ext refusing_net (PStr ''t.example'')
          ''https://t.example/careers/SearchJobs'' (PStr ''jobOffset'') (PStr ''jobRecords'') 50 [])
     = [Collected Html 0, Sent (GET ''https://t.example/careers/SearchJobs?jobOffset=0&jobRecords=50'')]
   \<and> \<not> acquire_before_every_request
         (snd (scrape_via_html_parsing demo_ext refusing_net (PStr ''t.example'')
                 ''https://t.example/careers/SearchJobs'' (PStr ''jobOffset'') (PStr ''jobRecords'') 50 []))"
  by code_simp






lemma dict_get_dict_set: "dict_get (dict_set d k v) k' = (if k' = k then v else dict_get d k')"
  by (induction d) (auto simp: dict_get_def)








section \<open>Properties of the normalisers\<close>

lemma try_lengths_greedy:
  "f hi \<noteq> None \<Longrightarrow> try_lengths f lo hi = (if hi < lo then None else f hi)"
  by (cases hi) (auto split: option.splits)

lemma in_cls_digit: "in_cls (In digit_chars) = is_digit"
  by (rule ext) (simp add: is_digit_def)

lemma match_lit_digits:
  "match_here [Lit lit, Cap (In digit_chars) n] s =
     (if starts_with s lit \<and> n \<le> length (takeWhile is_digit (drop (length lit) s))
      then Some (Some (takeWhile is_digit (drop (length lit) s)),
                 dropWhile is_digit (drop (length lit) s))
      else None)"
proof -
  let ?d = "drop (length lit) s"
  have rest: "drop (length (takeWhile is_digit ?d) + length lit) s = dropWhile is_digit ?d"
    by (metis drop_drop dropWhile_eq_drop)
  have run: "take (length (takeWhile is_digit ?d)) ?d = takeWhile is_digit ?d"
    by (metis takeWhile_eq_take)
  show ?thesis
    by (simp add: in_cls_digit try_lengths_greedy rest run)
qed

lemma marker_at_Cons: "marker_at lit n (c # cs) (Suc i) = marker_at lit n cs i"
  by (simp add: marker_at_def)

lemma digits_after_Cons:
  "digits_after lit n (c # cs) =
     (if marker_at lit n (c # cs) 0 then Some (takeWhile is_digit (drop (length lit) (c # cs)))
      else digits_after lit n cs)"
proof -
  have upt: "[0..<length (c # cs)] = 0 # map Suc [0..<length cs]"
    by (simp add: upt_conv_Cons map_Suc_upt del: upt_Suc)
  have shift: "filter (marker_at lit n (c # cs)) (map Suc is) = map Suc (filter (marker_at lit n cs) is)" for "is"
    by (induction "is") (simp_all add: marker_at_Cons)
  show ?thesis
    unfolding digits_after_def upt
    by (simp add: shift split: list.splits)
qed

lemma search_lit_digits:
  "lit \<noteq> [] \<Longrightarrow>
   map_option fst (re_search [Lit lit, Cap (In digit_chars) n] u) = map_option Some (digits_after lit n u)"
proof (induction u)
  case Nil
  then show ?case
    by (simp add: digits_after_def starts_with_def del: match_here.simps add: match_lit_digits)
next
  case (Cons c cs)
  then show ?case
    by (simp add: digits_after_Cons marker_at_def match_lit_digits del: match_here.simps)
qed

lemma digits_after_Some:
  "digits_after lit n u = Some c \<Longrightarrow> n \<le> length c \<and> set c \<subseteq> set digit_chars"
proof -
  assume a: "digits_after lit n u = Some c"
  then obtain i later where f: "filter (marker_at lit n u) [0..<length u] = i # later"
    and c: "c = takeWhile is_digit (drop (i + length lit) u)"
    by (auto simp: digits_after_def split: list.splits)
  from f have "i \<in> set (filter (marker_at lit n u) [0..<length u])" by simp
  then have "marker_at lit n u i" by simp
  with c have "n \<le> length c" by (simp add: marker_at_def)
  moreover from c have "set c \<subseteq> set digit_chars"
    using set_takeWhileD[of _ is_digit] by (auto simp: is_digit_def)
  ultimately show ?thesis by simp
qed

lemma extract_is_marker_id: "extract_job_id_from_url u = marker_job_id_of_url u"
proof (cases "u = []")
  case True
  then show ?thesis
    by (simp add: extract_job_id_from_url_def marker_job_id_of_url_def digits_after_def)
next
  case False
  have s1: "map_option fst (re_search [Lit ''/'', Cap (In digit_chars) 4] u) = map_option Some (digits_after ''/'' 4 u)"
    by (rule search_lit_digits) simp
  have s2: "map_option fst (re_search [Lit ''jobId='', Cap (In digit_chars) 1] u) = map_option Some (digits_after ''jobId='' 1 u)"
    by (rule search_lit_digits) simp
  have s3: "map_option fst (re_search [Lit ''id='', Cap (In digit_chars) 1] u) = map_option Some (digits_after ''id='' 1 u)"
    by (rule search_lit_digits) simp
  have "first_some (\<lambda>p. map_option fst (re_search p u)) url_id_patterns =
          (case map_option Some (digits_after ''/'' 4 u) of
             Some r \<Rightarrow> Some r
           | None \<Rightarrow>
               (case map_option Some (digits_after ''jobId='' 1 u) of
                  Some r \<Rightarrow> Some r
                | None \<Rightarrow>
                    (case map_option Some (digits_after ''id='' 1 u) of
                       Some r \<Rightarrow> Some r
                     | None \<Rightarrow> None)))"
    unfolding url_id_patterns_def by (simp only: first_some.simps s1 s2 s3)
  with False show ?thesis
    by (simp add: extract_job_id_from_url_def marker_job_id_of_url_def split: option.splits)
qed


text \<open>
  Claim C10, as far as it holds. The identifier that \<^verbatim>\<open>extract_job_id_from_url\<close> returns is
  the whole run of digits after the leftmost slash that is directly followed by four or more
  digits, wherever in the URL string that slash stands (the pattern is \<^verbatim>\<open>/(\d{4,})\<close>, searched
  in the whole string: it also matches in the host after \<^verbatim>\<open>//\<close>, at the start of a longer
  path segment and in the query), else the digits after the leftmost \<^verbatim>\<open>jobId=\<close> followed by
  a digit, else those after the leftmost \<^verbatim>\<open>id=\<close> followed by a digit, else \<^verbatim>\<open>None\<close>; an
  identifier that is returned is a non-empty string of the digits 0 to 9. The record of a
  listing element takes its identifier from its resolved URL alone. An element without a
  link gives no record. A record whose identifier is \<^verbatim>\<open>None\<close> is appended to the page's jobs
  whatever the set of seen identifiers holds, and leaves that set as it is.
\<close>

theorem listing_job_id_from_url:
  "extract_job_id_from_url u = marker_job_id_of_url u
   \<and> (extract_job_id_from_url u = Some c \<longrightarrow> c \<noteq> [] \<and> set c \<subseteq> set digit_chars)
   \<and> (parse_job_from_listing x job_elem base_url tn = Some j \<longrightarrow>
        (\<exists>link_text href link_url.
            first_link job_elem = Some (link_text, href)
          \<and> urljoin x base_url href = Some link_url
          \<and> job_url j = Some link_url
          \<and> job_id j = extract_job_id_from_url link_url))
   \<and> (first_link job_elem0 = None \<longrightarrow> parse_job_from_listing x job_elem0 base_url tn = None)
   \<and> (job_id j0 = None \<longrightarrow>
        add_job j0 a = a\<lparr>page_jobs := page_jobs a @ [j0], page_new_jobs := page_new_jobs a + 1\<rparr>)"
proof (intro conjI impI)
  show "extract_job_id_from_url u = marker_job_id_of_url u" by (rule extract_is_marker_id)
next
  assume "extract_job_id_from_url u = Some c"
  then have "marker_job_id_of_url u = Some c" by (simp add: extract_is_marker_id)
  then consider "digits_after ''/'' 4 u = Some c" | "digits_after ''jobId='' 1 u = Some c"
    | "digits_after ''id='' 1 u = Some c"
    by (auto simp: marker_job_id_of_url_def split: option.splits)
  then have "(1::nat) \<le> length c \<and> set c \<subseteq> set digit_chars"
    by cases (use digits_after_Some in fastforce)+
  then show "c \<noteq> []" and "set c \<subseteq> set digit_chars" by auto
next
  assume "parse_job_from_listing x job_elem base_url tn = Some j"
  then show "\<exists>link_text href link_url.
            first_link job_elem = Some (link_text, href)
          \<and> urljoin x base_url href = Some link_url
          \<and> job_url j = Some link_url
          \<and> job_id j = extract_job_id_from_url link_url"
    by (auto simp: parse_job_from_listing_def Let_def split: option.splits if_splits)
next
  assume "first_link job_elem0 = None"
  then show "parse_job_from_listing x job_elem0 base_url tn = None"
    by (simp add: parse_job_from_listing_def)
next
  assume "job_id j0 = None"
  then show "add_job j0 a = a\<lparr>page_jobs := page_jobs a @ [j0], page_new_jobs := page_new_jobs a + 1\<rparr>"
    by (simp add: add_job_def has_id_def)
qed

theorem listing_job_id_from_url_witness:
  "extract_job_id_from_url ''https://t.example/careers/JobDetail/Senior-Engineer/12345'' = Some ''12345''
   \<and> marker_job_id_of_url ''https://t.example/careers/JobDetail/Senior-Engineer/12345'' = Some ''12345''
   \<and> parse_job_from_listing demo_ext engineer_elem ''https://t.example'' (PStr ''t.example'') = Some engineer_job
   \<and> job_id engineer_job = extract_job_id_from_url ''https://t.example/careers/JobDetail/Senior-Engineer/12345''
   \<and> first_link no_link_elem = None
   \<and> parse_job_from_listing demo_ext no_link_elem ''https://t.example'' (PStr ''t.example'') = None
   \<and> parse_job_from_listing demo_ext about_elem ''https://t.example'' (PStr ''t.example'') = Some about_job
   \<and> job_id about_job = None
   \<and> add_job about_job \<lparr>page_jobs = [], page_duplicates = 0, page_new_jobs = 0, seen = {''12345''}\<rparr>
       = \<lparr>page_jobs = [about_job], page_duplicates = 0, page_new_jobs = 1, seen = {''12345''}\<rparr>"
proof -
  have e: "extract_job_id_from_url ''https://t.example/careers/JobDetail/Senior-Engineer/12345'' = Some ''12345''"
    by code_simp
  have p: "parse_job_from_listing demo_ext engineer_elem ''https://t.example'' (PStr ''t.example'') = Some engineer_job"
    by code_simp
  have n: "first_link no_link_elem = None"
    by (simp add: no_link_elem_def)
  have q: "parse_job_from_listing demo_ext about_elem ''https://t.example'' (PStr ''t.example'') = Some about_job"
    by code_simp
  have i: "job_id about_job = None" "job_id engineer_job = Some ''12345''"
    by (simp_all add: about_job_def engineer_job_def)
  from listing_job_id_from_url[of "''https://t.example/careers/JobDetail/Senior-Engineer/12345''"
      "''12345''" demo_ext engineer_elem "''https://t.example''" "PStr ''t.example''" engineer_job
      no_link_elem about_job "\<lparr>page_jobs = [], page_duplicates = 0, page_new_jobs = 0, seen = {''12345''}\<rparr>"]
    e p n q i
  show ?thesis by simp
qed

text \<open>
  The claim as stated fails for a URL whose host begins with four digits. No segment of the
  path holds four consecutive digits, so by the claim the identifier is that of
  \<^verbatim>\<open>jobId=77\<close>. The code returns the digits of the host, for this and for every other job of
  the tenant.
\<close>

theorem job_id_taken_from_host:
  "path_segments florist_url = [''careers'', ''JobDetail'', ''Florist'', ''77'']
   \<and> claimed_job_id_of_url florist_url = Some ''77''
   \<and> extract_job_id_from_url florist_url = Some ''1800''
   \<and> map_option job_id
        (parse_job_from_listing demo_ext florist_elem ''https://1800flowers.avature.net'' (PStr ''1800flowers.avature.net''))
       = Some (Some ''1800'')"
  by code_simp

lemma space_not_alnum: "CHR '' '' \<notin> set alnum_chars"
  by (simp add: alnum_chars_def)

lemma slugify_alnum: "set t \<subseteq> set alnum_chars \<Longrightarrow> slugify t = take 50 t"
proof -
  assume a: "set t \<subseteq> set alnum_chars"
  have sp: "\<forall>c \<in> set t. c \<noteq> CHR '' ''"
    using a space_not_alnum by blast
  have m: "map (\<lambda>c. if c = CHR '' '' then CHR ''-'' else c) t = t"
    using sp by (induction t) auto
  have "\<forall>c \<in> set t. c \<in> set slug_chars"
    using a by (auto simp: slug_chars_def)
  then have f: "filter (\<lambda>c. c \<in> set slug_chars) t = t"
    by (induction t) auto
  show ?thesis by (simp add: slugify_def m f)
qed

lemma slugify_shape: "length (slugify t) \<le> 50 \<and> set (slugify t) \<subseteq> set slug_chars"
  by (auto simp: slugify_def dest: in_set_takeD)

lemma build_job_url_cases:
  assumes "build_job_url x d jid title base_url = Some built" and "truthy title"
  shows "\<not> truthy jid \<longrightarrow> built = None"
    and "truthy jid \<longrightarrow>
          (\<exists>t. title = PStr t \<and>
            (case first_url_alias d of
               Some a \<Rightarrow> (\<exists>u. a = PStr u \<and> built = (if starts_with u ''http'' then Some u else urljoin x base_url u))
             | None \<Rightarrow>
                 built = (if starts_with (base_url @ ''/JobDetail/'' @ slugify t @ ''/'' @ py_str x jid) ''http''
                          then Some (base_url @ ''/JobDetail/'' @ slugify t @ ''/'' @ py_str x jid)
                          else urljoin x base_url (base_url @ ''/JobDetail/'' @ slugify t @ ''/'' @ py_str x jid))))"
proof -
  from assms(1) show "\<not> truthy jid \<longrightarrow> built = None"
    by (auto simp: build_job_url_def)
next
  show "truthy jid \<longrightarrow>
          (\<exists>t. title = PStr t \<and>
            (case first_url_alias d of
               Some a \<Rightarrow> (\<exists>u. a = PStr u \<and> built = (if starts_with u ''http'' then Some u else urljoin x base_url u))
             | None \<Rightarrow>
                 built = (if starts_with (base_url @ ''/JobDetail/'' @ slugify t @ ''/'' @ py_str x jid) ''http''
                          then Some (base_url @ ''/JobDetail/'' @ slugify t @ ''/'' @ py_str x jid)
                          else urljoin x base_url (base_url @ ''/JobDetail/'' @ slugify t @ ''/'' @ py_str x jid))))"
  proof
    assume j: "truthy jid"
    from assms j obtain t where t: "title = PStr t"
      by (cases title) (simp_all add: build_job_url_def)
    let ?aliases = "filter truthy [dict_get d ''url'', dict_get d ''jobUrl'', dict_get d ''applyUrl'']"
    let ?synth = "base_url @ ''/JobDetail/'' @ slugify t @ ''/'' @ py_str x jid"
    let ?synth2 = "base_url @ ''/jobs/JobDetail/'' @ py_str x jid"
    have cands: "filter truthy [dict_get d ''url'', dict_get d ''jobUrl'', dict_get d ''applyUrl'',
                               PStr ?synth, PStr ?synth2] = ?aliases @ [PStr ?synth, PStr ?synth2]"
      by simp
    from assms j t
    have b: "(case ?aliases @ [PStr ?synth, PStr ?synth2] of
                [] \<Rightarrow> Some None
              | PStr u # others \<Rightarrow>
                  if starts_with u ''http'' then Some (Some u) else map_option Some (urljoin x base_url u)
              | _ # others \<Rightarrow> None) = Some built"
      unfolding build_job_url_def Let_def cands[symmetric] by simp
    have "case first_url_alias d of
               Some a \<Rightarrow> (\<exists>u. a = PStr u \<and> built = (if starts_with u ''http'' then Some u else urljoin x base_url u))
             | None \<Rightarrow>
                 built = (if starts_with ?synth ''http'' then Some ?synth else urljoin x base_url ?synth)"
    proof (cases ?aliases)
      case Nil
      then have "first_url_alias d = None" by (simp add: first_url_alias_def)
      moreover from b Nil have "built = (if starts_with ?synth ''http'' then Some ?synth else urljoin x base_url ?synth)"
        by (auto split: if_splits)
      ultimately show ?thesis by simp
    next
      case (Cons a later)
      then have f: "first_url_alias d = Some a" by (simp add: first_url_alias_def)
      from b Cons obtain u where "a = PStr u"
        by (cases a) simp_all
      moreover with b Cons have "built = (if starts_with u ''http'' then Some u else urljoin x base_url u)"
        by (auto split: if_splits)
      ultimately show ?thesis using f by simp
    qed
    with t show "\<exists>t. title = PStr t \<and>
            (case first_url_alias d of
               Some a \<Rightarrow> (\<exists>u. a = PStr u \<and> built = (if starts_with u ''http'' then Some u else urljoin x base_url u))
             | None \<Rightarrow>
                 built = (if starts_with (base_url @ ''/JobDetail/'' @ slugify t @ ''/'' @ py_str x jid) ''http''
                          then Some (base_url @ ''/JobDetail/'' @ slugify t @ ''/'' @ py_str x jid)
                          else urljoin x base_url (base_url @ ''/JobDetail/'' @ slugify t @ ''/'' @ py_str x jid)))"
      by blast
  qed
qed


text \<open>
  Claim C9, as far as it holds. For a raw JSON job that yields a record: without a truthy
  identifier the record has neither identifier nor URL. With one, the title is a non-empty
  string and the URL comes from the first truthy alias among \<^verbatim>\<open>url\<close>, \<^verbatim>\<open>jobUrl\<close>, \<^verbatim>\<open>applyUrl\<close>,
  which is then a non-empty string; without such an alias the URL is built from the base
  URL, \<^verbatim>\<open>/JobDetail/\<close>, the slug of the title and the identifier. Either URL is taken as it is
  when it starts with \<^verbatim>\<open>http\<close> and is resolved against the base URL otherwise. The slug has
  at most 50 characters, all of them letters, digits or hyphens, and a title of letters and
  digits only is its own slug up to the cut at 50.
\<close>

theorem json_job_url_resolution:
  assumes "parse_job_from_json x (PDict d) tn base_url = Some j"
  shows "(\<not> truthy (json_identifier d) \<longrightarrow> job_url j = None \<and> job_id j = None)
       \<and> (truthy (json_identifier d) \<longrightarrow>
            job_id j = Some (py_str x (json_identifier d))
          \<and> (\<exists>t. job_title j = PStr t \<and> t \<noteq> [] \<and>
               (case first_url_alias d of
                  Some a \<Rightarrow>
                    (\<exists>u. a = PStr u \<and> u \<noteq> [] \<and>
                         job_url j = (if starts_with u ''http'' then Some u else urljoin x base_url u))
                | None \<Rightarrow>
                    job_url j =
                      (if starts_with (base_url @ ''/JobDetail/'' @ slugify t @ ''/'' @ py_str x (json_identifier d)) ''http''
                       then Some (base_url @ ''/JobDetail/'' @ slugify t @ ''/'' @ py_str x (json_identifier d))
                       else urljoin x base_url
                              (base_url @ ''/JobDetail/'' @ slugify t @ ''/'' @ py_str x (json_identifier d))))
             \<and> length (slugify t) \<le> 50 \<and> set (slugify t) \<subseteq> set slug_chars
             \<and> (set t \<subseteq> set alnum_chars \<longrightarrow> slugify t = take 50 t)))"
proof -
  let ?title = "py_or (map (dict_get d) [''title'', ''jobTitle'', ''positionTitle'', ''name''])"
  from assms obtain built where b: "build_job_url x d (json_identifier d) ?title base_url = Some built"
    and t: "truthy ?title" and u: "job_url j = built" and ti: "job_title j = ?title"
    and i: "job_id j = (if truthy (json_identifier d) then Some (py_str x (json_identifier d)) else None)"
  proof -
    from assms obtain built where "build_job_url x d (json_identifier d) ?title base_url = Some built"
      by (cases "build_job_url x d (json_identifier d) ?title base_url")
         (simp_all add: parse_job_from_json_def json_identifier_def Let_def del: py_or.simps)
    moreover with assms have "truthy ?title"
      by (cases "truthy ?title")
         (simp_all add: parse_job_from_json_def json_identifier_def Let_def del: py_or.simps)
    ultimately show ?thesis using assms that
      by (auto simp: parse_job_from_json_def json_identifier_def Let_def simp del: py_or.simps)
  qed
  note c = build_job_url_cases[OF b t]
  have al: "first_url_alias d = Some a \<Longrightarrow> truthy a" for a
    by (auto simp: first_url_alias_def split: list.splits if_splits)
  show ?thesis
  proof (cases "truthy (json_identifier d)")
    case False
    with c(1) u i show ?thesis by simp
  next
    case True
    with c(2) obtain t' where t': "?title = PStr t'"
      and r: "(case first_url_alias d of
               Some a \<Rightarrow> (\<exists>u. a = PStr u \<and> built = (if starts_with u ''http'' then Some u else urljoin x base_url u))
             | None \<Rightarrow>
                 built = (if starts_with (base_url @ ''/JobDetail/'' @ slugify t' @ ''/'' @ py_str x (json_identifier d)) ''http''
                          then Some (base_url @ ''/JobDetail/'' @ slugify t' @ ''/'' @ py_str x (json_identifier d))
                          else urljoin x base_url (base_url @ ''/JobDetail/'' @ slugify t' @ ''/'' @ py_str x (json_identifier d))))"
      by blast
    from t t' have ne: "t' \<noteq> []" by simp
    have "case first_url_alias d of
                  Some a \<Rightarrow>
                    (\<exists>u. a = PStr u \<and> u \<noteq> [] \<and>
                         job_url j = (if starts_with u ''http'' then Some u else urljoin x base_url u))
                | None \<Rightarrow>
                    job_url j =
                      (if starts_with (base_url @ ''/JobDetail/'' @ slugify t' @ ''/'' @ py_str x (json_identifier d)) ''http''
                       then Some (base_url @ ''/JobDetail/'' @ slugify t' @ ''/'' @ py_str x (json_identifier d))
                       else urljoin x base_url
                              (base_url @ ''/JobDetail/'' @ slugify t' @ ''/'' @ py_str x (json_identifier d)))"
      using r u al by (cases "first_url_alias d") auto
    with True i ti t' ne slugify_shape[of t'] slugify_alnum[of t'] show ?thesis
      by auto
  qed
qed


theorem json_job_url_resolution_witness:
  "parse_job_from_json demo_ext (PDict job_with_id) (PStr ''t.example'') ''https://t.example''
     = Some \<lparr>tenant = PStr ''t.example'', job_title = PStr ''Data Engineer'',
             job_url = Some ''https://t.example/JobDetail/Data-Engineer/7'', job_id = Some ''7'',
             location = None, date_posted = None, job_description = PNone\<rparr>
   \<and> truthy (json_identifier job_with_id)
   \<and> first_url_alias job_with_id = None
   \<and> slugify ''Data Engineer'' = ''Data-Engineer''"
proof -
  have p: "parse_job_from_json demo_ext (PDict job_with_id) (PStr ''t.example'') ''https://t.example''
     = Some \<lparr>tenant = PStr ''t.example'', job_title = PStr ''Data Engineer'',
             job_url = Some ''https://t.example/JobDetail/Data-Engineer/7'', job_id = Some ''7'',
             location = None, date_posted = None, job_description = PNone\<rparr>"
    by code_simp
  have t: "truthy (json_identifier job_with_id)" by code_simp
  have a: "first_url_alias job_with_id = None" by code_simp
  have s: "slugify ''Data Engineer'' = ''Data-Engineer''" by code_simp
  from json_job_url_resolution[OF p] t a s p show ?thesis by simp
qed

text \<open>
  The claim as stated fails on a job without an identifier: its \<^verbatim>\<open>url\<close> field is present and
  the record is produced, yet the record's URL is \<^verbatim>\<open>None\<close>. The slug also keeps a hyphen for
  every space of the title.
\<close>

theorem json_url_alias_ignored_without_id:
  "dict_get job_without_id ''url'' = PStr ''https://t.example/jobs/apply/1''
   \<and> parse_job_from_json demo_ext (PDict job_without_id) (PStr ''t.example'') ''https://t.example''
       = Some \<lparr>tenant = PStr ''t.example'', job_title = PStr ''Engineer'', job_url = None,
               job_id = None, location = None, date_posted = None, job_description = PNone\<rparr>
   \<and> map_option job_url
         (parse_job_from_json demo_ext (PDict job_with_id) (PStr ''t.example'') ''https://t.example'')
       = Some (Some ''https://t.example/JobDetail/Data-Engineer/7'')"
  by code_simp

section \<open>Properties of pagination\<close>

subsection \<open>No identifier is emitted twice\<close>

lemma collect_json_parsed:
  "collect_json x tn b items a = collect_parsed (map (\<lambda>item. parse_job_from_json x item tn b) items) a"
  by (induction items arbitrary: a) (simp_all split: option.splits)

lemma collect_html_parsed:
  "collect_html x tn e elems a = collect_parsed (map (\<lambda>el. parse_job_from_listing x el e tn) elems) a"
  by (induction elems arbitrary: a) (simp_all split: option.splits)

lemma emitted_ids_append: "emitted_ids (js @ ks) = emitted_ids js @ emitted_ids ks"
  by (simp add: emitted_ids_def)

lemma emitted_ids_single: "emitted_ids [j] = (if has_id j then [the (job_id j)] else [])"
  by (simp add: emitted_ids_def)

lemma add_job_inv: "page_inv js a \<Longrightarrow> page_inv js (add_job j a)"
  by (auto simp: page_inv_def add_job_def emitted_ids_append emitted_ids_single)

lemma collect_parsed_inv: "page_inv js a \<Longrightarrow> page_inv js (collect_parsed ps a)"
proof (induction ps arbitrary: a)
  case Nil
  then show ?case by simp
next
  case (Cons p ps)
  then show ?case by (cases p) (simp_all add: add_job_inv)
qed

lemma page_inv_start:
  "state_inv st \<Longrightarrow>
   page_inv (jobs st) \<lparr>page_jobs = [], page_duplicates = 0, page_new_jobs = 0, seen = seen_job_ids st\<rparr>"
  by (simp add: state_inv_def page_inv_def)

lemma json_page_fields:
  assumes "json_page x net tn tmpl pp psp psize st = Break st' \<or>
           json_page x net tn tmpl pp psp psize st = Advance st'"
  shows "(jobs st' = jobs st \<and> seen_job_ids st' = seen_job_ids st)
       \<or> (\<exists>ps. seen_job_ids st' =
                  seen (collect_parsed ps \<lparr>page_jobs = [], page_duplicates = 0, page_new_jobs = 0,
                                            seen = seen_job_ids st\<rparr>)
              \<and> (jobs st' = jobs st
                 \<or> jobs st' = jobs st @
                      page_jobs (collect_parsed ps \<lparr>page_jobs = [], page_duplicates = 0, page_new_jobs = 0,
                                                   seen = seen_job_ids st\<rparr>)))"
  using assms unfolding json_page_def Let_def collect_json_parsed
  by (auto split: option.splits outcome.splits if_splits)

lemma html_page_fields:
  assumes "html_page x net tn endpoint pp psp psize st = Break st' \<or>
           html_page x net tn endpoint pp psp psize st = Advance st'"
  shows "(jobs st' = jobs st \<and> seen_job_ids st' = seen_job_ids st)
       \<or> (\<exists>ps. seen_job_ids st' =
                  seen (collect_parsed ps \<lparr>page_jobs = [], page_duplicates = 0, page_new_jobs = 0,
                                            seen = seen_job_ids st\<rparr>)
              \<and> (jobs st' = jobs st
                 \<or> jobs st' = jobs st @
                      page_jobs (collect_parsed ps \<lparr>page_jobs = [], page_duplicates = 0, page_new_jobs = 0,
                                                   seen = seen_job_ids st\<rparr>)))"
  using assms unfolding html_page_def Let_def collect_html_parsed
  by (auto split: option.splits outcome.splits if_splits)

lemma fields_inv:
  assumes "state_inv st"
    and "(jobs st' = jobs st \<and> seen_job_ids st' = seen_job_ids st)
       \<or> (\<exists>ps. seen_job_ids st' =
                  seen (collect_parsed ps \<lparr>page_jobs = [], page_duplicates = 0, page_new_jobs = 0,
                                            seen = seen_job_ids st\<rparr>)
              \<and> (jobs st' = jobs st
                 \<or> jobs st' = jobs st @
                      page_jobs (collect_parsed ps \<lparr>page_jobs = [], page_duplicates = 0, page_new_jobs = 0,
                                                   seen = seen_job_ids st\<rparr>)))"
  shows "state_inv st'"
proof -
  from assms(2) consider "jobs st' = jobs st \<and> seen_job_ids st' = seen_job_ids st"
    | ps where "seen_job_ids st' =
                  seen (collect_parsed ps \<lparr>page_jobs = [], page_duplicates = 0, page_new_jobs = 0,
                                            seen = seen_job_ids st\<rparr>)"
        and "jobs st' = jobs st
                 \<or> jobs st' = jobs st @
                      page_jobs (collect_parsed ps \<lparr>page_jobs = [], page_duplicates = 0, page_new_jobs = 0,
                                                   seen = seen_job_ids st\<rparr>)"
    by blast
  then show ?thesis
  proof cases
    case 1
    with assms(1) show ?thesis by (simp add: state_inv_def)
  next
    case 2
    let ?a = "collect_parsed ps \<lparr>page_jobs = [], page_duplicates = 0, page_new_jobs = 0,
                                 seen = seen_job_ids st\<rparr>"
    have inv: "page_inv (jobs st) ?a"
      by (rule collect_parsed_inv) (rule page_inv_start[OF assms(1)])
    from 2(2) show ?thesis
    proof
      assume "jobs st' = jobs st"
      with inv 2(1) show ?thesis
        by (simp add: state_inv_def page_inv_def emitted_ids_append)
    next
      assume "jobs st' = jobs st @ page_jobs ?a"
      with inv 2(1) show ?thesis
        by (simp add: state_inv_def page_inv_def)
    qed
  qed
qed

lemma json_page_inv:
  assumes "state_inv st"
    and "json_page x net tn tmpl pp psp psize st = Break st' \<or>
         json_page x net tn tmpl pp psp psize st = Advance st'"
  shows "state_inv st'"
  by (rule fields_inv[OF assms(1) json_page_fields[OF assms(2)]])

lemma html_page_inv:
  assumes "state_inv st"
    and "html_page x net tn endpoint pp psp psize st = Break st' \<or>
         html_page x net tn endpoint pp psp psize st = Advance st'"
  shows "state_inv st'"
  by (rule fields_inv[OF assms(1) html_page_fields[OF assms(2)]])

lemma state_inv_page: "state_inv (st\<lparr>page := p\<rparr>) = state_inv st"
  by (simp add: state_inv_def)

lemma json_pages_inv:
  "state_inv st \<Longrightarrow> state_inv (loop_state (json_pages x net tn tmpl pp psp psize st))"
proof (induction x net tn tmpl pp psp psize st rule: json_pages.induct)
  case (1 x net tn tmpl pp psp psize st)
  show ?case
  proof (cases "page st < MAX_PAGES_PER_SITE")
    case False
    with "1.prems" show ?thesis by (simp add: json_pages.simps)
  next
    case True
    show ?thesis
    proof (cases "json_page x net tn tmpl pp psp psize st")
      case (Break st')
      with json_page_inv[OF "1.prems"] have "state_inv st'" by blast
      with True Break show ?thesis by (simp add: json_pages.simps[of _ _ _ _ _ _ _ st])
    next
      case Propagate
      with True "1.prems" show ?thesis by (simp add: json_pages.simps[of _ _ _ _ _ _ _ st])
    next
      case (Advance st')
      with json_page_inv[OF "1.prems"] have "state_inv st'" by blast
      then have "state_inv (st'\<lparr>page := page st + 1\<rparr>)" by (simp add: state_inv_page)
      from "1.IH"[OF True Advance this] True Advance show ?thesis
        by (simp add: json_pages.simps[of _ _ _ _ _ _ _ st])
    qed
  qed
qed

lemma html_pages_inv:
  "state_inv st \<Longrightarrow> state_inv (loop_state (html_pages x net tn endpoint pp psp psize st))"
proof (induction x net tn endpoint pp psp psize st rule: html_pages.induct)
  case (1 x net tn endpoint pp psp psize st)
  show ?case
  proof (cases "page st < MAX_PAGES_PER_SITE")
    case False
    with "1.prems" show ?thesis by (simp add: html_pages.simps)
  next
    case True
    show ?thesis
    proof (cases "html_page x net tn endpoint pp psp psize st")
      case (Break st')
      with html_page_inv[OF "1.prems"] have "state_inv st'" by blast
      with True Break show ?thesis by (simp add: html_pages.simps[of _ _ _ _ _ _ _ st])
    next
      case Propagate
      with True "1.prems" show ?thesis by (simp add: html_pages.simps[of _ _ _ _ _ _ _ st])
    next
      case (Advance st')
      with html_page_inv[OF "1.prems"] have "state_inv st'" by blast
      then have "state_inv (st'\<lparr>page := page st + 1\<rparr>)" by (simp add: state_inv_page)
      from "1.IH"[OF True Advance this] True Advance show ?thesis
        by (simp add: html_pages.simps[of _ _ _ _ _ _ _ st])
    qed
  qed
qed


subsection \<open>The loops, one page at a time\<close>

lemma json_pages_break:
  "page st < MAX_PAGES_PER_SITE \<Longrightarrow> json_page x net tn tmpl pp psp psize st = Break st' \<Longrightarrow>
   json_pages x net tn tmpl pp psp psize st = Finished st'"
  by (simp add: json_pages.simps[of _ _ _ _ _ _ _ st])

lemma json_pages_advance:
  "page st < MAX_PAGES_PER_SITE \<Longrightarrow> json_page x net tn tmpl pp psp psize st = Advance st' \<Longrightarrow>
   json_pages x net tn tmpl pp psp psize st =
     json_pages x net tn tmpl pp psp psize (st'\<lparr>page := page st + 1\<rparr>)"
  by (simp add: json_pages.simps[of _ _ _ _ _ _ _ st])

lemma html_pages_break:
  "page st < MAX_PAGES_PER_SITE \<Longrightarrow> html_page x net tn endpoint pp psp psize st = Break st' \<Longrightarrow>
   html_pages x net tn endpoint pp psp psize st = Finished st'"
  by (simp add: html_pages.simps[of _ _ _ _ _ _ _ st])

lemma html_pages_advance:
  "page st < MAX_PAGES_PER_SITE \<Longrightarrow> html_page x net tn endpoint pp psp psize st = Advance st' \<Longrightarrow>
   html_pages x net tn endpoint pp psp psize st =
     html_pages x net tn endpoint pp psp psize (st'\<lparr>page := page st + 1\<rparr>)"
  by (simp add: html_pages.simps[of _ _ _ _ _ _ _ st])

lemma json_page_trace:
  "json_page x net tn tmpl pp psp psize st = Break st' \<or>
   json_page x net tn tmpl pp psp psize st = Advance st' \<Longrightarrow>
   \<exists>u. trace st' = Sent (GET u) # trace st"
  unfolding json_page_def Let_def
  by (auto split: option.splits outcome.splits if_splits)

lemma html_page_trace:
  "html_page x net tn endpoint pp psp psize st = Break st' \<or>
   html_page x net tn endpoint pp psp psize st = Advance st' \<Longrightarrow>
   \<exists>u. trace st' = Sent (GET u) # trace st"
  unfolding html_page_def Let_def
  by (auto split: option.splits outcome.splits if_splits)

lemma json_pages_requests:
  "requests_sent (trace (loop_state (json_pages x net tn tmpl pp psp psize st)))
     \<le> requests_sent (trace st) + (MAX_PAGES_PER_SITE - page st)"
proof (induction x net tn tmpl pp psp psize st rule: json_pages.induct)
  case (1 x net tn tmpl pp psp psize st)
  show ?case
  proof (cases "page st < MAX_PAGES_PER_SITE")
    case False
    then show ?thesis by (simp add: json_pages.simps[of _ _ _ _ _ _ _ st])
  next
    case True
    show ?thesis
    proof (cases "json_page x net tn tmpl pp psp psize st")
      case (Break st')
      with json_page_trace obtain u where "trace st' = Sent (GET u) # trace st" by blast
      with True Break show ?thesis
        by (simp add: json_pages_break requests_sent_def)
    next
      case Propagate
      with True show ?thesis by (simp add: json_pages.simps[of _ _ _ _ _ _ _ st])
    next
      case (Advance st')
      with json_page_trace obtain u where "trace st' = Sent (GET u) # trace st" by blast
      with "1.IH"[OF True Advance] True Advance show ?thesis
        by (simp add: json_pages_advance requests_sent_def)
    qed
  qed
qed

lemma html_pages_requests:
  "requests_sent (trace (loop_state (html_pages x net tn endpoint pp psp psize st)))
     \<le> requests_sent (trace st) + (MAX_PAGES_PER_SITE - page st)"
proof (induction x net tn endpoint pp psp psize st rule: html_pages.induct)
  case (1 x net tn endpoint pp psp psize st)
  show ?case
  proof (cases "page st < MAX_PAGES_PER_SITE")
    case False
    then show ?thesis by (simp add: html_pages.simps[of _ _ _ _ _ _ _ st])
  next
    case True
    show ?thesis
    proof (cases "html_page x net tn endpoint pp psp psize st")
      case (Break st')
      with html_page_trace obtain u where "trace st' = Sent (GET u) # trace st" by blast
      with True Break show ?thesis
        by (simp add: html_pages_break requests_sent_def)
    next
      case Propagate
      with True show ?thesis by (simp add: html_pages.simps[of _ _ _ _ _ _ _ st])
    next
      case (Advance st')
      with html_page_trace obtain u where "trace st' = Sent (GET u) # trace st" by blast
      with "1.IH"[OF True Advance] True Advance show ?thesis
        by (simp add: html_pages_advance requests_sent_def)
    qed
  qed
qed

lemma collect_parsed_count:
  "page_new_jobs (collect_parsed ps a) + length (page_jobs a)
     = page_new_jobs a + length (page_jobs (collect_parsed ps a))"
proof (induction ps arbitrary: a)
  case Nil
  show ?case by simp
next
  case (Cons p ps)
  show ?case
  proof (cases p)
    case None
    with Cons show ?thesis by simp
  next
    case (Some j)
    from Cons[of "add_job j a"] Some show ?thesis
      by (auto simp: add_job_def split: if_splits)
  qed
qed

lemma fresh_count:
  "(page_new_jobs (collect_parsed ps \<lparr>page_jobs = [], page_duplicates = 0, page_new_jobs = 0, seen = s\<rparr>) = 0)
   = (page_jobs (collect_parsed ps \<lparr>page_jobs = [], page_duplicates = 0, page_new_jobs = 0, seen = s\<rparr>) = [])"
  using collect_parsed_count[of ps "\<lparr>page_jobs = [], page_duplicates = 0, page_new_jobs = 0, seen = s\<rparr>"]
  by simp

lemma collect_all_new:
  "distinct (emitted_ids js) \<Longrightarrow> set (emitted_ids js) \<inter> seen a = {} \<Longrightarrow>
   collect_parsed (map Some js) a =
     a\<lparr>page_jobs := page_jobs a @ js, page_new_jobs := page_new_jobs a + length js,
       seen := seen a \<union> set (emitted_ids js)\<rparr>"
proof (induction js arbitrary: a)
  case Nil
  show ?case by (simp add: emitted_ids_def)
next
  case (Cons j js)
  have split: "emitted_ids (j # js) = emitted_ids [j] @ emitted_ids js"
    using emitted_ids_append[of "[j]" js] by simp
  show ?case
  proof (cases "has_id j")
    case True
    with Cons.prems have new: "the (job_id j) \<notin> seen a" and d: "distinct (emitted_ids js)"
      and fresh: "set (emitted_ids js) \<inter> seen (add_job j a) = {}"
      by (auto simp: split emitted_ids_single add_job_def)
    from Cons.IH[OF d fresh] True new show ?thesis
      by (simp add: split emitted_ids_single add_job_def)
  next
    case False
    with Cons.prems have d: "distinct (emitted_ids js)"
      and fresh: "set (emitted_ids js) \<inter> seen (add_job j a) = {}"
      by (auto simp: split emitted_ids_single add_job_def)
    from Cons.IH[OF d fresh] False show ?thesis
      by (simp add: split emitted_ids_single add_job_def)
  qed
qed

lemma collect_all_dups:
  "\<forall>j \<in> set js. has_id j \<and> the (job_id j) \<in> seen a \<Longrightarrow>
   collect_parsed (map Some js) a = a\<lparr>page_duplicates := page_duplicates a + length js\<rparr>"
proof (induction js arbitrary: a)
  case Nil
  show ?case by simp
next
  case (Cons j js)
  then have here: "add_job j a = a\<lparr>page_duplicates := page_duplicates a + 1\<rparr>"
    by (simp add: add_job_def)
  from Cons.prems have "\<forall>k \<in> set js. has_id k \<and> the (job_id k) \<in> seen (a\<lparr>page_duplicates := page_duplicates a + 1\<rparr>)"
    by simp
  from Cons.IH[OF this] here show ?case by simp
qed

lemma parse_json_id_base:
  "parse_job_from_json x item tn b = Some j \<Longrightarrow> parse_job_from_json x item tn b' = Some j' \<Longrightarrow>
   job_id j' = job_id j"
  by (cases item)
     (auto simp: parse_job_from_json_def Let_def simp del: py_or.simps split: option.splits if_splits)


lemma json_page_flood:
  assumes "json_page_url x tmpl pp psp psize (page st) = Some u"
    and "net (trace st) (GET u) = Replied r" and "status_code r = 200"
    and "json_loads x (body r) = Some data" and "py_iter (jobs_list_of data) = Some items"
    and "4 * length items < 5 * page_duplicates
           (collect_json x tn (json_base_url u) items
              \<lparr>page_jobs = [], page_duplicates = 0, page_new_jobs = 0, seen = seen_job_ids st\<rparr>)"
  shows "json_page x net tn tmpl pp psp psize st =
           Break (st\<lparr>trace := Sent (GET u) # trace st,
                     seen_job_ids := seen (collect_json x tn (json_base_url u) items
                        \<lparr>page_jobs = [], page_duplicates = 0, page_new_jobs = 0, seen = seen_job_ids st\<rparr>)\<rparr>)"
proof -
  from assms(6) have "length items > 0" by (cases items) simp_all
  with assms show ?thesis
    by (simp add: json_page_def Let_def)
qed

lemma html_page_flood:
  assumes "net (trace st) (GET (html_page_url x endpoint pp psp psize (page st))) = Replied r"
    and "4 * length (job_elements x (body r)) < 5 * page_duplicates
           (collect_html x tn endpoint (job_elements x (body r))
              \<lparr>page_jobs = [], page_duplicates = 0, page_new_jobs = 0, seen = seen_job_ids st\<rparr>)"
  shows "html_page x net tn endpoint pp psp psize st =
           Break (st\<lparr>trace := Sent (GET (html_page_url x endpoint pp psp psize (page st))) # trace st,
                     seen_job_ids := seen (collect_html x tn endpoint (job_elements x (body r))
                        \<lparr>page_jobs = [], page_duplicates = 0, page_new_jobs = 0, seen = seen_job_ids st\<rparr>)\<rparr>)"
proof -
  from assms(2) have "job_elements x (body r) \<noteq> []"
    by (cases "job_elements x (body r)") simp_all
  with assms show ?thesis
    by (simp add: html_page_def Let_def)
qed

lemma json_page_counter:
  assumes "json_page x net tn tmpl pp psp psize st = Advance st'"
  shows "consecutive_empty st' = (if jobs st' = jobs st then consecutive_empty st + 1 else 0)
       \<and> consecutive_empty st' < 2"
  using assms unfolding json_page_def Let_def collect_json_parsed
  by (auto split: option.splits outcome.splits if_splits simp: fresh_count)

lemma html_page_counter:
  assumes "html_page x net tn endpoint pp psp psize st = Advance st'"
  shows "consecutive_empty st' = (if jobs st' = jobs st then consecutive_empty st + 1 else 0)
       \<and> consecutive_empty st' < 2"
  using assms unfolding html_page_def Let_def collect_html_parsed
  by (auto split: option.splits outcome.splits if_splits)

lemma json_page_all_new:
  assumes "json_page_url x tmpl pp psp psize (page st) = Some u"
    and "net (trace st) (GET u) = Replied r" and "status_code r = 200"
    and "json_loads x (body r) = Some data" and "py_iter (jobs_list_of data) = Some items"
    and "map (\<lambda>item. parse_job_from_json x item tn (json_base_url u)) items = map Some js"
    and "js \<noteq> []" and "distinct (emitted_ids js)" and "set (emitted_ids js) \<inter> seen_job_ids st = {}"
  shows "json_page x net tn tmpl pp psp psize st =
           Advance (st\<lparr>trace := Sent (GET u) # trace st,
                       seen_job_ids := seen_job_ids st \<union> set (emitted_ids js),
                       consecutive_empty := 0,
                       jobs := jobs st @ js\<rparr>)"
proof -
  let ?a0 = "\<lparr>page_jobs = [], page_duplicates = 0, page_new_jobs = 0, seen = seen_job_ids st\<rparr>"
  have a: "collect_json x tn (json_base_url u) items ?a0 =
             \<lparr>page_jobs = js, page_duplicates = 0, page_new_jobs = length js,
              seen = seen_job_ids st \<union> set (emitted_ids js)\<rparr>"
    unfolding collect_json_parsed assms(6)
    using collect_all_new[of js ?a0] assms(8,9) by simp
  from assms(6) have "length items = length js" by (metis length_map)
  with assms(1-5,7) show ?thesis
    by (simp add: json_page_def Let_def a)
qed

lemma json_page_all_dups:
  assumes "json_page_url x tmpl pp psp psize (page st) = Some u"
    and "net (trace st) (GET u) = Replied r" and "status_code r = 200"
    and "json_loads x (body r) = Some data" and "py_iter (jobs_list_of data) = Some items"
    and "map (\<lambda>item. parse_job_from_json x item tn (json_base_url u)) items = map Some js"
    and "js \<noteq> []" and "\<forall>j \<in> set js. has_id j \<and> the (job_id j) \<in> seen_job_ids st"
  shows "json_page x net tn tmpl pp psp psize st = Break (st\<lparr>trace := Sent (GET u) # trace st\<rparr>)"
proof -
  let ?a0 = "\<lparr>page_jobs = [], page_duplicates = 0, page_new_jobs = 0, seen = seen_job_ids st\<rparr>"
  have a: "collect_json x tn (json_base_url u) items ?a0 =
             \<lparr>page_jobs = [], page_duplicates = length js, page_new_jobs = 0, seen = seen_job_ids st\<rparr>"
    unfolding collect_json_parsed assms(6)
    using collect_all_dups[of js ?a0] assms(8) by simp
  from assms(6) have "length items = length js" by (metis length_map)
  with assms(1-5,7) show ?thesis
    by (simp add: json_page_def Let_def a)
qed

lemma json_page_empty:
  assumes "json_page_url x tmpl pp psp psize (page st) = Some u"
    and "net (trace st) (GET u) = Replied r" and "status_code r = 200"
    and "json_loads x (body r) = Some data" and "py_iter (jobs_list_of data) = Some []"
  shows "json_page x net tn tmpl pp psp psize st =
           (if consecutive_empty st + 1 \<ge> 2
            then Break (st\<lparr>trace := Sent (GET u) # trace st, consecutive_empty := consecutive_empty st + 1\<rparr>)
            else Advance (st\<lparr>trace := Sent (GET u) # trace st, consecutive_empty := consecutive_empty st + 1\<rparr>))"
  using assms by (simp add: json_page_def Let_def)

lemma html_page_all_new:
  assumes "net (trace st) (GET (html_page_url x endpoint pp psp psize (page st))) = Replied r"
    and "map (\<lambda>el. parse_job_from_listing x el endpoint tn) (job_elements x (body r)) = map Some js"
    and "js \<noteq> []" and "distinct (emitted_ids js)" and "set (emitted_ids js) \<inter> seen_job_ids st = {}"
  shows "html_page x net tn endpoint pp psp psize st =
           Advance (st\<lparr>trace := Sent (GET (html_page_url x endpoint pp psp psize (page st))) # trace st,
                       seen_job_ids := seen_job_ids st \<union> set (emitted_ids js),
                       consecutive_empty := 0,
                       jobs := jobs st @ js\<rparr>)"
proof -
  let ?a0 = "\<lparr>page_jobs = [], page_duplicates = 0, page_new_jobs = 0, seen = seen_job_ids st\<rparr>"
  have a: "collect_html x tn endpoint (job_elements x (body r)) ?a0 =
             \<lparr>page_jobs = js, page_duplicates = 0, page_new_jobs = length js,
              seen = seen_job_ids st \<union> set (emitted_ids js)\<rparr>"
    unfolding collect_html_parsed assms(2)
    using collect_all_new[of js ?a0] assms(4,5) by simp
  from assms(2) have "length (job_elements x (body r)) = length js" by (metis length_map)
  with assms(3) have "job_elements x (body r) \<noteq> []" by auto
  with assms(1,3) show ?thesis
    by (simp add: html_page_def Let_def a)
qed

lemma html_page_all_dups:
  assumes "net (trace st) (GET (html_page_url x endpoint pp psp psize (page st))) = Replied r"
    and "map (\<lambda>el. parse_job_from_listing x el endpoint tn) (job_elements x (body r)) = map Some js"
    and "js \<noteq> []" and "\<forall>j \<in> set js. has_id j \<and> the (job_id j) \<in> seen_job_ids st"
  shows "html_page x net tn endpoint pp psp psize st =
           Break (st\<lparr>trace := Sent (GET (html_page_url x endpoint pp psp psize (page st))) # trace st\<rparr>)"
proof -
  let ?a0 = "\<lparr>page_jobs = [], page_duplicates = 0, page_new_jobs = 0, seen = seen_job_ids st\<rparr>"
  have a: "collect_html x tn endpoint (job_elements x (body r)) ?a0 =
             \<lparr>page_jobs = [], page_duplicates = length js, page_new_jobs = 0, seen = seen_job_ids st\<rparr>"
    unfolding collect_html_parsed assms(2)
    using collect_all_dups[of js ?a0] assms(4) by simp
  from assms(2) have len: "length (job_elements x (body r)) = length js" by (metis length_map)
  with assms(3) have "job_elements x (body r) \<noteq> []" by auto
  with assms(1,3) len show ?thesis
    by (simp add: html_page_def Let_def a)
qed

lemma html_page_empty:
  assumes "net (trace st) (GET (html_page_url x endpoint pp psp psize (page st))) = Replied r"
    and "job_elements x (body r) = []"
  shows "html_page x net tn endpoint pp psp psize st =
           (if consecutive_empty st + 1 \<ge> 2
            then Break (st\<lparr>trace := Sent (GET (html_page_url x endpoint pp psp psize (page st))) # trace st,
                           consecutive_empty := consecutive_empty st + 1\<rparr>)
            else Advance (st\<lparr>trace := Sent (GET (html_page_url x endpoint pp psp psize (page st))) # trace st,
                             consecutive_empty := consecutive_empty st + 1\<rparr>))"
  using assms by (simp add: html_page_def Let_def)


lemma reparse_json:
  "map (\<lambda>item. parse_job_from_json x item tn b) items = map Some js \<Longrightarrow>
   \<forall>item \<in> set items. parse_job_from_json x item tn b' \<noteq> None \<Longrightarrow>
   \<exists>js'. map (\<lambda>item. parse_job_from_json x item tn b') items = map Some js'
         \<and> map job_id js' = map job_id js"
proof (induction items arbitrary: js)
  case Nil
  then show ?case by simp
next
  case (Cons item items)
  from Cons.prems(1) obtain j rest where js: "js = j # rest"
    and j: "parse_job_from_json x item tn b = Some j"
    and rest: "map (\<lambda>item. parse_job_from_json x item tn b) items = map Some rest"
    by (cases js) auto
  from Cons.prems(2) obtain j' where j': "parse_job_from_json x item tn b' = Some j'" by auto
  from Cons.IH[OF rest] Cons.prems(2) obtain rest'
    where r: "map (\<lambda>item. parse_job_from_json x item tn b') items = map Some rest'"
      and i: "map job_id rest' = map job_id rest" by auto
  from parse_json_id_base[OF j j'] have "job_id j' = job_id j" .
  with js j' r i show ?case by (intro exI[of _ "j' # rest'"]) simp
qed

lemma same_ids_seen:
  assumes "\<forall>j \<in> set js. has_id j" and "map job_id js' = map job_id js" and "j' \<in> set js'"
  shows "has_id j' \<and> the (job_id j') \<in> set (emitted_ids js)"
proof -
  from assms(3) have "job_id j' \<in> set (map job_id js')" by simp
  with assms(2) obtain j where j: "j \<in> set js" "job_id j = job_id j'" by auto
  with assms(1) have h: "has_id j" by simp
  with j have "has_id j'" by (simp add: has_id_def)
  moreover have "the (job_id j') \<in> set (emitted_ids js)"
  proof -
    from j(1) h have "the (job_id j) \<in> (\<lambda>k. the (job_id k)) ` set (filter has_id js)" by simp
    with j(2) show ?thesis by (simp add: emitted_ids_def)
  qed
  ultimately show ?thesis by simp
qed

lemma three_pages: "0 < MAX_PAGES_PER_SITE" "1 < MAX_PAGES_PER_SITE" "2 < MAX_PAGES_PER_SITE"
  by (simp_all add: MAX_PAGES_PER_SITE_def)

lemma json_same_page_twice:
  assumes u0: "json_page_url x tmpl pp psp psize 0 = Some u0"
    and u1: "json_page_url x tmpl pp psp psize 1 = Some u1"
    and n0: "net tr (GET u0) = Replied r"
    and n1: "net (Sent (GET u0) # tr) (GET u1) = Replied r'"
    and ok: "status_code r = 200" "json_loads x (body r) = Some data" "py_iter (jobs_list_of data) = Some items"
    and ok': "status_code r' = 200" "json_loads x (body r') = Some data'" "py_iter (jobs_list_of data') = Some items"
    and p0: "map (\<lambda>item. parse_job_from_json x item tn (json_base_url u0)) items = map Some js"
    and p1: "\<forall>item \<in> set items. parse_job_from_json x item tn (json_base_url u1) \<noteq> None"
    and ne: "js \<noteq> []" and ids: "\<forall>j \<in> set js. has_id j" and d: "distinct (emitted_ids js)"
  shows "scrape_via_json_api x net tn tmpl pp psp psize tr =
           (Returned js, Collected Json_api (length js) # Sent (GET u1) # Sent (GET u0) # tr)"
proof -
  let ?st0 = "\<lparr>jobs = [], page = 0, consecutive_empty = 0, seen_job_ids = {}, trace = tr\<rparr>"
  let ?st1 = "\<lparr>jobs = js, page = 1, consecutive_empty = 0, seen_job_ids = set (emitted_ids js),
               trace = Sent (GET u0) # tr\<rparr>"
  have "json_page x net tn tmpl pp psp psize ?st0 =
          Advance (?st0\<lparr>trace := Sent (GET u0) # trace ?st0,
                        seen_job_ids := seen_job_ids ?st0 \<union> set (emitted_ids js),
                        consecutive_empty := 0, jobs := jobs ?st0 @ js\<rparr>)"
    by (rule json_page_all_new[where r = r and data = data and items = items])
       (use u0 n0 ok p0 ne d in simp_all)
  from json_pages_advance[OF _ this] three_pages(1)
  have first: "json_pages x net tn tmpl pp psp psize ?st0 = json_pages x net tn tmpl pp psp psize ?st1"
    by simp
  from reparse_json[OF p0 p1] obtain js1
    where p1': "map (\<lambda>item. parse_job_from_json x item tn (json_base_url u1)) items = map Some js1"
      and same: "map job_id js1 = map job_id js" by blast
  from same have "length js1 = length js" by (metis length_map)
  with ne have ne1: "js1 \<noteq> []" by auto
  have seen1: "\<forall>j \<in> set js1. has_id j \<and> the (job_id j) \<in> seen_job_ids ?st1"
    using same_ids_seen[OF ids same] by simp
  have "json_page x net tn tmpl pp psp psize ?st1 = Break (?st1\<lparr>trace := Sent (GET u1) # trace ?st1\<rparr>)"
    by (rule json_page_all_dups[where r = r' and data = data' and items = items and js = js1])
       (use u1 n1 ok' p1' ne1 seen1 in simp_all)
  from json_pages_break[OF _ this] three_pages(2)
  have "json_pages x net tn tmpl pp psp psize ?st1 = Finished (?st1\<lparr>trace := Sent (GET u1) # trace ?st1\<rparr>)"
    by simp
  with first show ?thesis by (simp add: scrape_via_json_api_def)
qed

lemma html_same_page_twice:
  assumes n0: "net tr (GET (html_page_url x endpoint pp psp psize 0)) = Replied r"
    and n1: "net (Sent (GET (html_page_url x endpoint pp psp psize 0)) # tr)
               (GET (html_page_url x endpoint pp psp psize 1)) = Replied r'"
    and same: "job_elements x (body r') = job_elements x (body r)"
    and p0: "map (\<lambda>el. parse_job_from_listing x el endpoint tn) (job_elements x (body r)) = map Some js"
    and ne: "js \<noteq> []" and ids: "\<forall>j \<in> set js. has_id j" and d: "distinct (emitted_ids js)"
  shows "scrape_via_html_parsing x net tn endpoint pp psp psize tr =
           (Returned js, Collected Html (length js)
              # Sent (GET (html_page_url x endpoint pp psp psize 1))
              # Sent (GET (html_page_url x endpoint pp psp psize 0)) # tr)"
proof -
  let ?u0 = "html_page_url x endpoint pp psp psize 0"
  let ?u1 = "html_page_url x endpoint pp psp psize 1"
  let ?st0 = "\<lparr>jobs = [], page = 0, consecutive_empty = 0, seen_job_ids = {}, trace = tr\<rparr>"
  let ?st1 = "\<lparr>jobs = js, page = 1, consecutive_empty = 0, seen_job_ids = set (emitted_ids js),
               trace = Sent (GET ?u0) # tr\<rparr>"
  have "html_page x net tn endpoint pp psp psize ?st0 =
          Advance (?st0\<lparr>trace := Sent (GET (html_page_url x endpoint pp psp psize (page ?st0))) # trace ?st0,
                        seen_job_ids := seen_job_ids ?st0 \<union> set (emitted_ids js),
                        consecutive_empty := 0, jobs := jobs ?st0 @ js\<rparr>)"
    by (rule html_page_all_new[where r = r]) (use n0 p0 ne d in simp_all)
  from html_pages_advance[OF _ this] three_pages(1)
  have first: "html_pages x net tn endpoint pp psp psize ?st0 = html_pages x net tn endpoint pp psp psize ?st1"
    by simp
  have seen1: "\<forall>j \<in> set js. has_id j \<and> the (job_id j) \<in> seen_job_ids ?st1"
    using same_ids_seen[OF ids refl] by simp
  have "html_page x net tn endpoint pp psp psize ?st1 =
          Break (?st1\<lparr>trace := Sent (GET (html_page_url x endpoint pp psp psize (page ?st1))) # trace ?st1\<rparr>)"
    by (rule html_page_all_dups[where r = r' and js = js]) (use n1 p0 same ne seen1 in simp_all)
  from html_pages_break[OF _ this] three_pages(2)
  have "html_pages x net tn endpoint pp psp psize ?st1 =
          Finished (?st1\<lparr>trace := Sent (GET ?u1) # trace ?st1\<rparr>)"
    by simp
  with first show ?thesis by (simp add: scrape_via_html_parsing_def)
qed

lemma json_new_then_empty:
  assumes u0: "json_page_url x tmpl pp psp psize 0 = Some u0"
    and u1: "json_page_url x tmpl pp psp psize 1 = Some u1"
    and u2: "json_page_url x tmpl pp psp psize 2 = Some u2"
    and n0: "net tr (GET u0) = Replied r0"
    and n1: "net (Sent (GET u0) # tr) (GET u1) = Replied r1"
    and n2: "net (Sent (GET u1) # Sent (GET u0) # tr) (GET u2) = Replied r2"
    and ok0: "status_code r0 = 200" "json_loads x (body r0) = Some data0" "py_iter (jobs_list_of data0) = Some items"
    and ok1: "status_code r1 = 200" "json_loads x (body r1) = Some data1" "py_iter (jobs_list_of data1) = Some []"
    and ok2: "status_code r2 = 200" "json_loads x (body r2) = Some data2" "py_iter (jobs_list_of data2) = Some []"
    and p0: "map (\<lambda>item. parse_job_from_json x item tn (json_base_url u0)) items = map Some js"
    and ne: "js \<noteq> []" and d: "distinct (emitted_ids js)"
  shows "scrape_via_json_api x net tn tmpl pp psp psize tr =
           (Returned js, Collected Json_api (length js) # Sent (GET u2) # Sent (GET u1) # Sent (GET u0) # tr)"
proof -
  let ?st0 = "\<lparr>jobs = [], page = 0, consecutive_empty = 0, seen_job_ids = {}, trace = tr\<rparr>"
  let ?st1 = "\<lparr>jobs = js, page = 1, consecutive_empty = 0, seen_job_ids = set (emitted_ids js),
               trace = Sent (GET u0) # tr\<rparr>"
  let ?st2 = "\<lparr>jobs = js, page = 2, consecutive_empty = 1, seen_job_ids = set (emitted_ids js),
               trace = Sent (GET u1) # Sent (GET u0) # tr\<rparr>"
  have "json_page x net tn tmpl pp psp psize ?st0 =
          Advance (?st0\<lparr>trace := Sent (GET u0) # trace ?st0,
                        seen_job_ids := seen_job_ids ?st0 \<union> set (emitted_ids js),
                        consecutive_empty := 0, jobs := jobs ?st0 @ js\<rparr>)"
    by (rule json_page_all_new[where r = r0 and data = data0 and items = items])
       (use u0 n0 ok0 p0 ne d in simp_all)
  from json_pages_advance[OF _ this] three_pages(1)
  have first: "json_pages x net tn tmpl pp psp psize ?st0 = json_pages x net tn tmpl pp psp psize ?st1"
    by simp
  have "json_page x net tn tmpl pp psp psize ?st1 =
          Advance (?st1\<lparr>trace := Sent (GET u1) # trace ?st1, consecutive_empty := consecutive_empty ?st1 + 1\<rparr>)"
    using json_page_empty[where st = ?st1 and r = r1 and data = data1 and u = u1 and x = x and net = net
        and tmpl = tmpl and pp = pp and psp = psp and psize = psize and tn = tn]
      u1 n1 ok1 by simp
  from json_pages_advance[OF _ this] three_pages(2)
  have second: "json_pages x net tn tmpl pp psp psize ?st1 = json_pages x net tn tmpl pp psp psize ?st2"
    by (simp add: numeral_2_eq_2)
  have "json_page x net tn tmpl pp psp psize ?st2 =
          Break (?st2\<lparr>trace := Sent (GET u2) # trace ?st2, consecutive_empty := consecutive_empty ?st2 + 1\<rparr>)"
    using json_page_empty[where st = ?st2 and r = r2 and data = data2 and u = u2 and x = x and net = net
        and tmpl = tmpl and pp = pp and psp = psp and psize = psize and tn = tn]
      u2 n2 ok2 by simp
  from json_pages_break[OF _ this] three_pages(3)
  have "json_pages x net tn tmpl pp psp psize ?st2 =
          Finished (?st2\<lparr>trace := Sent (GET u2) # trace ?st2, consecutive_empty := consecutive_empty ?st2 + 1\<rparr>)"
    by simp
  with first second show ?thesis by (simp add: scrape_via_json_api_def)
qed

lemma html_new_then_empty:
  assumes n0: "net tr (GET (html_page_url x endpoint pp psp psize 0)) = Replied r0"
    and n1: "net (Sent (GET (html_page_url x endpoint pp psp psize 0)) # tr)
               (GET (html_page_url x endpoint pp psp psize 1)) = Replied r1"
    and n2: "net (Sent (GET (html_page_url x endpoint pp psp psize 1))
                  # Sent (GET (html_page_url x endpoint pp psp psize 0)) # tr)
               (GET (html_page_url x endpoint pp psp psize 2)) = Replied r2"
    and p0: "map (\<lambda>el. parse_job_from_listing x el endpoint tn) (job_elements x (body r0)) = map Some js"
    and e1: "job_elements x (body r1) = []" and e2: "job_elements x (body r2) = []"
    and ne: "js \<noteq> []" and d: "distinct (emitted_ids js)"
  shows "scrape_via_html_parsing x net tn endpoint pp psp psize tr =
           (Returned js, Collected Html (length js)
              # Sent (GET (html_page_url x endpoint pp psp psize 2))
              # Sent (GET (html_page_url x endpoint pp psp psize 1))
              # Sent (GET (html_page_url x endpoint pp psp psize 0)) # tr)"
proof -
  let ?u0 = "html_page_url x endpoint pp psp psize 0"
  let ?u1 = "html_page_url x endpoint pp psp psize 1"
  let ?u2 = "html_page_url x endpoint pp psp psize 2"
  let ?st0 = "\<lparr>jobs = [], page = 0, consecutive_empty = 0, seen_job_ids = {}, trace = tr\<rparr>"
  let ?st1 = "\<lparr>jobs = js, page = 1, consecutive_empty = 0, seen_job_ids = set (emitted_ids js),
               trace = Sent (GET ?u0) # tr\<rparr>"
  let ?st2 = "\<lparr>jobs = js, page = 2, consecutive_empty = 1, seen_job_ids = set (emitted_ids js),
               trace = Sent (GET ?u1) # Sent (GET ?u0) # tr\<rparr>"
  have "html_page x net tn endpoint pp psp psize ?st0 =
          Advance (?st0\<lparr>trace := Sent (GET (html_page_url x endpoint pp psp psize (page ?st0))) # trace ?st0,
                        seen_job_ids := seen_job_ids ?st0 \<union> set (emitted_ids js),
                        consecutive_empty := 0, jobs := jobs ?st0 @ js\<rparr>)"
    by (rule html_page_all_new[where r = r0]) (use n0 p0 ne d in simp_all)
  from html_pages_advance[OF _ this] three_pages(1)
  have first: "html_pages x net tn endpoint pp psp psize ?st0 = html_pages x net tn endpoint pp psp psize ?st1"
    by simp
  have "html_page x net tn endpoint pp psp psize ?st1 =
          Advance (?st1\<lparr>trace := Sent (GET ?u1) # trace ?st1, consecutive_empty := consecutive_empty ?st1 + 1\<rparr>)"
    using html_page_empty[where st = ?st1 and r = r1 and x = x and net = net and endpoint = endpoint
        and pp = pp and psp = psp and psize = psize and tn = tn] n1 e1 by simp
  from html_pages_advance[OF _ this] three_pages(2)
  have second: "html_pages x net tn endpoint pp psp psize ?st1 = html_pages x net tn endpoint pp psp psize ?st2"
    by (simp add: numeral_2_eq_2)
  have "html_page x net tn endpoint pp psp psize ?st2 =
          Break (?st2\<lparr>trace := Sent (GET ?u2) # trace ?st2, consecutive_empty := consecutive_empty ?st2 + 1\<rparr>)"
    using html_page_empty[where st = ?st2 and r = r2 and x = x and net = net and endpoint = endpoint
        and pp = pp and psp = psp and psize = psize and tn = tn] n2 e2 by simp
  from html_pages_break[OF _ this] three_pages(3)
  have "html_pages x net tn endpoint pp psp psize ?st2 =
          Finished (?st2\<lparr>trace := Sent (GET ?u2) # trace ?st2, consecutive_empty := consecutive_empty ?st2 + 1\<rparr>)"
    by simp
  with first second show ?thesis by (simp add: scrape_via_html_parsing_def)
qed


subsection \<open>The example runs\<close>

lemma demo_json_urls:
  "json_page_url demo_ext json_template (PStr ''jobOffset'') (PStr ''jobRecords'') 50 0 = Some json_template"
  "json_page_url demo_ext json_template (PStr ''jobOffset'') (PStr ''jobRecords'') 50 1 = Some json_page1_url"
  "json_page_url demo_ext json_template (PStr ''jobOffset'') (PStr ''jobRecords'') 50 2 = Some json_page2_url"
  by code_simp+

lemma demo_html_urls:
  "html_page_url demo_ext search_endpoint (PStr ''jobOffset'') (PStr ''jobRecords'') 50 0 = html_page0_url"
  "html_page_url demo_ext search_endpoint (PStr ''jobOffset'') (PStr ''jobRecords'') 50 1 = html_page1_url"
  "html_page_url demo_ext search_endpoint (PStr ''jobOffset'') (PStr ''jobRecords'') 50 2 = html_page2_url"
  by code_simp+

lemma demo_json_pages:
  "json_loads demo_ext ten_jobs_body = Some ten_jobs_json"
  "json_loads demo_ext five_jobs_body = Some five_jobs_json"
  "json_loads demo_ext ''[]'' = Some (PList [])"
  by code_simp+

lemma demo_json_items:
  "py_iter (jobs_list_of ten_jobs_json) = Some (case ten_jobs_json of PList vs \<Rightarrow> vs | _ \<Rightarrow> [])"
  "py_iter (jobs_list_of five_jobs_json) = Some (case five_jobs_json of PList vs \<Rightarrow> vs | _ \<Rightarrow> [])"
  "py_iter (jobs_list_of (PList [])) = Some []"
  by code_simp+

lemma demo_json_parsed:
  "map (\<lambda>item. parse_job_from_json demo_ext item (PStr ''t.example'') (json_base_url json_template))
     (case ten_jobs_json of PList vs \<Rightarrow> vs | _ \<Rightarrow> []) = map Some ten_json_records"
  "map (\<lambda>item. parse_job_from_json demo_ext item (PStr ''t.example'') (json_base_url json_template))
     (case five_jobs_json of PList vs \<Rightarrow> vs | _ \<Rightarrow> []) = map Some five_json_records"
  "\<forall>item \<in> set (case ten_jobs_json of PList vs \<Rightarrow> vs | _ \<Rightarrow> []).
     parse_job_from_json demo_ext item (PStr ''t.example'') (json_base_url json_page1_url) \<noteq> None"
  by code_simp+

lemma demo_json_ids:
  "ten_json_records \<noteq> []" "\<forall>j \<in> set ten_json_records. has_id j" "distinct (emitted_ids ten_json_records)"
  "five_json_records \<noteq> []" "distinct (emitted_ids five_json_records)"
  "length ten_json_records = 10" "length five_json_records = 5"
  by code_simp+

lemma demo_html_parsed:
  "job_elements demo_ext ten_links_body = ten_link_elems"
  "job_elements demo_ext five_links_body = five_link_elems"
  "job_elements demo_ext ''<ul></ul>'' = []"
  "map (\<lambda>el. parse_job_from_listing demo_ext el search_endpoint (PStr ''t.example'')) ten_link_elems
     = map Some ten_html_records"
  "map (\<lambda>el. parse_job_from_listing demo_ext el search_endpoint (PStr ''t.example'')) five_link_elems
     = map Some five_html_records"
  by code_simp+

lemma demo_html_ids:
  "ten_html_records \<noteq> []" "\<forall>j \<in> set ten_html_records. has_id j" "distinct (emitted_ids ten_html_records)"
  "five_html_records \<noteq> []" "distinct (emitted_ids five_html_records)"
  "length ten_html_records = 10" "length five_html_records = 5"
  by code_simp+

lemma demo_same_json_run:
  "scrape_via_json_api demo_ext same_json_net (PStr ''t.example'') json_template
       (PStr ''jobOffset'') (PStr ''jobRecords'') 50 []
     = (Returned ten_json_records, [Collected Json_api 10, Sent (GET json_page1_url), Sent (GET json_template)])"
  using json_same_page_twice[where x = demo_ext and net = same_json_net
      and tn = "PStr ''t.example''" and tmpl = json_template and pp = "PStr ''jobOffset''"
      and psp = "PStr ''jobRecords''" and psize = 50 and tr = "[]"
      and ?u0.0 = json_template and ?u1.0 = json_page1_url
      and r = "\<lparr>status_code = 200, body = ten_jobs_body, final_url = json_template\<rparr>"
      and r' = "\<lparr>status_code = 200, body = ten_jobs_body, final_url = json_page1_url\<rparr>"
      and data = ten_jobs_json and data' = ten_jobs_json
      and items = "case ten_jobs_json of PList vs \<Rightarrow> vs | _ \<Rightarrow> []"
      and js = ten_json_records]
    demo_json_urls demo_json_pages demo_json_items demo_json_parsed demo_json_ids
  by (simp add: same_json_net_def)

lemma demo_same_html_run:
  "scrape_via_html_parsing demo_ext same_html_net (PStr ''t.example'') search_endpoint
       (PStr ''jobOffset'') (PStr ''jobRecords'') 50 []
     = (Returned ten_html_records, [Collected Html 10, Sent (GET html_page1_url), Sent (GET html_page0_url)])"
  using html_same_page_twice[where x = demo_ext and net = same_html_net
      and tn = "PStr ''t.example''" and endpoint = search_endpoint and pp = "PStr ''jobOffset''"
      and psp = "PStr ''jobRecords''" and psize = 50 and tr = "[]"
      and r = "\<lparr>status_code = 200, body = ten_links_body, final_url = html_page0_url\<rparr>"
      and r' = "\<lparr>status_code = 200, body = ten_links_body, final_url = html_page1_url\<rparr>"
      and js = ten_html_records]
    demo_html_urls demo_html_parsed demo_html_ids
  by (simp add: same_html_net_def)


lemma demo_fresh_run:
  "requests_sent (snd (scrape_via_json_api fresh_ext fresh_json_net (PStr ''t.example'') fresh_template
                         (PStr ''offset'') (PStr ''limit'') 50 [])) = 20"
  by code_simp

subsection \<open>The claims about pagination\<close>

text \<open>
  Claim C1. The records returned by \<^verbatim>\<open>scrape_via_json_api\<close> and by \<^verbatim>\<open>scrape_via_html_parsing\<close>,
  whatever the server answers, carry no non-empty identifier twice. The step that ensures
  it: a record whose identifier is in the set of seen identifiers is counted as a duplicate
  and not appended; a record with a new identifier is appended and its identifier is in the
  set before the next item is looked at; a record without an identifier is appended and
  leaves the set as it is.
\<close>

theorem no_duplicate_job_ids:
  "(fst (scrape_via_json_api x net tn tmpl pp psp psize tr) = Returned js \<longrightarrow> distinct (emitted_ids js))
   \<and> (fst (scrape_via_html_parsing x net tn endpoint pp psp psize tr) = Returned ks \<longrightarrow> distinct (emitted_ids ks))
   \<and> (has_id j1 \<and> the (job_id j1) \<in> seen a1 \<longrightarrow>
        page_jobs (add_job j1 a1) = page_jobs a1 \<and> page_duplicates (add_job j1 a1) = page_duplicates a1 + 1
        \<and> seen (add_job j1 a1) = seen a1)
   \<and> (has_id j2 \<and> the (job_id j2) \<notin> seen a2 \<longrightarrow>
        page_jobs (add_job j2 a2) = page_jobs a2 @ [j2]
        \<and> seen (add_job j2 a2) = insert (the (job_id j2)) (seen a2))
   \<and> (\<not> has_id j3 \<longrightarrow> page_jobs (add_job j3 a3) = page_jobs a3 @ [j3] \<and> seen (add_job j3 a3) = seen a3)"
proof -
  let ?st0 = "\<lparr>jobs = [], page = 0, consecutive_empty = 0, seen_job_ids = {}, trace = tr\<rparr>"
  have init: "state_inv ?st0" by (simp add: state_inv_def emitted_ids_def)
  have "state_inv (loop_state (json_pages x net tn tmpl pp psp psize ?st0))"
    by (rule json_pages_inv[OF init])
  then have 1: "fst (scrape_via_json_api x net tn tmpl pp psp psize tr) = Returned js \<longrightarrow> distinct (emitted_ids js)"
    by (auto simp: scrape_via_json_api_def state_inv_def split: loop_end.splits)
  have "state_inv (loop_state (html_pages x net tn endpoint pp psp psize ?st0))"
    by (rule html_pages_inv[OF init])
  then have 2: "fst (scrape_via_html_parsing x net tn endpoint pp psp psize tr) = Returned ks \<longrightarrow> distinct (emitted_ids ks)"
    by (auto simp: scrape_via_html_parsing_def state_inv_def split: loop_end.splits)
  from 1 2 show ?thesis by (simp add: add_job_def)
qed


theorem no_duplicate_job_ids_witness:
  "fst (scrape_via_json_api demo_ext same_json_net (PStr ''t.example'') json_template
          (PStr ''jobOffset'') (PStr ''jobRecords'') 50 []) = Returned ten_json_records
   \<and> distinct (emitted_ids ten_json_records)
   \<and> fst (scrape_via_html_parsing demo_ext same_html_net (PStr ''t.example'') search_endpoint
          (PStr ''jobOffset'') (PStr ''jobRecords'') 50 []) = Returned ten_html_records
   \<and> distinct (emitted_ids ten_html_records)
   \<and> has_id engineer_job
   \<and> add_job engineer_job \<lparr>page_jobs = [], page_duplicates = 0, page_new_jobs = 0, seen = {''12345''}\<rparr>
       = \<lparr>page_jobs = [], page_duplicates = 1, page_new_jobs = 0, seen = {''12345''}\<rparr>
   \<and> add_job engineer_job \<lparr>page_jobs = [], page_duplicates = 0, page_new_jobs = 0, seen = {}\<rparr>
       = \<lparr>page_jobs = [engineer_job], page_duplicates = 0, page_new_jobs = 1, seen = {''12345''}\<rparr>
   \<and> \<not> has_id about_job
   \<and> add_job about_job \<lparr>page_jobs = [], page_duplicates = 0, page_new_jobs = 0, seen = {''12345''}\<rparr>
       = \<lparr>page_jobs = [about_job], page_duplicates = 0, page_new_jobs = 1, seen = {''12345''}\<rparr>"
proof -
  have e: "has_id engineer_job" "the (job_id engineer_job) = ''12345''" "\<not> has_id about_job"
    by code_simp+
  have a: "add_job engineer_job \<lparr>page_jobs = [], page_duplicates = 0, page_new_jobs = 0, seen = {''12345''}\<rparr>
       = \<lparr>page_jobs = [], page_duplicates = 1, page_new_jobs = 0, seen = {''12345''}\<rparr>"
    "add_job engineer_job \<lparr>page_jobs = [], page_duplicates = 0, page_new_jobs = 0, seen = {}\<rparr>
       = \<lparr>page_jobs = [engineer_job], page_duplicates = 0, page_new_jobs = 1, seen = {''12345''}\<rparr>"
    "add_job about_job \<lparr>page_jobs = [], page_duplicates = 0, page_new_jobs = 0, seen = {''12345''}\<rparr>
       = \<lparr>page_jobs = [about_job], page_duplicates = 0, page_new_jobs = 1, seen = {''12345''}\<rparr>"
    using e by (simp_all add: add_job_def)
  from no_duplicate_job_ids[where x = demo_ext and net = same_json_net
      and tn = "PStr ''t.example''" and tmpl = json_template and pp = "PStr ''jobOffset''"
      and psp = "PStr ''jobRecords''" and psize = 50 and tr = "[]" and js = ten_json_records]
    demo_same_json_run
  have j: "distinct (emitted_ids ten_json_records)" by simp
  from no_duplicate_job_ids[where x = demo_ext and net = same_html_net
      and tn = "PStr ''t.example''" and endpoint = search_endpoint and pp = "PStr ''jobOffset''"
      and psp = "PStr ''jobRecords''" and psize = 50 and tr = "[]" and ks = ten_html_records]
    demo_same_html_run
  have h: "distinct (emitted_ids ten_html_records)" by simp
  from j h e a demo_same_json_run demo_same_html_run show ?thesis by simp
qed


text \<open>
  Claim C2. Both loops are defined by recursion on \<open>MAX_PAGES_PER_SITE - page\<close>, so they
  return for every server and every configuration, and every pass through a loop body sends
  at most one request: a run of either driver adds at most \<open>MAX_PAGES_PER_SITE = 20\<close> requests
  to the trace. The witness is a server that sends a new job on every page: the run stops
  after exactly 20 requests.
\<close>

theorem pagination_bounded_by_page_cap:
  "requests_sent (snd (scrape_via_json_api x net tn tmpl pp psp psize tr))
     \<le> requests_sent tr + MAX_PAGES_PER_SITE
   \<and> requests_sent (snd (scrape_via_html_parsing x net tn endpoint pp psp psize tr))
     \<le> requests_sent tr + MAX_PAGES_PER_SITE
   \<and> MAX_PAGES_PER_SITE = 20"
proof -
  let ?st0 = "\<lparr>jobs = [], page = 0, consecutive_empty = 0, seen_job_ids = {}, trace = tr\<rparr>"
  from json_pages_requests[of x net tn tmpl pp psp psize ?st0]
  have 1: "requests_sent (snd (scrape_via_json_api x net tn tmpl pp psp psize tr))
     \<le> requests_sent tr + MAX_PAGES_PER_SITE"
    by (cases "json_pages x net tn tmpl pp psp psize ?st0")
       (simp_all add: scrape_via_json_api_def requests_sent_def)
  from html_pages_requests[of x net tn endpoint pp psp psize ?st0]
  have 2: "requests_sent (snd (scrape_via_html_parsing x net tn endpoint pp psp psize tr))
     \<le> requests_sent tr + MAX_PAGES_PER_SITE"
    by (cases "html_pages x net tn endpoint pp psp psize ?st0")
       (simp_all add: scrape_via_html_parsing_def requests_sent_def)
  from 1 2 show ?thesis by (simp add: MAX_PAGES_PER_SITE_def)
qed


theorem pagination_bounded_by_page_cap_witness:
  "requests_sent (snd (scrape_via_json_api fresh_ext fresh_json_net (PStr ''t.example'') fresh_template
                         (PStr ''offset'') (PStr ''limit'') 50 [])) = 20
   \<and> requests_sent (snd (scrape_via_json_api fresh_ext fresh_json_net (PStr ''t.example'') fresh_template
                         (PStr ''offset'') (PStr ''limit'') 50 []))
        \<le> requests_sent [] + MAX_PAGES_PER_SITE
   \<and> requests_sent (snd (scrape_via_html_parsing demo_ext same_html_net (PStr ''t.example'') search_endpoint
                         (PStr ''jobOffset'') (PStr ''jobRecords'') 50 []))
        \<le> requests_sent [] + MAX_PAGES_PER_SITE
   \<and> MAX_PAGES_PER_SITE = 20"
  using pagination_bounded_by_page_cap[where x = fresh_ext and net = fresh_json_net
      and tn = "PStr ''t.example''" and tmpl = fresh_template and pp = "PStr ''offset''"
      and psp = "PStr ''limit''" and psize = 50 and tr = "[]"]
    pagination_bounded_by_page_cap[where x = demo_ext and net = same_html_net
      and tn = "PStr ''t.example''" and endpoint = search_endpoint and pp = "PStr ''jobOffset''"
      and psp = "PStr ''jobRecords''" and psize = 50 and tr = "[]"]
    demo_fresh_run(1)
  by simp


text \<open>
  Claim C6. When more than four fifths of the items of a fetched page are duplicates, the
  loop is left at that page, in both drivers; the new records of that page are not kept.
  For a server that answers the requests for page 0 and page 1 with the same non-empty list
  of items, each of which normalises to a record with an identifier, the identifiers being
  pairwise different: page 0 is taken whole, page 1 consists of duplicates only, and the run
  returns exactly the records of page 0 after two requests. The claim's page of ten items
  is the case \<open>length js = 10\<close>, which the witness runs.
\<close>

theorem duplicate_flood_stops_extraction:
  "(page st < MAX_PAGES_PER_SITE
      \<and> json_page_url x tmpl pp psp psize (page st) = Some u
      \<and> net (trace st) (GET u) = Replied r \<and> status_code r = 200
      \<and> json_loads x (body r) = Some data \<and> py_iter (jobs_list_of data) = Some items
      \<and> 4 * length items < 5 * page_duplicates
            (collect_json x tn (json_base_url u) items
               \<lparr>page_jobs = [], page_duplicates = 0, page_new_jobs = 0, seen = seen_job_ids st\<rparr>)
    \<longrightarrow> json_pages x net tn tmpl pp psp psize st =
          Finished (st\<lparr>trace := Sent (GET u) # trace st,
                       seen_job_ids := seen (collect_json x tn (json_base_url u) items
                          \<lparr>page_jobs = [], page_duplicates = 0, page_new_jobs = 0, seen = seen_job_ids st\<rparr>)\<rparr>))
   \<and> (page sh < MAX_PAGES_PER_SITE
      \<and> net (trace sh) (GET (html_page_url x endpoint pp psp psize (page sh))) = Replied rh
      \<and> 4 * length (job_elements x (body rh)) < 5 * page_duplicates
            (collect_html x tn endpoint (job_elements x (body rh))
               \<lparr>page_jobs = [], page_duplicates = 0, page_new_jobs = 0, seen = seen_job_ids sh\<rparr>)
    \<longrightarrow> html_pages x net tn endpoint pp psp psize sh =
          Finished (sh\<lparr>trace := Sent (GET (html_page_url x endpoint pp psp psize (page sh))) # trace sh,
                       seen_job_ids := seen (collect_html x tn endpoint (job_elements x (body rh))
                          \<lparr>page_jobs = [], page_duplicates = 0, page_new_jobs = 0, seen = seen_job_ids sh\<rparr>)\<rparr>))
   \<and> (json_page_url x tmpl pp psp psize 0 = Some u0 \<and> json_page_url x tmpl pp psp psize 1 = Some u1
      \<and> net tr (GET u0) = Replied r0 \<and> net (Sent (GET u0) # tr) (GET u1) = Replied r1
      \<and> status_code r0 = 200 \<and> json_loads x (body r0) = Some data0
      \<and> py_iter (jobs_list_of data0) = Some items0
      \<and> status_code r1 = 200 \<and> json_loads x (body r1) = Some data1
      \<and> py_iter (jobs_list_of data1) = Some items0
      \<and> map (\<lambda>item. parse_job_from_json x item tn (json_base_url u0)) items0 = map Some js
      \<and> (\<forall>item \<in> set items0. parse_job_from_json x item tn (json_base_url u1) \<noteq> None)
      \<and> js \<noteq> [] \<and> (\<forall>j \<in> set js. has_id j) \<and> distinct (emitted_ids js)
    \<longrightarrow> scrape_via_json_api x net tn tmpl pp psp psize tr =
          (Returned js, Collected Json_api (length js) # Sent (GET u1) # Sent (GET u0) # tr))
   \<and> (net tr (GET (html_page_url x endpoint pp psp psize 0)) = Replied q0
      \<and> net (Sent (GET (html_page_url x endpoint pp psp psize 0)) # tr)
            (GET (html_page_url x endpoint pp psp psize 1)) = Replied q1
      \<and> job_elements x (body q1) = job_elements x (body q0)
      \<and> map (\<lambda>el. parse_job_from_listing x el endpoint tn) (job_elements x (body q0)) = map Some ks
      \<and> ks \<noteq> [] \<and> (\<forall>j \<in> set ks. has_id j) \<and> distinct (emitted_ids ks)
    \<longrightarrow> scrape_via_html_parsing x net tn endpoint pp psp psize tr =
          (Returned ks, Collected Html (length ks)
             # Sent (GET (html_page_url x endpoint pp psp psize 1))
             # Sent (GET (html_page_url x endpoint pp psp psize 0)) # tr))"
proof (intro conjI impI)
  assume a: "page st < MAX_PAGES_PER_SITE
      \<and> json_page_url x tmpl pp psp psize (page st) = Some u
      \<and> net (trace st) (GET u) = Replied r \<and> status_code r = 200
      \<and> json_loads x (body r) = Some data \<and> py_iter (jobs_list_of data) = Some items
      \<and> 4 * length items < 5 * page_duplicates
            (collect_json x tn (json_base_url u) items
               \<lparr>page_jobs = [], page_duplicates = 0, page_new_jobs = 0, seen = seen_job_ids st\<rparr>)"
  then have "json_page x net tn tmpl pp psp psize st =
           Break (st\<lparr>trace := Sent (GET u) # trace st,
                     seen_job_ids := seen (collect_json x tn (json_base_url u) items
                        \<lparr>page_jobs = [], page_duplicates = 0, page_new_jobs = 0, seen = seen_job_ids st\<rparr>)\<rparr>)"
    by (intro json_page_flood[where r = r and data = data]) simp_all
  with a show "json_pages x net tn tmpl pp psp psize st =
          Finished (st\<lparr>trace := Sent (GET u) # trace st,
                       seen_job_ids := seen (collect_json x tn (json_base_url u) items
                          \<lparr>page_jobs = [], page_duplicates = 0, page_new_jobs = 0, seen = seen_job_ids st\<rparr>)\<rparr>)"
    by (intro json_pages_break) simp_all
next
  assume a: "page sh < MAX_PAGES_PER_SITE
      \<and> net (trace sh) (GET (html_page_url x endpoint pp psp psize (page sh))) = Replied rh
      \<and> 4 * length (job_elements x (body rh)) < 5 * page_duplicates
            (collect_html x tn endpoint (job_elements x (body rh))
               \<lparr>page_jobs = [], page_duplicates = 0, page_new_jobs = 0, seen = seen_job_ids sh\<rparr>)"
  then have "html_page x net tn endpoint pp psp psize sh =
           Break (sh\<lparr>trace := Sent (GET (html_page_url x endpoint pp psp psize (page sh))) # trace sh,
                     seen_job_ids := seen (collect_html x tn endpoint (job_elements x (body rh))
                        \<lparr>page_jobs = [], page_duplicates = 0, page_new_jobs = 0, seen = seen_job_ids sh\<rparr>)\<rparr>)"
    by (intro html_page_flood) simp_all
  with a show "html_pages x net tn endpoint pp psp psize sh =
          Finished (sh\<lparr>trace := Sent (GET (html_page_url x endpoint pp psp psize (page sh))) # trace sh,
                       seen_job_ids := seen (collect_html x tn endpoint (job_elements x (body rh))
                          \<lparr>page_jobs = [], page_duplicates = 0, page_new_jobs = 0, seen = seen_job_ids sh\<rparr>)\<rparr>)"
    by (intro html_pages_break) simp_all
next
  assume "json_page_url x tmpl pp psp psize 0 = Some u0 \<and> json_page_url x tmpl pp psp psize 1 = Some u1
      \<and> net tr (GET u0) = Replied r0 \<and> net (Sent (GET u0) # tr) (GET u1) = Replied r1
      \<and> status_code r0 = 200 \<and> json_loads x (body r0) = Some data0
      \<and> py_iter (jobs_list_of data0) = Some items0
      \<and> status_code r1 = 200 \<and> json_loads x (body r1) = Some data1
      \<and> py_iter (jobs_list_of data1) = Some items0
      \<and> map (\<lambda>item. parse_job_from_json x item tn (json_base_url u0)) items0 = map Some js
      \<and> (\<forall>item \<in> set items0. parse_job_from_json x item tn (json_base_url u1) \<noteq> None)
      \<and> js \<noteq> [] \<and> (\<forall>j \<in> set js. has_id j) \<and> distinct (emitted_ids js)"
  then show "scrape_via_json_api x net tn tmpl pp psp psize tr =
          (Returned js, Collected Json_api (length js) # Sent (GET u1) # Sent (GET u0) # tr)"
    by (intro json_same_page_twice[where r = r0 and r' = r1 and data = data0 and data' = data1
          and items = items0]) simp_all
next
  assume "net tr (GET (html_page_url x endpoint pp psp psize 0)) = Replied q0
      \<and> net (Sent (GET (html_page_url x endpoint pp psp psize 0)) # tr)
            (GET (html_page_url x endpoint pp psp psize 1)) = Replied q1
      \<and> job_elements x (body q1) = job_elements x (body q0)
      \<and> map (\<lambda>el. parse_job_from_listing x el endpoint tn) (job_elements x (body q0)) = map Some ks
      \<and> ks \<noteq> [] \<and> (\<forall>j \<in> set ks. has_id j) \<and> distinct (emitted_ids ks)"
  then show "scrape_via_html_parsing x net tn endpoint pp psp psize tr =
          (Returned ks, Collected Html (length ks)
             # Sent (GET (html_page_url x endpoint pp psp psize 1))
             # Sent (GET (html_page_url x endpoint pp psp psize 0)) # tr)"
    by (intro html_same_page_twice[where r = q0 and r' = q1]) simp_all
qed

theorem duplicate_flood_witness:
  "scrape_via_json_api demo_ext same_json_net (PStr ''t.example'') json_template
       (PStr ''jobOffset'') (PStr ''jobRecords'') 50 []
     = (Returned ten_json_records, [Collected Json_api 10, Sent (GET json_page1_url), Sent (GET json_template)])
   \<and> length ten_json_records = 10
   \<and> scrape_via_html_parsing demo_ext same_html_net (PStr ''t.example'') search_endpoint
       (PStr ''jobOffset'') (PStr ''jobRecords'') 50 []
     = (Returned ten_html_records, [Collected Html 10, Sent (GET html_page1_url), Sent (GET html_page0_url)])
   \<and> length ten_html_records = 10"
proof -
  note J = duplicate_flood_stops_extraction[where x = demo_ext and net = same_json_net
      and tn = "PStr ''t.example''" and tmpl = json_template and pp = "PStr ''jobOffset''"
      and psp = "PStr ''jobRecords''" and psize = 50 and tr = "[]"
      and ?u0.0 = json_template and ?u1.0 = json_page1_url
      and ?r0.0 = "\<lparr>status_code = 200, body = ten_jobs_body, final_url = json_template\<rparr>"
      and ?r1.0 = "\<lparr>status_code = 200, body = ten_jobs_body, final_url = json_page1_url\<rparr>"
      and ?data0.0 = ten_jobs_json and ?data1.0 = ten_jobs_json
      and ?items0.0 = "case ten_jobs_json of PList vs \<Rightarrow> vs | _ \<Rightarrow> []"
      and js = ten_json_records,
      THEN conjunct2, THEN conjunct2, THEN conjunct1]
  have j: "scrape_via_json_api demo_ext same_json_net (PStr ''t.example'') json_template
       (PStr ''jobOffset'') (PStr ''jobRecords'') 50 []
     = (Returned ten_json_records,
        Collected Json_api (length ten_json_records) # Sent (GET json_page1_url) # Sent (GET json_template) # [])"
    using J demo_json_urls demo_json_pages demo_json_items demo_json_parsed demo_json_ids
    by (simp add: same_json_net_def)
  note H = duplicate_flood_stops_extraction[where x = demo_ext and net = same_html_net
      and tn = "PStr ''t.example''" and endpoint = search_endpoint and pp = "PStr ''jobOffset''"
      and psp = "PStr ''jobRecords''" and psize = 50 and tr = "[]"
      and ?q0.0 = "\<lparr>status_code = 200, body = ten_links_body, final_url = html_page0_url\<rparr>"
      and ?q1.0 = "\<lparr>status_code = 200, body = ten_links_body, final_url = html_page1_url\<rparr>"
      and ks = ten_html_records,
      THEN conjunct2, THEN conjunct2, THEN conjunct2]
  have h: "scrape_via_html_parsing demo_ext same_html_net (PStr ''t.example'') search_endpoint
       (PStr ''jobOffset'') (PStr ''jobRecords'') 50 []
     = (Returned ten_html_records,
        Collected Html (length ten_html_records) # Sent (GET html_page1_url) # Sent (GET html_page0_url) # [])"
    using H demo_html_urls demo_html_parsed demo_html_ids
    by (simp add: same_html_net_def)
  from j h demo_json_ids demo_html_ids show ?thesis by simp
qed


lemma json_page_emptiness:
  assumes "json_page_url x tmpl pp psp psize (page st) = Some u"
    and "net (trace st) (GET u) = Replied r" and "status_code r = 200"
    and "json_loads x (body r) = Some data" and "py_iter (jobs_list_of data) = Some items"
    and "\<not> 4 * length items < 5 * page_duplicates (json_page_result x tn u items st)"
  shows "json_page x net tn tmpl pp psp psize st =
           (if page_jobs (json_page_result x tn u items st) = []
            then (if consecutive_empty st + 1 < 2
                  then Advance (st\<lparr>trace := Sent (GET u) # trace st,
                                   seen_job_ids := seen (json_page_result x tn u items st),
                                   consecutive_empty := consecutive_empty st + 1\<rparr>)
                  else Break (st\<lparr>trace := Sent (GET u) # trace st,
                                 seen_job_ids := seen (json_page_result x tn u items st),
                                 consecutive_empty := consecutive_empty st + 1\<rparr>))
            else Advance (st\<lparr>trace := Sent (GET u) # trace st,
                             seen_job_ids := seen (json_page_result x tn u items st),
                             consecutive_empty := 0,
                             jobs := jobs st @ page_jobs (json_page_result x tn u items st)\<rparr>))"
proof -
  have c: "(page_new_jobs (json_page_result x tn u items st) = 0)
             = (page_jobs (json_page_result x tn u items st) = [])"
    unfolding json_page_result_def collect_json_parsed by (rule fresh_count)
  from assms c show ?thesis
    by (simp add: json_page_def Let_def json_page_result_def[symmetric])
qed

lemma html_page_emptiness:
  assumes "net (trace st) (GET (html_page_url x endpoint pp psp psize (page st))) = Replied r"
    and "job_elements x (body r) \<noteq> []"
    and "\<not> 4 * length (job_elements x (body r))
             < 5 * page_duplicates (html_page_result x tn endpoint (job_elements x (body r)) st)"
  shows "html_page x net tn endpoint pp psp psize st =
           (if page_jobs (html_page_result x tn endpoint (job_elements x (body r)) st) = []
            then (if consecutive_empty st + 1 < 2
                  then Advance (st\<lparr>trace := Sent (GET (html_page_url x endpoint pp psp psize (page st))) # trace st,
                                   seen_job_ids := seen (html_page_result x tn endpoint (job_elements x (body r)) st),
                                   consecutive_empty := consecutive_empty st + 1\<rparr>)
                  else Break (st\<lparr>trace := Sent (GET (html_page_url x endpoint pp psp psize (page st))) # trace st,
                                 seen_job_ids := seen (html_page_result x tn endpoint (job_elements x (body r)) st),
                                 consecutive_empty := consecutive_empty st + 1\<rparr>))
            else Advance (st\<lparr>trace := Sent (GET (html_page_url x endpoint pp psp psize (page st))) # trace st,
                             seen_job_ids := seen (html_page_result x tn endpoint (job_elements x (body r)) st),
                             consecutive_empty := 0,
                             jobs := jobs st @ page_jobs (html_page_result x tn endpoint (job_elements x (body r)) st)\<rparr>))"
  using assms
  by (simp add: html_page_def Let_def html_page_result_def[symmetric])

lemma demo_untitled_pages:
  "json_loads demo_ext untitled_jobs_body = Some untitled_jobs_json"
  "py_iter (jobs_list_of untitled_jobs_json) = Some (case untitled_jobs_json of PList vs \<Rightarrow> vs | _ \<Rightarrow> [])"
  "json_page_result demo_ext (PStr ''t.example'') json_page1_url
     (case untitled_jobs_json of PList vs \<Rightarrow> vs | _ \<Rightarrow> [])
     \<lparr>jobs = js, page = 1, consecutive_empty = c, seen_job_ids = {}, trace = tr\<rparr>
   = \<lparr>page_jobs = [], page_duplicates = 0, page_new_jobs = 0, seen = {}\<rparr>"
  "job_elements demo_ext plain_items_body = plain_item_elems"
  "html_page_result demo_ext (PStr ''t.example'') search_endpoint plain_item_elems
     \<lparr>jobs = js, page = 1, consecutive_empty = c, seen_job_ids = {}, trace = tr\<rparr>
   = \<lparr>page_jobs = [], page_duplicates = 0, page_new_jobs = 0, seen = {}\<rparr>"
  "plain_item_elems \<noteq> []"
  "length (case untitled_jobs_json of PList vs \<Rightarrow> vs | _ \<Rightarrow> []) = 2"
  "length plain_item_elems = 2"
  by (simp_all add: demo_ext_def demo_json_def demo_listings_def untitled_jobs_json_def
        untitled_jobs_body_def ten_jobs_body_def five_jobs_body_def
        plain_items_body_def ten_links_body_def five_links_body_def plain_item_elems_def
        jobs_list_of_def json_page_result_def html_page_result_def
        parse_job_from_json_def parse_job_from_listing_def build_job_url_def dict_get_def Let_def)

lemma demo_untitled_runs:
  "scrape_via_json_api demo_ext json_then_untitled_net (PStr ''t.example'') json_template
       (PStr ''jobOffset'') (PStr ''jobRecords'') 50 []
     = (Returned five_json_records,
        [Collected Json_api 5, Sent (GET json_page2_url), Sent (GET json_page1_url), Sent (GET json_template)])"
  "scrape_via_html_parsing demo_ext html_then_plain_net (PStr ''t.example'') search_endpoint
       (PStr ''jobOffset'') (PStr ''jobRecords'') 50 []
     = (Returned five_html_records,
        [Collected Html 5, Sent (GET html_page2_url), Sent (GET html_page1_url), Sent (GET html_page0_url)])"
  by code_simp+

text \<open>
  Claim C7. For a page that was fetched and decoded and that the duplicate rule did not
  stop, the loop body does exactly this, in both drivers: when the page yields no new
  record, the counter of consecutive empty pages goes up by one, and the loop is left if the
  counter has reached 2 and goes on to the next page otherwise; when the page yields at
  least one new record, the counter is set to 0, the records are appended and the loop goes
  on. The same holds for an HTML page without any element and for a JSON page without any
  item. A pass that goes on has therefore either appended no record and raised the counter
  by one, or appended records and set the counter to 0, and it never goes on with the
  counter at 2. At the level of the loop: a page without a new record that comes when the
  counter stands at 1 or more ends the extraction. For a server that answers page 0 with new
  items and pages 1 and 2 with empty pages, the run returns exactly the records of page 0
  after three requests. The claim's five items are the case \<open>length js = 5\<close>, which the
  witness runs.
\<close>

theorem empty_pages_stop_extraction:
  "(json_page_url x tmpl pp psp psize (page st) = Some u
      \<and> net (trace st) (GET u) = Replied r \<and> status_code r = 200
      \<and> json_loads x (body r) = Some data \<and> py_iter (jobs_list_of data) = Some items
      \<and> \<not> 4 * length items < 5 * page_duplicates (json_page_result x tn u items st)
    \<longrightarrow> json_page x net tn tmpl pp psp psize st =
          (if page_jobs (json_page_result x tn u items st) = []
           then (if consecutive_empty st + 1 < 2
                 then Advance (st\<lparr>trace := Sent (GET u) # trace st,
                                  seen_job_ids := seen (json_page_result x tn u items st),
                                  consecutive_empty := consecutive_empty st + 1\<rparr>)
                 else Break (st\<lparr>trace := Sent (GET u) # trace st,
                                seen_job_ids := seen (json_page_result x tn u items st),
                                consecutive_empty := consecutive_empty st + 1\<rparr>))
           else Advance (st\<lparr>trace := Sent (GET u) # trace st,
                            seen_job_ids := seen (json_page_result x tn u items st),
                            consecutive_empty := 0,
                            jobs := jobs st @ page_jobs (json_page_result x tn u items st)\<rparr>)))
   \<and> (net (trace sh) (GET (html_page_url x endpoint pp psp psize (page sh))) = Replied rh
      \<and> job_elements x (body rh) \<noteq> []
      \<and> \<not> 4 * length (job_elements x (body rh))
             < 5 * page_duplicates (html_page_result x tn endpoint (job_elements x (body rh)) sh)
    \<longrightarrow> html_page x net tn endpoint pp psp psize sh =
          (if page_jobs (html_page_result x tn endpoint (job_elements x (body rh)) sh) = []
           then (if consecutive_empty sh + 1 < 2
                 then Advance (sh\<lparr>trace := Sent (GET (html_page_url x endpoint pp psp psize (page sh))) # trace sh,
                                  seen_job_ids := seen (html_page_result x tn endpoint (job_elements x (body rh)) sh),
                                  consecutive_empty := consecutive_empty sh + 1\<rparr>)
                 else Break (sh\<lparr>trace := Sent (GET (html_page_url x endpoint pp psp psize (page sh))) # trace sh,
                                seen_job_ids := seen (html_page_result x tn endpoint (job_elements x (body rh)) sh),
                                consecutive_empty := consecutive_empty sh + 1\<rparr>))
           else Advance (sh\<lparr>trace := Sent (GET (html_page_url x endpoint pp psp psize (page sh))) # trace sh,
                            seen_job_ids := seen (html_page_result x tn endpoint (job_elements x (body rh)) sh),
                            consecutive_empty := 0,
                            jobs := jobs sh @ page_jobs (html_page_result x tn endpoint (job_elements x (body rh)) sh)\<rparr>)))
   \<and> (net (trace sf) (GET (html_page_url x endpoint pp psp psize (page sf))) = Replied rf
      \<and> job_elements x (body rf) = []
    \<longrightarrow> html_page x net tn endpoint pp psp psize sf =
          (if consecutive_empty sf + 1 \<ge> 2
           then Break (sf\<lparr>trace := Sent (GET (html_page_url x endpoint pp psp psize (page sf))) # trace sf,
                          consecutive_empty := consecutive_empty sf + 1\<rparr>)
           else Advance (sf\<lparr>trace := Sent (GET (html_page_url x endpoint pp psp psize (page sf))) # trace sf,
                            consecutive_empty := consecutive_empty sf + 1\<rparr>)))
   \<and> (json_page_url x tmpl pp psp psize (page se) = Some ue
      \<and> net (trace se) (GET ue) = Replied re \<and> status_code re = 200
      \<and> json_loads x (body re) = Some datae \<and> py_iter (jobs_list_of datae) = Some []
    \<longrightarrow> json_page x net tn tmpl pp psp psize se =
          (if consecutive_empty se + 1 \<ge> 2
           then Break (se\<lparr>trace := Sent (GET ue) # trace se, consecutive_empty := consecutive_empty se + 1\<rparr>)
           else Advance (se\<lparr>trace := Sent (GET ue) # trace se, consecutive_empty := consecutive_empty se + 1\<rparr>)))
   \<and> (json_page x net tn tmpl pp psp psize sa = Advance sa'
    \<longrightarrow> consecutive_empty sa' = (if jobs sa' = jobs sa then consecutive_empty sa + 1 else 0)
        \<and> consecutive_empty sa' < 2)
   \<and> (html_page x net tn endpoint pp psp psize sb = Advance sb'
    \<longrightarrow> consecutive_empty sb' = (if jobs sb' = jobs sb then consecutive_empty sb + 1 else 0)
        \<and> consecutive_empty sb' < 2)
   \<and> (page sj < MAX_PAGES_PER_SITE
      \<and> json_page_url x tmpl pp psp psize (page sj) = Some uj
      \<and> net (trace sj) (GET uj) = Replied rj \<and> status_code rj = 200
      \<and> json_loads x (body rj) = Some dataj \<and> py_iter (jobs_list_of dataj) = Some itemsj
      \<and> \<not> 4 * length itemsj < 5 * page_duplicates (json_page_result x tn uj itemsj sj)
      \<and> page_jobs (json_page_result x tn uj itemsj sj) = [] \<and> 1 \<le> consecutive_empty sj
    \<longrightarrow> json_pages x net tn tmpl pp psp psize sj =
          Finished (sj\<lparr>trace := Sent (GET uj) # trace sj,
                       seen_job_ids := seen (json_page_result x tn uj itemsj sj),
                       consecutive_empty := consecutive_empty sj + 1\<rparr>))
   \<and> (page sk < MAX_PAGES_PER_SITE
      \<and> net (trace sk) (GET (html_page_url x endpoint pp psp psize (page sk))) = Replied rk
      \<and> job_elements x (body rk) \<noteq> []
      \<and> \<not> 4 * length (job_elements x (body rk))
             < 5 * page_duplicates (html_page_result x tn endpoint (job_elements x (body rk)) sk)
      \<and> page_jobs (html_page_result x tn endpoint (job_elements x (body rk)) sk) = []
      \<and> 1 \<le> consecutive_empty sk
    \<longrightarrow> html_pages x net tn endpoint pp psp psize sk =
          Finished (sk\<lparr>trace := Sent (GET (html_page_url x endpoint pp psp psize (page sk))) # trace sk,
                       seen_job_ids := seen (html_page_result x tn endpoint (job_elements x (body rk)) sk),
                       consecutive_empty := consecutive_empty sk + 1\<rparr>))
   \<and> (json_page_url x tmpl pp psp psize 0 = Some u0 \<and> json_page_url x tmpl pp psp psize 1 = Some u1
      \<and> json_page_url x tmpl pp psp psize 2 = Some u2
      \<and> net tr (GET u0) = Replied r0 \<and> net (Sent (GET u0) # tr) (GET u1) = Replied r1
      \<and> net (Sent (GET u1) # Sent (GET u0) # tr) (GET u2) = Replied r2
      \<and> status_code r0 = 200 \<and> json_loads x (body r0) = Some data0
      \<and> py_iter (jobs_list_of data0) = Some items0
      \<and> status_code r1 = 200 \<and> json_loads x (body r1) = Some data1
      \<and> py_iter (jobs_list_of data1) = Some []
      \<and> status_code r2 = 200 \<and> json_loads x (body r2) = Some data2
      \<and> py_iter (jobs_list_of data2) = Some []
      \<and> map (\<lambda>item. parse_job_from_json x item tn (json_base_url u0)) items0 = map Some js
      \<and> js \<noteq> [] \<and> distinct (emitted_ids js)
    \<longrightarrow> scrape_via_json_api x net tn tmpl pp psp psize tr =
          (Returned js, Collected Json_api (length js)
             # Sent (GET u2) # Sent (GET u1) # Sent (GET u0) # tr))
   \<and> (net tr (GET (html_page_url x endpoint pp psp psize 0)) = Replied q0
      \<and> net (Sent (GET (html_page_url x endpoint pp psp psize 0)) # tr)
            (GET (html_page_url x endpoint pp psp psize 1)) = Replied q1
      \<and> net (Sent (GET (html_page_url x endpoint pp psp psize 1))
               # Sent (GET (html_page_url x endpoint pp psp psize 0)) # tr)
            (GET (html_page_url x endpoint pp psp psize 2)) = Replied q2
      \<and> map (\<lambda>el. parse_job_from_listing x el endpoint tn) (job_elements x (body q0)) = map Some ks
      \<and> job_elements x (body q1) = [] \<and> job_elements x (body q2) = []
      \<and> ks \<noteq> [] \<and> distinct (emitted_ids ks)
    \<longrightarrow> scrape_via_html_parsing x net tn endpoint pp psp psize tr =
          (Returned ks, Collected Html (length ks)
             # Sent (GET (html_page_url x endpoint pp psp psize 2))
             # Sent (GET (html_page_url x endpoint pp psp psize 1))
             # Sent (GET (html_page_url x endpoint pp psp psize 0)) # tr))"
proof (intro conjI impI)
  assume "json_page_url x tmpl pp psp psize (page st) = Some u
      \<and> net (trace st) (GET u) = Replied r \<and> status_code r = 200
      \<and> json_loads x (body r) = Some data \<and> py_iter (jobs_list_of data) = Some items
      \<and> \<not> 4 * length items < 5 * page_duplicates (json_page_result x tn u items st)"
  then show "json_page x net tn tmpl pp psp psize st =
          (if page_jobs (json_page_result x tn u items st) = []
           then (if consecutive_empty st + 1 < 2
                 then Advance (st\<lparr>trace := Sent (GET u) # trace st,
                                  seen_job_ids := seen (json_page_result x tn u items st),
                                  consecutive_empty := consecutive_empty st + 1\<rparr>)
                 else Break (st\<lparr>trace := Sent (GET u) # trace st,
                                seen_job_ids := seen (json_page_result x tn u items st),
                                consecutive_empty := consecutive_empty st + 1\<rparr>))
           else Advance (st\<lparr>trace := Sent (GET u) # trace st,
                            seen_job_ids := seen (json_page_result x tn u items st),
                            consecutive_empty := 0,
                            jobs := jobs st @ page_jobs (json_page_result x tn u items st)\<rparr>))"
    by (intro json_page_emptiness[where r = r and data = data]) simp_all
next
  assume "net (trace sh) (GET (html_page_url x endpoint pp psp psize (page sh))) = Replied rh
      \<and> job_elements x (body rh) \<noteq> []
      \<and> \<not> 4 * length (job_elements x (body rh))
             < 5 * page_duplicates (html_page_result x tn endpoint (job_elements x (body rh)) sh)"
  then show "html_page x net tn endpoint pp psp psize sh =
          (if page_jobs (html_page_result x tn endpoint (job_elements x (body rh)) sh) = []
           then (if consecutive_empty sh + 1 < 2
                 then Advance (sh\<lparr>trace := Sent (GET (html_page_url x endpoint pp psp psize (page sh))) # trace sh,
                                  seen_job_ids := seen (html_page_result x tn endpoint (job_elements x (body rh)) sh),
                                  consecutive_empty := consecutive_empty sh + 1\<rparr>)
                 else Break (sh\<lparr>trace := Sent (GET (html_page_url x endpoint pp psp psize (page sh))) # trace sh,
                                seen_job_ids := seen (html_page_result x tn endpoint (job_elements x (body rh)) sh),
                                consecutive_empty := consecutive_empty sh + 1\<rparr>))
           else Advance (sh\<lparr>trace := Sent (GET (html_page_url x endpoint pp psp psize (page sh))) # trace sh,
                            seen_job_ids := seen (html_page_result x tn endpoint (job_elements x (body rh)) sh),
                            consecutive_empty := 0,
                            jobs := jobs sh @ page_jobs (html_page_result x tn endpoint (job_elements x (body rh)) sh)\<rparr>))"
    by (intro html_page_emptiness) simp_all
next
  assume "net (trace sf) (GET (html_page_url x endpoint pp psp psize (page sf))) = Replied rf
      \<and> job_elements x (body rf) = []"
  then show "html_page x net tn endpoint pp psp psize sf =
          (if consecutive_empty sf + 1 \<ge> 2
           then Break (sf\<lparr>trace := Sent (GET (html_page_url x endpoint pp psp psize (page sf))) # trace sf,
                          consecutive_empty := consecutive_empty sf + 1\<rparr>)
           else Advance (sf\<lparr>trace := Sent (GET (html_page_url x endpoint pp psp psize (page sf))) # trace sf,
                            consecutive_empty := consecutive_empty sf + 1\<rparr>))"
    by (intro html_page_empty[where r = rf]) simp_all
next
  assume "json_page_url x tmpl pp psp psize (page se) = Some ue
      \<and> net (trace se) (GET ue) = Replied re \<and> status_code re = 200
      \<and> json_loads x (body re) = Some datae \<and> py_iter (jobs_list_of datae) = Some []"
  then show "json_page x net tn tmpl pp psp psize se =
          (if consecutive_empty se + 1 \<ge> 2
           then Break (se\<lparr>trace := Sent (GET ue) # trace se, consecutive_empty := consecutive_empty se + 1\<rparr>)
           else Advance (se\<lparr>trace := Sent (GET ue) # trace se, consecutive_empty := consecutive_empty se + 1\<rparr>))"
    by (intro json_page_empty[where r = re and data = datae]) simp_all
next
  assume "json_page x net tn tmpl pp psp psize sa = Advance sa'"
  from json_page_counter[OF this]
  show "consecutive_empty sa' = (if jobs sa' = jobs sa then consecutive_empty sa + 1 else 0)"
    and "consecutive_empty sa' < 2" by simp_all
next
  assume "html_page x net tn endpoint pp psp psize sb = Advance sb'"
  from html_page_counter[OF this]
  show "consecutive_empty sb' = (if jobs sb' = jobs sb then consecutive_empty sb + 1 else 0)"
    and "consecutive_empty sb' < 2" by simp_all
next
  assume a: "page sj < MAX_PAGES_PER_SITE
      \<and> json_page_url x tmpl pp psp psize (page sj) = Some uj
      \<and> net (trace sj) (GET uj) = Replied rj \<and> status_code rj = 200
      \<and> json_loads x (body rj) = Some dataj \<and> py_iter (jobs_list_of dataj) = Some itemsj
      \<and> \<not> 4 * length itemsj < 5 * page_duplicates (json_page_result x tn uj itemsj sj)
      \<and> page_jobs (json_page_result x tn uj itemsj sj) = [] \<and> 1 \<le> consecutive_empty sj"
  then have "json_page x net tn tmpl pp psp psize sj =
          Break (sj\<lparr>trace := Sent (GET uj) # trace sj,
                    seen_job_ids := seen (json_page_result x tn uj itemsj sj),
                    consecutive_empty := consecutive_empty sj + 1\<rparr>)"
    using json_page_emptiness[where x = x and net = net and tn = tn and tmpl = tmpl and pp = pp
        and psp = psp and psize = psize and st = sj and u = uj and r = rj and data = dataj
        and items = itemsj]
    by simp
  with a show "json_pages x net tn tmpl pp psp psize sj =
          Finished (sj\<lparr>trace := Sent (GET uj) # trace sj,
                       seen_job_ids := seen (json_page_result x tn uj itemsj sj),
                       consecutive_empty := consecutive_empty sj + 1\<rparr>)"
    by (intro json_pages_break) simp_all
next
  assume a: "page sk < MAX_PAGES_PER_SITE
      \<and> net (trace sk) (GET (html_page_url x endpoint pp psp psize (page sk))) = Replied rk
      \<and> job_elements x (body rk) \<noteq> []
      \<and> \<not> 4 * length (job_elements x (body rk))
             < 5 * page_duplicates (html_page_result x tn endpoint (job_elements x (body rk)) sk)
      \<and> page_jobs (html_page_result x tn endpoint (job_elements x (body rk)) sk) = []
      \<and> 1 \<le> consecutive_empty sk"
  then have "html_page x net tn endpoint pp psp psize sk =
          Break (sk\<lparr>trace := Sent (GET (html_page_url x endpoint pp psp psize (page sk))) # trace sk,
                    seen_job_ids := seen (html_page_result x tn endpoint (job_elements x (body rk)) sk),
                    consecutive_empty := consecutive_empty sk + 1\<rparr>)"
    using html_page_emptiness[where x = x and net = net and tn = tn and endpoint = endpoint
        and pp = pp and psp = psp and psize = psize and st = sk and r = rk]
    by simp
  with a show "html_pages x net tn endpoint pp psp psize sk =
          Finished (sk\<lparr>trace := Sent (GET (html_page_url x endpoint pp psp psize (page sk))) # trace sk,
                       seen_job_ids := seen (html_page_result x tn endpoint (job_elements x (body rk)) sk),
                       consecutive_empty := consecutive_empty sk + 1\<rparr>)"
    by (intro html_pages_break) simp_all
next
  assume "json_page_url x tmpl pp psp psize 0 = Some u0 \<and> json_page_url x tmpl pp psp psize 1 = Some u1
      \<and> json_page_url x tmpl pp psp psize 2 = Some u2
      \<and> net tr (GET u0) = Replied r0 \<and> net (Sent (GET u0) # tr) (GET u1) = Replied r1
      \<and> net (Sent (GET u1) # Sent (GET u0) # tr) (GET u2) = Replied r2
      \<and> status_code r0 = 200 \<and> json_loads x (body r0) = Some data0
      \<and> py_iter (jobs_list_of data0) = Some items0
      \<and> status_code r1 = 200 \<and> json_loads x (body r1) = Some data1
      \<and> py_iter (jobs_list_of data1) = Some []
      \<and> status_code r2 = 200 \<and> json_loads x (body r2) = Some data2
      \<and> py_iter (jobs_list_of data2) = Some []
      \<and> map (\<lambda>item. parse_job_from_json x item tn (json_base_url u0)) items0 = map Some js
      \<and> js \<noteq> [] \<and> distinct (emitted_ids js)"
  then show "scrape_via_json_api x net tn tmpl pp psp psize tr =
          (Returned js, Collected Json_api (length js)
             # Sent (GET u2) # Sent (GET u1) # Sent (GET u0) # tr)"
    by (intro json_new_then_empty[where ?r0.0 = r0 and ?r1.0 = r1 and ?r2.0 = r2
          and ?data0.0 = data0 and ?data1.0 = data1 and ?data2.0 = data2 and items = items0]) simp_all
next
  assume "net tr (GET (html_page_url x endpoint pp psp psize 0)) = Replied q0
      \<and> net (Sent (GET (html_page_url x endpoint pp psp psize 0)) # tr)
            (GET (html_page_url x endpoint pp psp psize 1)) = Replied q1
      \<and> net (Sent (GET (html_page_url x endpoint pp psp psize 1))
               # Sent (GET (html_page_url x endpoint pp psp psize 0)) # tr)
            (GET (html_page_url x endpoint pp psp psize 2)) = Replied q2
      \<and> map (\<lambda>el. parse_job_from_listing x el endpoint tn) (job_elements x (body q0)) = map Some ks
      \<and> job_elements x (body q1) = [] \<and> job_elements x (body q2) = []
      \<and> ks \<noteq> [] \<and> distinct (emitted_ids ks)"
  then show "scrape_via_html_parsing x net tn endpoint pp psp psize tr =
          (Returned ks, Collected Html (length ks)
             # Sent (GET (html_page_url x endpoint pp psp psize 2))
             # Sent (GET (html_page_url x endpoint pp psp psize 1))
             # Sent (GET (html_page_url x endpoint pp psp psize 0)) # tr)"
    by (intro html_new_then_empty[where ?r0.0 = q0 and ?r1.0 = q1 and ?r2.0 = q2]) simp_all
qed


theorem empty_pages_witness:
  "scrape_via_json_api demo_ext json_then_empty_net (PStr ''t.example'') json_template
       (PStr ''jobOffset'') (PStr ''jobRecords'') 50 []
     = (Returned five_json_records,
        [Collected Json_api 5, Sent (GET json_page2_url), Sent (GET json_page1_url), Sent (GET json_template)])
   \<and> length five_json_records = 5
   \<and> scrape_via_html_parsing demo_ext html_then_empty_net (PStr ''t.example'') search_endpoint
       (PStr ''jobOffset'') (PStr ''jobRecords'') 50 []
     = (Returned five_html_records,
        [Collected Html 5, Sent (GET html_page2_url), Sent (GET html_page1_url), Sent (GET html_page0_url)])
   \<and> length five_html_records = 5
   \<and> json_page demo_ext json_then_untitled_net (PStr ''t.example'') json_template
       (PStr ''jobOffset'') (PStr ''jobRecords'') 50
       \<lparr>jobs = five_json_records, page = 1, consecutive_empty = 0, seen_job_ids = {},
        trace = [Sent (GET json_template)]\<rparr>
     = Advance \<lparr>jobs = five_json_records, page = 1, consecutive_empty = 1, seen_job_ids = {},
                trace = [Sent (GET json_page1_url), Sent (GET json_template)]\<rparr>
   \<and> json_page demo_ext json_then_untitled_net (PStr ''t.example'') json_template
       (PStr ''jobOffset'') (PStr ''jobRecords'') 50
       \<lparr>jobs = five_json_records, page = 1, consecutive_empty = 1, seen_job_ids = {},
        trace = [Sent (GET json_template)]\<rparr>
     = Break \<lparr>jobs = five_json_records, page = 1, consecutive_empty = 2, seen_job_ids = {},
              trace = [Sent (GET json_page1_url), Sent (GET json_template)]\<rparr>
   \<and> html_page demo_ext html_then_plain_net (PStr ''t.example'') search_endpoint
       (PStr ''jobOffset'') (PStr ''jobRecords'') 50
       \<lparr>jobs = five_html_records, page = 1, consecutive_empty = 0, seen_job_ids = {},
        trace = [Sent (GET html_page0_url)]\<rparr>
     = Advance \<lparr>jobs = five_html_records, page = 1, consecutive_empty = 1, seen_job_ids = {},
                trace = [Sent (GET html_page1_url), Sent (GET html_page0_url)]\<rparr>
   \<and> html_page demo_ext html_then_plain_net (PStr ''t.example'') search_endpoint
       (PStr ''jobOffset'') (PStr ''jobRecords'') 50
       \<lparr>jobs = five_html_records, page = 1, consecutive_empty = 1, seen_job_ids = {},
        trace = [Sent (GET html_page0_url)]\<rparr>
     = Break \<lparr>jobs = five_html_records, page = 1, consecutive_empty = 2, seen_job_ids = {},
              trace = [Sent (GET html_page1_url), Sent (GET html_page0_url)]\<rparr>
   \<and> scrape_via_json_api demo_ext json_then_untitled_net (PStr ''t.example'') json_template
       (PStr ''jobOffset'') (PStr ''jobRecords'') 50 []
     = (Returned five_json_records,
        [Collected Json_api 5, Sent (GET json_page2_url), Sent (GET json_page1_url), Sent (GET json_template)])
   \<and> scrape_via_html_parsing demo_ext html_then_plain_net (PStr ''t.example'') search_endpoint
       (PStr ''jobOffset'') (PStr ''jobRecords'') 50 []
     = (Returned five_html_records,
        [Collected Html 5, Sent (GET html_page2_url), Sent (GET html_page1_url), Sent (GET html_page0_url)])"
proof -
  note T = empty_pages_stop_extraction[where x = demo_ext and tn = "PStr ''t.example''"
      and tmpl = json_template and endpoint = search_endpoint and pp = "PStr ''jobOffset''"
      and psp = "PStr ''jobRecords''" and psize = 50 and tr = "[]"]
  note J = T[where net = json_then_empty_net
      and ?u0.0 = json_template and ?u1.0 = json_page1_url and ?u2.0 = json_page2_url
      and ?r0.0 = "\<lparr>status_code = 200, body = five_jobs_body, final_url = json_template\<rparr>"
      and ?r1.0 = "\<lparr>status_code = 200, body = ''[]'', final_url = json_page1_url\<rparr>"
      and ?r2.0 = "\<lparr>status_code = 200, body = ''[]'', final_url = json_page2_url\<rparr>"
      and ?data0.0 = five_jobs_json and ?data1.0 = "PList []" and ?data2.0 = "PList []"
      and ?items0.0 = "case five_jobs_json of PList vs \<Rightarrow> vs | _ \<Rightarrow> []"
      and js = five_json_records,
      THEN conjunct2, THEN conjunct2, THEN conjunct2, THEN conjunct2, THEN conjunct2,
      THEN conjunct2, THEN conjunct2, THEN conjunct2, THEN conjunct1]
  have j: "scrape_via_json_api demo_ext json_then_empty_net (PStr ''t.example'') json_template
       (PStr ''jobOffset'') (PStr ''jobRecords'') 50 []
     = (Returned five_json_records,
        Collected Json_api (length five_json_records)
          # Sent (GET json_page2_url) # Sent (GET json_page1_url) # Sent (GET json_template) # [])"
    using J demo_json_urls demo_json_pages demo_json_items demo_json_parsed demo_json_ids
    by (simp add: json_then_empty_net_def)
  note H = T[where net = html_then_empty_net
      and ?q0.0 = "\<lparr>status_code = 200, body = five_links_body, final_url = html_page0_url\<rparr>"
      and ?q1.0 = "\<lparr>status_code = 200, body = ''<ul></ul>'', final_url = html_page1_url\<rparr>"
      and ?q2.0 = "\<lparr>status_code = 200, body = ''<ul></ul>'', final_url = html_page2_url\<rparr>"
      and ks = five_html_records,
      THEN conjunct2, THEN conjunct2, THEN conjunct2, THEN conjunct2, THEN conjunct2,
      THEN conjunct2, THEN conjunct2, THEN conjunct2, THEN conjunct2]
  have h: "scrape_via_html_parsing demo_ext html_then_empty_net (PStr ''t.example'') search_endpoint
       (PStr ''jobOffset'') (PStr ''jobRecords'') 50 []
     = (Returned five_html_records,
        Collected Html (length five_html_records)
          # Sent (GET html_page2_url) # Sent (GET html_page1_url) # Sent (GET html_page0_url) # [])"
    using H demo_html_urls demo_html_parsed demo_html_ids
    by (simp add: html_then_empty_net_def)
  have pj: "json_page demo_ext json_then_untitled_net (PStr ''t.example'') json_template
       (PStr ''jobOffset'') (PStr ''jobRecords'') 50
       \<lparr>jobs = five_json_records, page = 1, consecutive_empty = c, seen_job_ids = {},
        trace = [Sent (GET json_template)]\<rparr>
     = (if c + 1 < 2
        then Advance \<lparr>jobs = five_json_records, page = 1, consecutive_empty = c + 1, seen_job_ids = {},
                trace = [Sent (GET json_page1_url), Sent (GET json_template)]\<rparr>
        else Break \<lparr>jobs = five_json_records, page = 1, consecutive_empty = c + 1, seen_job_ids = {},
                trace = [Sent (GET json_page1_url), Sent (GET json_template)]\<rparr>)" for c
    using T[where net = json_then_untitled_net
        and st = "\<lparr>jobs = five_json_records, page = 1, consecutive_empty = c, seen_job_ids = {},
                   trace = [Sent (GET json_template)]\<rparr>"
        and u = json_page1_url
        and r = "\<lparr>status_code = 200, body = untitled_jobs_body, final_url = json_page1_url\<rparr>"
        and data = untitled_jobs_json
        and items = "case untitled_jobs_json of PList vs \<Rightarrow> vs | _ \<Rightarrow> []",
        THEN conjunct1]
      demo_json_urls demo_untitled_pages
    by (simp add: json_then_untitled_net_def)
  have ph: "html_page demo_ext html_then_plain_net (PStr ''t.example'') search_endpoint
       (PStr ''jobOffset'') (PStr ''jobRecords'') 50
       \<lparr>jobs = five_html_records, page = 1, consecutive_empty = c, seen_job_ids = {},
        trace = [Sent (GET html_page0_url)]\<rparr>
     = (if c + 1 < 2
        then Advance \<lparr>jobs = five_html_records, page = 1, consecutive_empty = c + 1, seen_job_ids = {},
                trace = [Sent (GET html_page1_url), Sent (GET html_page0_url)]\<rparr>
        else Break \<lparr>jobs = five_html_records, page = 1, consecutive_empty = c + 1, seen_job_ids = {},
                trace = [Sent (GET html_page1_url), Sent (GET html_page0_url)]\<rparr>)" for c
    using T[where net = html_then_plain_net
        and sh = "\<lparr>jobs = five_html_records, page = 1, consecutive_empty = c, seen_job_ids = {},
                   trace = [Sent (GET html_page0_url)]\<rparr>"
        and rh = "\<lparr>status_code = 200, body = plain_items_body, final_url = html_page1_url\<rparr>",
        THEN conjunct2, THEN conjunct1]
      demo_html_urls demo_untitled_pages
    by (simp add: html_then_plain_net_def)
  from j h pj[of 0] pj[of 1] ph[of 0] ph[of 1] demo_json_ids demo_html_ids demo_untitled_runs
  show ?thesis by simp
qed

section \<open>Properties of the choice of driver\<close>

lemma try_api_urls_found:
  "(fst (try_api_urls x net urls tr) \<noteq> None) = api_answers x net urls tr"
proof (induction urls arbitrary: tr)
  case Nil
  show ?case by simp
next
  case (Cons u us)
  show ?case
  proof (cases "accepted_as_api x (net tr (GET u))")
    case True
    then show ?thesis
      by (auto simp: accepted_as_api_def Let_def split: outcome.splits option.splits pyval.splits if_splits)
  next
    case False
    then have "try_api_urls x net (u # us) tr = try_api_urls x net us (Sent (GET u) # tr)"
      by (auto simp: accepted_as_api_def Let_def split: outcome.splits option.splits pyval.splits if_splits)
    with False Cons.IH[of "Sent (GET u) # tr"] show ?thesis by simp
  qed
qed

lemma try_api_urls_member:
  "try_api_urls x net urls tr = (Some (u, d), tr') \<Longrightarrow> u \<in> set urls"
  by (induction urls arbitrary: tr)
     (auto simp: Let_def split: outcome.splits option.splits pyval.splits if_splits)

lemma candidate_nonempty: "u \<in> set (candidate_api_urls endpoint offset limit) \<Longrightarrow> u \<noteq> []"
  by (auto simp: candidate_api_urls_def Let_def)

lemma json_driver_logs:
  "fst (scrape_via_json_api x net tn tmpl pp psp psize tr) \<noteq> Raised \<Longrightarrow>
   driver_used (snd (scrape_via_json_api x net tn tmpl pp psp psize tr)) = Some Json_api"
  by (simp add: scrape_via_json_api_def driver_used_def split: loop_end.splits)

lemma html_page_not_propagate: "html_page x net tn endpoint pp psp psize st \<noteq> Propagate"
  by (simp add: html_page_def Let_def split: outcome.splits)

lemma html_pages_finished:
  "\<exists>st'. html_pages x net tn endpoint pp psp psize st = Finished st'"
proof (induction x net tn endpoint pp psp psize st rule: html_pages.induct)
  case (1 x net tn endpoint pp psp psize st)
  show ?case
  proof (cases "page st < MAX_PAGES_PER_SITE")
    case False
    then show ?thesis by (simp add: html_pages.simps[of _ _ _ _ _ _ _ st])
  next
    case True
    show ?thesis
    proof (cases "html_page x net tn endpoint pp psp psize st")
      case (Break st')
      with True show ?thesis by (simp add: html_pages.simps[of _ _ _ _ _ _ _ st])
    next
      case Propagate
      with html_page_not_propagate show ?thesis by blast
    next
      case (Advance st')
      from "1.IH"[OF True Advance] True Advance show ?thesis
        by (simp add: html_pages.simps[of _ _ _ _ _ _ _ st])
    qed
  qed
qed

lemma html_driver_logs:
  "driver_used (snd (scrape_via_html_parsing x net tn endpoint pp psp psize tr)) = Some Html
   \<and> fst (scrape_via_html_parsing x net tn endpoint pp psp psize tr) \<noteq> Raised"
proof -
  obtain st' where "html_pages x net tn endpoint pp psp psize
      \<lparr>jobs = [], page = 0, consecutive_empty = 0, seen_job_ids = {}, trace = tr\<rparr> = Finished st'"
    using html_pages_finished by blast
  then show ?thesis by (simp add: scrape_via_html_parsing_def driver_used_def)
qed

lemma map_of_dict_set_other: "k' \<noteq> k \<Longrightarrow> map_of (dict_set d k v) k' = map_of d k'"
  by (induction d) auto


lemma demo_detected:
  "fst (detect_endpoint_for_url demo_ext report_up_net ''t.example'' career_url True []) = Returned report_config"
  "fst (detect_endpoint_for_url demo_ext search_api_net ''t.example'' career_url True []) = Returned search_config"
  by code_simp+

lemma demo_report_run:
  "scrape_paginated_endpoint demo_ext report_up_net report_config [] =
     (Returned [],
      [Collected Html 0,
       Sent (GET ''https://t.example/PublicReports/12/json?offset=1000&recordsPerPage=1000''),
       Sent (GET ''https://t.example/PublicReports/12/json?offset=0&recordsPerPage=1000''),
       Sent (GET ''https://t.example/PublicReports/12/api/jobs?offset=0&limit=1000''),
       Sent (GET ''https://t.example/PublicReports/12/json?output=json&jobOffset=0&jobRecords=1000''),
       Sent (GET ''https://t.example/PublicReports/12/PublicReports?actionPerformed=getJobsForCareerPage&jobOffset=0&jobRecords=1000'')])"
  by code_simp

lemma demo_search_run:
  "(case scrape_paginated_endpoint demo_ext search_api_net search_config [] of
      (Returned js, tr) \<Rightarrow>
        length js = 10 \<and>
        tr = [Collected Json_api 10,
              Sent (GET ''https://t.example/careers//PublicReports?actionPerformed=getJobsForCareerPage&jobOffset=50&jobRecords=50''),
              Sent (GET ''https://t.example/careers//PublicReports?actionPerformed=getJobsForCareerPage&jobOffset=0&jobRecords=50''),
              Sent (GET ''https://t.example/careers//PublicReports?actionPerformed=getJobsForCareerPage&jobOffset=0&jobRecords=50'')]
    | (Raised, tr) \<Rightarrow> False)"
  by code_simp

text \<open>
  Claim C4, as far as it holds. \<^verbatim>\<open>scrape_paginated_endpoint\<close> does not read the \<^verbatim>\<open>type\<close> of the
  configuration: replacing it changes nothing. The driver is chosen by the probe of
  \<^verbatim>\<open>try_json_api\<close>: for a configuration with a tenant, a string endpoint and a page size, a run
  that returns has used the JSON driver when one of the three candidate URLs got an answer
  that \<^verbatim>\<open>try_json_api\<close> accepts, and the HTML driver when none did.
\<close>

theorem driver_selected_by_probe:
  "scrape_paginated_endpoint x net (dict_set config ''type'' t) tr = scrape_paginated_endpoint x net config tr
   \<and> (map_of config ''tenant'' = Some tn \<and> map_of config ''endpoint'' = Some (PStr endpoint)
      \<and> py_int x (case map_of config ''default_page_size'' of None \<Rightarrow> PInt 50 | Some v \<Rightarrow> v) = Some psize
      \<and> fst (scrape_paginated_endpoint x net config tr) \<noteq> Raised
    \<longrightarrow> driver_used (snd (scrape_paginated_endpoint x net config tr))
          = Some (if api_answers x net (candidate_api_urls endpoint 0 psize) tr then Json_api else Html))"
proof (intro conjI impI)
  have same: "map_of (dict_set config ''type'' t) ''tenant'' = map_of config ''tenant''"
    "map_of (dict_set config ''type'' t) ''endpoint'' = map_of config ''endpoint''"
    "map_of (dict_set config ''type'' t) ''pagination_param'' = map_of config ''pagination_param''"
    "map_of (dict_set config ''type'' t) ''page_size_param'' = map_of config ''page_size_param''"
    "map_of (dict_set config ''type'' t) ''default_page_size'' = map_of config ''default_page_size''"
    by (simp_all add: map_of_dict_set_other)
  show "scrape_paginated_endpoint x net (dict_set config ''type'' t) tr = scrape_paginated_endpoint x net config tr"
    unfolding scrape_paginated_endpoint_def by (simp only: same)
next
  assume a: "map_of config ''tenant'' = Some tn \<and> map_of config ''endpoint'' = Some (PStr endpoint)
      \<and> py_int x (case map_of config ''default_page_size'' of None \<Rightarrow> PInt 50 | Some v \<Rightarrow> v) = Some psize
      \<and> fst (scrape_paginated_endpoint x net config tr) \<noteq> Raised"
  let ?pp = "case map_of config ''pagination_param'' of None \<Rightarrow> PStr ''jobOffset'' | Some v \<Rightarrow> v"
  let ?psp = "case map_of config ''page_size_param'' of None \<Rightarrow> PStr ''jobRecords'' | Some v \<Rightarrow> v"
  let ?urls = "candidate_api_urls endpoint 0 psize"
  obtain found tr' where t: "try_api_urls x net ?urls tr = (found, tr')"
    by (cases "try_api_urls x net ?urls tr")
  from try_api_urls_found[of x net ?urls tr] t
  have f: "(found \<noteq> None) = api_answers x net ?urls tr" by simp
  show "driver_used (snd (scrape_paginated_endpoint x net config tr))
          = Some (if api_answers x net ?urls tr then Json_api else Html)"
  proof (cases found)
    case None
    with a t f html_driver_logs[of x net tn endpoint ?pp ?psp psize tr'] show ?thesis
      by (simp add: scrape_paginated_endpoint_def try_json_api_def)
  next
    case (Some hit)
    obtain api_url sample where hit: "hit = (api_url, sample)" by (cases hit)
    with Some t try_api_urls_member have "api_url \<in> set ?urls" by blast
    then have ne: "api_url \<noteq> []" by (rule candidate_nonempty)
    from a t Some hit ne
    have run: "scrape_paginated_endpoint x net config tr =
                 scrape_via_json_api x net tn api_url ?pp ?psp psize tr'"
      by (simp add: scrape_paginated_endpoint_def try_json_api_def)
    with a have "fst (scrape_via_json_api x net tn api_url ?pp ?psp psize tr') \<noteq> Raised" by simp
    from json_driver_logs[OF this] run f Some show ?thesis by simp
  qed
qed


theorem driver_selected_by_probe_witness:
  "scrape_paginated_endpoint demo_ext report_up_net
       (dict_set report_config ''type'' (PStr ''search_jobs_html'')) []
     = scrape_paginated_endpoint demo_ext report_up_net report_config []
   \<and> \<not> api_answers demo_ext report_up_net
         (candidate_api_urls ''https://t.example/PublicReports/12/json'' 0 1000) []
   \<and> driver_used (snd (scrape_paginated_endpoint demo_ext report_up_net report_config [])) = Some Html
   \<and> api_answers demo_ext search_api_net (candidate_api_urls ''https://t.example/careers/SearchJobs'' 0 50) []
   \<and> driver_used (snd (scrape_paginated_endpoint demo_ext search_api_net search_config [])) = Some Json_api"
proof -
  have r: "map_of report_config ''tenant'' = Some (PStr ''t.example'')"
    "map_of report_config ''endpoint'' = Some (PStr ''https://t.example/PublicReports/12/json'')"
    "py_int demo_ext (case map_of report_config ''default_page_size'' of None \<Rightarrow> PInt 50 | Some v \<Rightarrow> v) = Some 1000"
    "\<not> api_answers demo_ext report_up_net
         (candidate_api_urls ''https://t.example/PublicReports/12/json'' 0 1000) []"
    by code_simp+
  have s: "map_of search_config ''tenant'' = Some (PStr ''t.example'')"
    "map_of search_config ''endpoint'' = Some (PStr ''https://t.example/careers/SearchJobs'')"
    "py_int demo_ext (case map_of search_config ''default_page_size'' of None \<Rightarrow> PInt 50 | Some v \<Rightarrow> v) = Some 50"
    "api_answers demo_ext search_api_net (candidate_api_urls ''https://t.example/careers/SearchJobs'' 0 50) []"
    by code_simp+
  have rr: "fst (scrape_paginated_endpoint demo_ext report_up_net report_config []) \<noteq> Raised"
    by (simp add: demo_report_run)
  have sr: "fst (scrape_paginated_endpoint demo_ext search_api_net search_config []) \<noteq> Raised"
    using demo_search_run by (auto split: prod.splits result.splits)
  note R = driver_selected_by_probe[where x = demo_ext and net = report_up_net and config = report_config
      and tr = "[]" and t = "PStr ''search_jobs_html''" and tn = "PStr ''t.example''"
      and endpoint = "''https://t.example/PublicReports/12/json''" and psize = 1000]
  note S = driver_selected_by_probe[where x = demo_ext and net = search_api_net and config = search_config
      and tr = "[]" and tn = "PStr ''t.example''"
      and endpoint = "''https://t.example/careers/SearchJobs''" and psize = 50]
  from R r rr have 1: "scrape_paginated_endpoint demo_ext report_up_net
       (dict_set report_config ''type'' (PStr ''search_jobs_html'')) []
     = scrape_paginated_endpoint demo_ext report_up_net report_config []"
    and 2: "driver_used (snd (scrape_paginated_endpoint demo_ext report_up_net report_config [])) = Some Html"
    by simp_all
  from S s sr have 3: "driver_used (snd (scrape_paginated_endpoint demo_ext search_api_net search_config [])) = Some Json_api"
    by simp
  from 1 2 3 r(4) s(4) show ?thesis by simp
qed

text \<open>
  The claim as stated fails in both directions. The server of the first run answers the
  report test, detection gives the type \<^verbatim>\<open>public_report_json\<close>, and the run over that result
  uses the HTML driver, because the report's answer holds none of the keys that
  \<^verbatim>\<open>try_json_api\<close> looks for. The server of the second run refuses the report test, detection
  gives the type \<^verbatim>\<open>search_jobs_html\<close>, and the run over that result uses the JSON driver.
\<close>

theorem strategy_type_does_not_select_driver:
  "fst (detect_endpoint_for_url demo_ext report_up_net ''t.example'' career_url True []) = Returned report_config
   \<and> dict_get report_config ''type'' = PStr ''public_report_json''
   \<and> driver_used (snd (scrape_paginated_endpoint demo_ext report_up_net report_config [])) = Some Html
   \<and> fst (detect_endpoint_for_url demo_ext search_api_net ''t.example'' career_url True []) = Returned search_config
   \<and> dict_get search_config ''type'' = PStr ''search_jobs_html''
   \<and> driver_used (snd (scrape_paginated_endpoint demo_ext search_api_net search_config [])) = Some Json_api"
proof -
  have t: "dict_get report_config ''type'' = PStr ''public_report_json''"
    "dict_get search_config ''type'' = PStr ''search_jobs_html''"
    by code_simp+
  have "driver_used (snd (scrape_paginated_endpoint demo_ext search_api_net search_config [])) = Some Json_api"
    using demo_search_run by (auto simp: driver_used_def split: prod.splits result.splits)
  with t demo_detected demo_report_run show ?thesis
    by (simp add: driver_used_def)
qed

end
